theory Spec2Isabelle
  imports Complex_Main "HOL-Library.Word" "HOL-Library.Monad_Syntax"
begin

section \<open>Data model\<close>

text \<open>
  The kernels of \<^verbatim>\<open>pml_updates_magnetic_HORIPML.pyx\<close> and
  \<^verbatim>\<open>pml_updates_electric_MRIPML.pyx\<close> receive typed memoryviews: the field
  components are three-dimensional arrays, \<^verbatim>\<open>ID\<close>, \<^verbatim>\<open>Phi1\<close> and \<^verbatim>\<open>Phi2\<close>
  four-dimensional ones, the coefficient tables and the profiles two-dimensional ones.
  An array is modelled as a function from its index tuple to its element. The shapes are
  not passed to the kernels; every access is taken to be inside its array, as the kernels
  themselves take it. The elements of type \<^verbatim>\<open>float_or_double\<close> are modelled as real
  numbers, so the arithmetic is exact; \<^verbatim>\<open>np.uint32_t\<close> is a 32-bit word, read into a
  C \<^verbatim>\<open>int\<close> by \<^term>\<open>sint\<close>. Loop counters and bounds are integers.
\<close>

type_synonym idx2 = "int \<times> int"
type_synonym idx3 = "int \<times> int \<times> int"
type_synonym idx4 = "int \<times> int \<times> int \<times> int"

record pml_state =
  updatecoeffsE :: "idx2 \<Rightarrow> real"
  updatecoeffsH :: "idx2 \<Rightarrow> real"
  ID :: "idx4 \<Rightarrow> 32 word"
  Ex :: "idx3 \<Rightarrow> real"
  Ey :: "idx3 \<Rightarrow> real"
  Ez :: "idx3 \<Rightarrow> real"
  Hx :: "idx3 \<Rightarrow> real"
  Hy :: "idx3 \<Rightarrow> real"
  Hz :: "idx3 \<Rightarrow> real"
  Phi1 :: "idx4 \<Rightarrow> real"
  Phi2 :: "idx4 \<Rightarrow> real"
  RA :: "idx2 \<Rightarrow> real"
  RB :: "idx2 \<Rightarrow> real"
  RE :: "idx2 \<Rightarrow> real"
  RF :: "idx2 \<Rightarrow> real"

text \<open>
  Neither source file sets the \<^verbatim>\<open>cdivision\<close> directive, so a division whose divisor
  is zero raises \<^verbatim>\<open>ZeroDivisionError\<close>. A kernel returns \<^term>\<open>None\<close> when it raises
  and the final state otherwise.
\<close>

definition fdiv :: "real \<Rightarrow> real \<Rightarrow> real option" where
  "fdiv a b = (if b = 0 then None else Some (a / b))"

text \<open>
  \<^verbatim>\<open>for i in range(0, n)\<close> and \<^verbatim>\<open>for i in prange(0, n, ...)\<close>: the body runs for
  \<open>i = 0, ..., n - 1\<close> in turn, on the state the previous iteration left, and the loop
  stops at the first iteration that raises. The iterations of a \<^verbatim>\<open>prange\<close> write
  disjoint cells, so the number of threads does not show in the result and the parameter
  \<^verbatim>\<open>nthreads\<close> is left out of the model.
\<close>

fun for_loop :: "int list \<Rightarrow> (int \<Rightarrow> 's \<Rightarrow> 's option) \<Rightarrow> 's \<Rightarrow> 's option" where
  "for_loop [] body s = Some s"
| "for_loop (i # rest) body s = Option.bind (body i s) (for_loop rest body)"

definition for_range :: "int \<Rightarrow> (int \<Rightarrow> 's \<Rightarrow> 's option) \<Rightarrow> 's \<Rightarrow> 's option" where
  "for_range n body s = for_loop [0..n - 1] body s"

section \<open>The PML kernels\<close>

text \<open>
  The twelve kernels of each module, statement by statement: a local variable is a
  \<open>let\<close>, a checked division a bind of \<^const>\<open>fdiv\<close>, an assignment to an array element
  an update of the state \<open>s\<close>. The two modules give their functions the same names; here
  each carries the name of its module in front. All arrays of a call travel in the one
  state \<open>s\<close>, and a call that returns gives the state after it.
\<close>

text \<open>\<^verbatim>\<open>order1_xminus\<close> of \<^verbatim>\<open>pml_updates_magnetic_HORIPML.pyx\<close>, line 27.\<close>

definition magnetic_HORIPML_order1_xminus ::
  "int \<Rightarrow> int \<Rightarrow> int \<Rightarrow> int \<Rightarrow> int \<Rightarrow> int \<Rightarrow> real \<Rightarrow> pml_state \<Rightarrow> pml_state option" where
"magnetic_HORIPML_order1_xminus xs xf ys yf zs zf d s = do {
  let dx = d;
  let nx = xf - xs;
  let ny = yf - ys;
  let nz = zf - zs;
  for_range nx (\<lambda>i s. do {
      let ii = xf - (i + 1);
      let RA01 = RA s (0, i) - 1;
      let RB0 = RB s (0, i);
      let RE0 = RE s (0, i);
      let RF0 = RF s (0, i);
      for_range ny (\<lambda>j s. do {
          let jj = j + ys;
          for_range nz (\<lambda>k s. do {
              let kk = k + zs;
              let materialHy = sint (ID s (4, ii, jj, kk));
              dEz \<leftarrow> fdiv (Ez s (ii + 1, jj, kk) - Ez s (ii, jj, kk)) dx;
              let s = s\<lparr>Hy := (Hy s)((ii, jj, kk) := Hy s (ii, jj, kk) + updatecoeffsH s (materialHy, 4) * (RA01 * dEz + RB0 * Phi1 s (0, i, j, k)))\<rparr>;
              let s = s\<lparr>Phi1 := (Phi1 s)((0, i, j, k) := RE0 * Phi1 s (0, i, j, k) - RF0 * dEz)\<rparr>;
              let materialHz = sint (ID s (5, ii, jj, kk));
              dEy \<leftarrow> fdiv (Ey s (ii + 1, jj, kk) - Ey s (ii, jj, kk)) dx;
              let s = s\<lparr>Hz := (Hz s)((ii, jj, kk) := Hz s (ii, jj, kk) - updatecoeffsH s (materialHz, 4) * (RA01 * dEy + RB0 * Phi2 s (0, i, j, k)))\<rparr>;
              let s = s\<lparr>Phi2 := (Phi2 s)((0, i, j, k) := RE0 * Phi2 s (0, i, j, k) - RF0 * dEy)\<rparr>;
              Some s
          }) s
      }) s
  }) s
}"

text \<open>\<^verbatim>\<open>order2_xminus\<close> of \<^verbatim>\<open>pml_updates_magnetic_HORIPML.pyx\<close>, line 93.\<close>

definition magnetic_HORIPML_order2_xminus ::
  "int \<Rightarrow> int \<Rightarrow> int \<Rightarrow> int \<Rightarrow> int \<Rightarrow> int \<Rightarrow> real \<Rightarrow> pml_state \<Rightarrow> pml_state option" where
"magnetic_HORIPML_order2_xminus xs xf ys yf zs zf d s = do {
  let dx = d;
  let nx = xf - xs;
  let ny = yf - ys;
  let nz = zf - zs;
  for_range nx (\<lambda>i s. do {
      let ii = xf - (i + 1);
      let RA0 = RA s (0, i);
      let RB0 = RB s (0, i);
      let RE0 = RE s (0, i);
      let RF0 = RF s (0, i);
      let RA1 = RA s (1, i);
      let RB1 = RB s (1, i);
      let RE1 = RE s (1, i);
      let RF1 = RF s (1, i);
      let RA01 = RA s (0, i) * RA s (1, i) - 1;
      for_range ny (\<lambda>j s. do {
          let jj = j + ys;
          for_range nz (\<lambda>k s. do {
              let kk = k + zs;
              let materialHy = sint (ID s (4, ii, jj, kk));
              dEz \<leftarrow> fdiv (Ez s (ii + 1, jj, kk) - Ez s (ii, jj, kk)) dx;
              let s = s\<lparr>Hy := (Hy s)((ii, jj, kk) := Hy s (ii, jj, kk) + updatecoeffsH s (materialHy, 4) * (RA01 * dEz + RA1 * RB0 * Phi1 s (0, i, j, k) + RB1 * Phi1 s (1, i, j, k)))\<rparr>;
              let s = s\<lparr>Phi1 := (Phi1 s)((1, i, j, k) := RE1 * Phi1 s (1, i, j, k) - RF1 * (RA0 * dEz + RB0 * Phi1 s (0, i, j, k)))\<rparr>;
              let s = s\<lparr>Phi1 := (Phi1 s)((0, i, j, k) := RE0 * Phi1 s (0, i, j, k) - RF0 * dEz)\<rparr>;
              let materialHz = sint (ID s (5, ii, jj, kk));
              dEy \<leftarrow> fdiv (Ey s (ii + 1, jj, kk) - Ey s (ii, jj, kk)) dx;
              let s = s\<lparr>Hz := (Hz s)((ii, jj, kk) := Hz s (ii, jj, kk) - updatecoeffsH s (materialHz, 4) * (RA01 * dEy + RA1 * RB0 * Phi2 s (0, i, j, k) + RB1 * Phi2 s (1, i, j, k)))\<rparr>;
              let s = s\<lparr>Phi2 := (Phi2 s)((1, i, j, k) := RE1 * Phi2 s (1, i, j, k) - RF1 * (RA0 * dEy + RB0 * Phi2 s (0, i, j, k)))\<rparr>;
              let s = s\<lparr>Phi2 := (Phi2 s)((0, i, j, k) := RE0 * Phi2 s (0, i, j, k) - RF0 * dEy)\<rparr>;
              Some s
          }) s
      }) s
  }) s
}"

text \<open>\<^verbatim>\<open>order1_xplus\<close> of \<^verbatim>\<open>pml_updates_magnetic_HORIPML.pyx\<close>, line 171.\<close>

definition magnetic_HORIPML_order1_xplus ::
  "int \<Rightarrow> int \<Rightarrow> int \<Rightarrow> int \<Rightarrow> int \<Rightarrow> int \<Rightarrow> real \<Rightarrow> pml_state \<Rightarrow> pml_state option" where
"magnetic_HORIPML_order1_xplus xs xf ys yf zs zf d s = do {
  let dx = d;
  let nx = xf - xs;
  let ny = yf - ys;
  let nz = zf - zs;
  for_range nx (\<lambda>i s. do {
      let ii = i + xs;
      let RA01 = RA s (0, i) - 1;
      let RB0 = RB s (0, i);
      let RE0 = RE s (0, i);
      let RF0 = RF s (0, i);
      for_range ny (\<lambda>j s. do {
          let jj = j + ys;
          for_range nz (\<lambda>k s. do {
              let kk = k + zs;
              let materialHy = sint (ID s (4, ii, jj, kk));
              dEz \<leftarrow> fdiv (Ez s (ii + 1, jj, kk) - Ez s (ii, jj, kk)) dx;
              let s = s\<lparr>Hy := (Hy s)((ii, jj, kk) := Hy s (ii, jj, kk) + updatecoeffsH s (materialHy, 4) * (RA01 * dEz + RB0 * Phi1 s (0, i, j, k)))\<rparr>;
              let s = s\<lparr>Phi1 := (Phi1 s)((0, i, j, k) := RE0 * Phi1 s (0, i, j, k) - RF0 * dEz)\<rparr>;
              let materialHz = sint (ID s (5, ii, jj, kk));
              dEy \<leftarrow> fdiv (Ey s (ii + 1, jj, kk) - Ey s (ii, jj, kk)) dx;
              let s = s\<lparr>Hz := (Hz s)((ii, jj, kk) := Hz s (ii, jj, kk) - updatecoeffsH s (materialHz, 4) * (RA01 * dEy + RB0 * Phi2 s (0, i, j, k)))\<rparr>;
              let s = s\<lparr>Phi2 := (Phi2 s)((0, i, j, k) := RE0 * Phi2 s (0, i, j, k) - RF0 * dEy)\<rparr>;
              Some s
          }) s
      }) s
  }) s
}"

text \<open>\<^verbatim>\<open>order2_xplus\<close> of \<^verbatim>\<open>pml_updates_magnetic_HORIPML.pyx\<close>, line 237.\<close>

definition magnetic_HORIPML_order2_xplus ::
  "int \<Rightarrow> int \<Rightarrow> int \<Rightarrow> int \<Rightarrow> int \<Rightarrow> int \<Rightarrow> real \<Rightarrow> pml_state \<Rightarrow> pml_state option" where
"magnetic_HORIPML_order2_xplus xs xf ys yf zs zf d s = do {
  let dx = d;
  let nx = xf - xs;
  let ny = yf - ys;
  let nz = zf - zs;
  for_range nx (\<lambda>i s. do {
      let ii = i + xs;
      let RA0 = RA s (0, i);
      let RB0 = RB s (0, i);
      let RE0 = RE s (0, i);
      let RF0 = RF s (0, i);
      let RA1 = RA s (1, i);
      let RB1 = RB s (1, i);
      let RE1 = RE s (1, i);
      let RF1 = RF s (1, i);
      let RA01 = RA s (0, i) * RA s (1, i) - 1;
      for_range ny (\<lambda>j s. do {
          let jj = j + ys;
          for_range nz (\<lambda>k s. do {
              let kk = k + zs;
              let materialHy = sint (ID s (4, ii, jj, kk));
              dEz \<leftarrow> fdiv (Ez s (ii + 1, jj, kk) - Ez s (ii, jj, kk)) dx;
              let s = s\<lparr>Hy := (Hy s)((ii, jj, kk) := Hy s (ii, jj, kk) + updatecoeffsH s (materialHy, 4) * (RA01 * dEz + RA1 * RB0 * Phi1 s (0, i, j, k) + RB1 * Phi1 s (1, i, j, k)))\<rparr>;
              let s = s\<lparr>Phi1 := (Phi1 s)((1, i, j, k) := RE1 * Phi1 s (1, i, j, k) - RF1 * (RA0 * dEz + RB0 * Phi1 s (0, i, j, k)))\<rparr>;
              let s = s\<lparr>Phi1 := (Phi1 s)((0, i, j, k) := RE0 * Phi1 s (0, i, j, k) - RF0 * dEz)\<rparr>;
              let materialHz = sint (ID s (5, ii, jj, kk));
              dEy \<leftarrow> fdiv (Ey s (ii + 1, jj, kk) - Ey s (ii, jj, kk)) dx;
              let s = s\<lparr>Hz := (Hz s)((ii, jj, kk) := Hz s (ii, jj, kk) - updatecoeffsH s (materialHz, 4) * (RA01 * dEy + RA1 * RB0 * Phi2 s (0, i, j, k) + RB1 * Phi2 s (1, i, j, k)))\<rparr>;
              let s = s\<lparr>Phi2 := (Phi2 s)((1, i, j, k) := RE1 * Phi2 s (1, i, j, k) - RF1 * (RA0 * dEy + RB0 * Phi2 s (0, i, j, k)))\<rparr>;
              let s = s\<lparr>Phi2 := (Phi2 s)((0, i, j, k) := RE0 * Phi2 s (0, i, j, k) - RF0 * dEy)\<rparr>;
              Some s
          }) s
      }) s
  }) s
}"

text \<open>\<^verbatim>\<open>order1_yminus\<close> of \<^verbatim>\<open>pml_updates_magnetic_HORIPML.pyx\<close>, line 315.\<close>

definition magnetic_HORIPML_order1_yminus ::
  "int \<Rightarrow> int \<Rightarrow> int \<Rightarrow> int \<Rightarrow> int \<Rightarrow> int \<Rightarrow> real \<Rightarrow> pml_state \<Rightarrow> pml_state option" where
"magnetic_HORIPML_order1_yminus xs xf ys yf zs zf d s = do {
  let dy = d;
  let nx = xf - xs;
  let ny = yf - ys;
  let nz = zf - zs;
  for_range nx (\<lambda>i s. do {
      let ii = i + xs;
      for_range ny (\<lambda>j s. do {
          let jj = yf - (j + 1);
          let RA01 = RA s (0, j) - 1;
          let RB0 = RB s (0, j);
          let RE0 = RE s (0, j);
          let RF0 = RF s (0, j);
          for_range nz (\<lambda>k s. do {
              let kk = k + zs;
              let materialHx = sint (ID s (3, ii, jj, kk));
              dEz \<leftarrow> fdiv (Ez s (ii, jj + 1, kk) - Ez s (ii, jj, kk)) dy;
              let s = s\<lparr>Hx := (Hx s)((ii, jj, kk) := Hx s (ii, jj, kk) - updatecoeffsH s (materialHx, 4) * (RA01 * dEz + RB0 * Phi1 s (0, i, j, k)))\<rparr>;
              let s = s\<lparr>Phi1 := (Phi1 s)((0, i, j, k) := RE0 * Phi1 s (0, i, j, k) - RF0 * dEz)\<rparr>;
              let materialHz = sint (ID s (5, ii, jj, kk));
              dEx \<leftarrow> fdiv (Ex s (ii, jj + 1, kk) - Ex s (ii, jj, kk)) dy;
              let s = s\<lparr>Hz := (Hz s)((ii, jj, kk) := Hz s (ii, jj, kk) + updatecoeffsH s (materialHz, 4) * (RA01 * dEx + RB0 * Phi2 s (0, i, j, k)))\<rparr>;
              let s = s\<lparr>Phi2 := (Phi2 s)((0, i, j, k) := RE0 * Phi2 s (0, i, j, k) - RF0 * dEx)\<rparr>;
              Some s
          }) s
      }) s
  }) s
}"

text \<open>\<^verbatim>\<open>order2_yminus\<close> of \<^verbatim>\<open>pml_updates_magnetic_HORIPML.pyx\<close>, line 381.\<close>

definition magnetic_HORIPML_order2_yminus ::
  "int \<Rightarrow> int \<Rightarrow> int \<Rightarrow> int \<Rightarrow> int \<Rightarrow> int \<Rightarrow> real \<Rightarrow> pml_state \<Rightarrow> pml_state option" where
"magnetic_HORIPML_order2_yminus xs xf ys yf zs zf d s = do {
  let dy = d;
  let nx = xf - xs;
  let ny = yf - ys;
  let nz = zf - zs;
  for_range nx (\<lambda>i s. do {
      let ii = i + xs;
      for_range ny (\<lambda>j s. do {
          let jj = yf - (j + 1);
          let RA0 = RA s (0, j);
          let RB0 = RB s (0, j);
          let RE0 = RE s (0, j);
          let RF0 = RF s (0, j);
          let RA1 = RA s (1, j);
          let RB1 = RB s (1, j);
          let RE1 = RE s (1, j);
          let RF1 = RF s (1, j);
          let RA01 = RA s (0, j) * RA s (1, j) - 1;
          for_range nz (\<lambda>k s. do {
              let kk = k + zs;
              let materialHx = sint (ID s (3, ii, jj, kk));
              dEz \<leftarrow> fdiv (Ez s (ii, jj + 1, kk) - Ez s (ii, jj, kk)) dy;
              let s = s\<lparr>Hx := (Hx s)((ii, jj, kk) := Hx s (ii, jj, kk) - updatecoeffsH s (materialHx, 4) * (RA01 * dEz + RA1 * RB0 * Phi1 s (0, i, j, k) + RB1 * Phi1 s (1, i, j, k)))\<rparr>;
              let s = s\<lparr>Phi1 := (Phi1 s)((1, i, j, k) := RE1 * Phi1 s (1, i, j, k) - RF1 * (RA0 * dEz + RB0 * Phi1 s (0, i, j, k)))\<rparr>;
              let s = s\<lparr>Phi1 := (Phi1 s)((0, i, j, k) := RE0 * Phi1 s (0, i, j, k) - RF0 * dEz)\<rparr>;
              let materialHz = sint (ID s (5, ii, jj, kk));
              dEx \<leftarrow> fdiv (Ex s (ii, jj + 1, kk) - Ex s (ii, jj, kk)) dy;
              let s = s\<lparr>Hz := (Hz s)((ii, jj, kk) := Hz s (ii, jj, kk) + updatecoeffsH s (materialHz, 4) * (RA01 * dEx + RA1 * RB0 * Phi2 s (0, i, j, k) + RB1 * Phi2 s (1, i, j, k)))\<rparr>;
              let s = s\<lparr>Phi2 := (Phi2 s)((1, i, j, k) := RE1 * Phi2 s (1, i, j, k) - RF1 * (RA0 * dEx + RB0 * Phi2 s (0, i, j, k)))\<rparr>;
              let s = s\<lparr>Phi2 := (Phi2 s)((0, i, j, k) := RE0 * Phi2 s (0, i, j, k) - RF0 * dEx)\<rparr>;
              Some s
          }) s
      }) s
  }) s
}"

text \<open>\<^verbatim>\<open>order1_yplus\<close> of \<^verbatim>\<open>pml_updates_magnetic_HORIPML.pyx\<close>, line 459.\<close>

definition magnetic_HORIPML_order1_yplus ::
  "int \<Rightarrow> int \<Rightarrow> int \<Rightarrow> int \<Rightarrow> int \<Rightarrow> int \<Rightarrow> real \<Rightarrow> pml_state \<Rightarrow> pml_state option" where
"magnetic_HORIPML_order1_yplus xs xf ys yf zs zf d s = do {
  let dy = d;
  let nx = xf - xs;
  let ny = yf - ys;
  let nz = zf - zs;
  for_range nx (\<lambda>i s. do {
      let ii = i + xs;
      for_range ny (\<lambda>j s. do {
          let jj = j + ys;
          let RA01 = RA s (0, j) - 1;
          let RB0 = RB s (0, j);
          let RE0 = RE s (0, j);
          let RF0 = RF s (0, j);
          for_range nz (\<lambda>k s. do {
              let kk = k + zs;
              let materialHx = sint (ID s (3, ii, jj, kk));
              dEz \<leftarrow> fdiv (Ez s (ii, jj + 1, kk) - Ez s (ii, jj, kk)) dy;
              let s = s\<lparr>Hx := (Hx s)((ii, jj, kk) := Hx s (ii, jj, kk) - updatecoeffsH s (materialHx, 4) * (RA01 * dEz + RB0 * Phi1 s (0, i, j, k)))\<rparr>;
              let s = s\<lparr>Phi1 := (Phi1 s)((0, i, j, k) := RE0 * Phi1 s (0, i, j, k) - RF0 * dEz)\<rparr>;
              let materialHz = sint (ID s (5, ii, jj, kk));
              dEx \<leftarrow> fdiv (Ex s (ii, jj + 1, kk) - Ex s (ii, jj, kk)) dy;
              let s = s\<lparr>Hz := (Hz s)((ii, jj, kk) := Hz s (ii, jj, kk) + updatecoeffsH s (materialHz, 4) * (RA01 * dEx + RB0 * Phi2 s (0, i, j, k)))\<rparr>;
              let s = s\<lparr>Phi2 := (Phi2 s)((0, i, j, k) := RE0 * Phi2 s (0, i, j, k) - RF0 * dEx)\<rparr>;
              Some s
          }) s
      }) s
  }) s
}"

text \<open>\<^verbatim>\<open>order2_yplus\<close> of \<^verbatim>\<open>pml_updates_magnetic_HORIPML.pyx\<close>, line 525.\<close>

definition magnetic_HORIPML_order2_yplus ::
  "int \<Rightarrow> int \<Rightarrow> int \<Rightarrow> int \<Rightarrow> int \<Rightarrow> int \<Rightarrow> real \<Rightarrow> pml_state \<Rightarrow> pml_state option" where
"magnetic_HORIPML_order2_yplus xs xf ys yf zs zf d s = do {
  let dy = d;
  let nx = xf - xs;
  let ny = yf - ys;
  let nz = zf - zs;
  for_range nx (\<lambda>i s. do {
      let ii = i + xs;
      for_range ny (\<lambda>j s. do {
          let jj = j + ys;
          let RA0 = RA s (0, j);
          let RB0 = RB s (0, j);
          let RE0 = RE s (0, j);
          let RF0 = RF s (0, j);
          let RA1 = RA s (1, j);
          let RB1 = RB s (1, j);
          let RE1 = RE s (1, j);
          let RF1 = RF s (1, j);
          let RA01 = RA s (0, j) * RA s (1, j) - 1;
          for_range nz (\<lambda>k s. do {
              let kk = k + zs;
              let materialHx = sint (ID s (3, ii, jj, kk));
              dEz \<leftarrow> fdiv (Ez s (ii, jj + 1, kk) - Ez s (ii, jj, kk)) dy;
              let s = s\<lparr>Hx := (Hx s)((ii, jj, kk) := Hx s (ii, jj, kk) - updatecoeffsH s (materialHx, 4) * (RA01 * dEz + RA1 * RB0 * Phi1 s (0, i, j, k) + RB1 * Phi1 s (1, i, j, k)))\<rparr>;
              let s = s\<lparr>Phi1 := (Phi1 s)((1, i, j, k) := RE1 * Phi1 s (1, i, j, k) - RF1 * (RA0 * dEz + RB0 * Phi1 s (0, i, j, k)))\<rparr>;
              let s = s\<lparr>Phi1 := (Phi1 s)((0, i, j, k) := RE0 * Phi1 s (0, i, j, k) - RF0 * dEz)\<rparr>;
              let materialHz = sint (ID s (5, ii, jj, kk));
              dEx \<leftarrow> fdiv (Ex s (ii, jj + 1, kk) - Ex s (ii, jj, kk)) dy;
              let s = s\<lparr>Hz := (Hz s)((ii, jj, kk) := Hz s (ii, jj, kk) + updatecoeffsH s (materialHz, 4) * (RA01 * dEx + RA1 * RB0 * Phi2 s (0, i, j, k) + RB1 * Phi2 s (1, i, j, k)))\<rparr>;
              let s = s\<lparr>Phi2 := (Phi2 s)((1, i, j, k) := RE1 * Phi2 s (1, i, j, k) - RF1 * (RA0 * dEx + RB0 * Phi2 s (0, i, j, k)))\<rparr>;
              let s = s\<lparr>Phi2 := (Phi2 s)((0, i, j, k) := RE0 * Phi2 s (0, i, j, k) - RF0 * dEx)\<rparr>;
              Some s
          }) s
      }) s
  }) s
}"

text \<open>\<^verbatim>\<open>order1_zminus\<close> of \<^verbatim>\<open>pml_updates_magnetic_HORIPML.pyx\<close>, line 603.\<close>

definition magnetic_HORIPML_order1_zminus ::
  "int \<Rightarrow> int \<Rightarrow> int \<Rightarrow> int \<Rightarrow> int \<Rightarrow> int \<Rightarrow> real \<Rightarrow> pml_state \<Rightarrow> pml_state option" where
"magnetic_HORIPML_order1_zminus xs xf ys yf zs zf d s = do {
  let dz = d;
  let nx = xf - xs;
  let ny = yf - ys;
  let nz = zf - zs;
  for_range nx (\<lambda>i s. do {
      let ii = i + xs;
      for_range ny (\<lambda>j s. do {
          let jj = j + ys;
          for_range nz (\<lambda>k s. do {
              let kk = zf - (k + 1);
              let RA01 = RA s (0, k) - 1;
              let RB0 = RB s (0, k);
              let RE0 = RE s (0, k);
              let RF0 = RF s (0, k);
              let materialHx = sint (ID s (3, ii, jj, kk));
              dEy \<leftarrow> fdiv (Ey s (ii, jj, kk + 1) - Ey s (ii, jj, kk)) dz;
              let s = s\<lparr>Hx := (Hx s)((ii, jj, kk) := Hx s (ii, jj, kk) + updatecoeffsH s (materialHx, 4) * (RA01 * dEy + RB0 * Phi1 s (0, i, j, k)))\<rparr>;
              let s = s\<lparr>Phi1 := (Phi1 s)((0, i, j, k) := RE0 * Phi1 s (0, i, j, k) - RF0 * dEy)\<rparr>;
              let materialHy = sint (ID s (4, ii, jj, kk));
              dEx \<leftarrow> fdiv (Ex s (ii, jj, kk + 1) - Ex s (ii, jj, kk)) dz;
              let s = s\<lparr>Hy := (Hy s)((ii, jj, kk) := Hy s (ii, jj, kk) - updatecoeffsH s (materialHy, 4) * (RA01 * dEx + RB0 * Phi2 s (0, i, j, k)))\<rparr>;
              let s = s\<lparr>Phi2 := (Phi2 s)((0, i, j, k) := RE0 * Phi2 s (0, i, j, k) - RF0 * dEx)\<rparr>;
              Some s
          }) s
      }) s
  }) s
}"

text \<open>\<^verbatim>\<open>order2_zminus\<close> of \<^verbatim>\<open>pml_updates_magnetic_HORIPML.pyx\<close>, line 669.\<close>

definition magnetic_HORIPML_order2_zminus ::
  "int \<Rightarrow> int \<Rightarrow> int \<Rightarrow> int \<Rightarrow> int \<Rightarrow> int \<Rightarrow> real \<Rightarrow> pml_state \<Rightarrow> pml_state option" where
"magnetic_HORIPML_order2_zminus xs xf ys yf zs zf d s = do {
  let dz = d;
  let nx = xf - xs;
  let ny = yf - ys;
  let nz = zf - zs;
  for_range nx (\<lambda>i s. do {
      let ii = i + xs;
      for_range ny (\<lambda>j s. do {
          let jj = j + ys;
          for_range nz (\<lambda>k s. do {
              let kk = zf - (k + 1);
              let RA0 = RA s (0, k);
              let RB0 = RB s (0, k);
              let RE0 = RE s (0, k);
              let RF0 = RF s (0, k);
              let RA1 = RA s (1, k);
              let RB1 = RB s (1, k);
              let RE1 = RE s (1, k);
              let RF1 = RF s (1, k);
              let RA01 = RA s (0, k) * RA s (1, k) - 1;
              let materialHx = sint (ID s (3, ii, jj, kk));
              dEy \<leftarrow> fdiv (Ey s (ii, jj, kk + 1) - Ey s (ii, jj, kk)) dz;
              let s = s\<lparr>Hx := (Hx s)((ii, jj, kk) := Hx s (ii, jj, kk) + updatecoeffsH s (materialHx, 4) * (RA01 * dEy + RA1 * RB0 * Phi1 s (0, i, j, k) + RB1 * Phi1 s (1, i, j, k)))\<rparr>;
              let s = s\<lparr>Phi1 := (Phi1 s)((1, i, j, k) := RE1 * Phi1 s (1, i, j, k) - RF1 * (RA0 * dEy + RB0 * Phi1 s (0, i, j, k)))\<rparr>;
              let s = s\<lparr>Phi1 := (Phi1 s)((0, i, j, k) := RE0 * Phi1 s (0, i, j, k) - RF0 * dEy)\<rparr>;
              let materialHy = sint (ID s (4, ii, jj, kk));
              dEx \<leftarrow> fdiv (Ex s (ii, jj, kk + 1) - Ex s (ii, jj, kk)) dz;
              let s = s\<lparr>Hy := (Hy s)((ii, jj, kk) := Hy s (ii, jj, kk) - updatecoeffsH s (materialHy, 4) * (RA01 * dEx + RA1 * RB0 * Phi2 s (0, i, j, k) + RB1 * Phi2 s (1, i, j, k)))\<rparr>;
              let s = s\<lparr>Phi2 := (Phi2 s)((1, i, j, k) := RE1 * Phi2 s (1, i, j, k) - RF1 * (RA0 * dEx + RB0 * Phi2 s (0, i, j, k)))\<rparr>;
              let s = s\<lparr>Phi2 := (Phi2 s)((0, i, j, k) := RE0 * Phi2 s (0, i, j, k) - RF0 * dEx)\<rparr>;
              Some s
          }) s
      }) s
  }) s
}"

text \<open>\<^verbatim>\<open>order1_zplus\<close> of \<^verbatim>\<open>pml_updates_magnetic_HORIPML.pyx\<close>, line 747.\<close>

definition magnetic_HORIPML_order1_zplus ::
  "int \<Rightarrow> int \<Rightarrow> int \<Rightarrow> int \<Rightarrow> int \<Rightarrow> int \<Rightarrow> real \<Rightarrow> pml_state \<Rightarrow> pml_state option" where
"magnetic_HORIPML_order1_zplus xs xf ys yf zs zf d s = do {
  let dz = d;
  let nx = xf - xs;
  let ny = yf - ys;
  let nz = zf - zs;
  for_range nx (\<lambda>i s. do {
      let ii = i + xs;
      for_range ny (\<lambda>j s. do {
          let jj = j + ys;
          for_range nz (\<lambda>k s. do {
              let kk = k + zs;
              let RA01 = RA s (0, k) - 1;
              let RB0 = RB s (0, k);
              let RE0 = RE s (0, k);
              let RF0 = RF s (0, k);
              let materialHx = sint (ID s (3, ii, jj, kk));
              dEy \<leftarrow> fdiv (Ey s (ii, jj, kk + 1) - Ey s (ii, jj, kk)) dz;
              let s = s\<lparr>Hx := (Hx s)((ii, jj, kk) := Hx s (ii, jj, kk) + updatecoeffsH s (materialHx, 4) * (RA01 * dEy + RB0 * Phi1 s (0, i, j, k)))\<rparr>;
              let s = s\<lparr>Phi1 := (Phi1 s)((0, i, j, k) := RE0 * Phi1 s (0, i, j, k) - RF0 * dEy)\<rparr>;
              let materialHy = sint (ID s (4, ii, jj, kk));
              dEx \<leftarrow> fdiv (Ex s (ii, jj, kk + 1) - Ex s (ii, jj, kk)) dz;
              let s = s\<lparr>Hy := (Hy s)((ii, jj, kk) := Hy s (ii, jj, kk) - updatecoeffsH s (materialHy, 4) * (RA01 * dEx + RB0 * Phi2 s (0, i, j, k)))\<rparr>;
              let s = s\<lparr>Phi2 := (Phi2 s)((0, i, j, k) := RE0 * Phi2 s (0, i, j, k) - RF0 * dEx)\<rparr>;
              Some s
          }) s
      }) s
  }) s
}"

text \<open>\<^verbatim>\<open>order2_zplus\<close> of \<^verbatim>\<open>pml_updates_magnetic_HORIPML.pyx\<close>, line 813.\<close>

definition magnetic_HORIPML_order2_zplus ::
  "int \<Rightarrow> int \<Rightarrow> int \<Rightarrow> int \<Rightarrow> int \<Rightarrow> int \<Rightarrow> real \<Rightarrow> pml_state \<Rightarrow> pml_state option" where
"magnetic_HORIPML_order2_zplus xs xf ys yf zs zf d s = do {
  let dz = d;
  let nx = xf - xs;
  let ny = yf - ys;
  let nz = zf - zs;
  for_range nx (\<lambda>i s. do {
      let ii = i + xs;
      for_range ny (\<lambda>j s. do {
          let jj = j + ys;
          for_range nz (\<lambda>k s. do {
              let kk = k + zs;
              let RA0 = RA s (0, k);
              let RB0 = RB s (0, k);
              let RE0 = RE s (0, k);
              let RF0 = RF s (0, k);
              let RA1 = RA s (1, k);
              let RB1 = RB s (1, k);
              let RE1 = RE s (1, k);
              let RF1 = RF s (1, k);
              let RA01 = RA s (0, k) * RA s (1, k) - 1;
              let materialHx = sint (ID s (3, ii, jj, kk));
              dEy \<leftarrow> fdiv (Ey s (ii, jj, kk + 1) - Ey s (ii, jj, kk)) dz;
              let s = s\<lparr>Hx := (Hx s)((ii, jj, kk) := Hx s (ii, jj, kk) + updatecoeffsH s (materialHx, 4) * (RA01 * dEy + RA1 * RB0 * Phi1 s (0, i, j, k) + RB1 * Phi1 s (1, i, j, k)))\<rparr>;
              let s = s\<lparr>Phi1 := (Phi1 s)((1, i, j, k) := RE1 * Phi1 s (1, i, j, k) - RF1 * (RA0 * dEy + RB0 * Phi1 s (0, i, j, k)))\<rparr>;
              let s = s\<lparr>Phi1 := (Phi1 s)((0, i, j, k) := RE0 * Phi1 s (0, i, j, k) - RF0 * dEy)\<rparr>;
              let materialHy = sint (ID s (4, ii, jj, kk));
              dEx \<leftarrow> fdiv (Ex s (ii, jj, kk + 1) - Ex s (ii, jj, kk)) dz;
              let s = s\<lparr>Hy := (Hy s)((ii, jj, kk) := Hy s (ii, jj, kk) - updatecoeffsH s (materialHy, 4) * (RA01 * dEx + RA1 * RB0 * Phi2 s (0, i, j, k) + RB1 * Phi2 s (1, i, j, k)))\<rparr>;
              let s = s\<lparr>Phi2 := (Phi2 s)((1, i, j, k) := RE1 * Phi2 s (1, i, j, k) - RF1 * (RA0 * dEx + RB0 * Phi2 s (0, i, j, k)))\<rparr>;
              let s = s\<lparr>Phi2 := (Phi2 s)((0, i, j, k) := RE0 * Phi2 s (0, i, j, k) - RF0 * dEx)\<rparr>;
              Some s
          }) s
      }) s
  }) s
}"

text \<open>\<^verbatim>\<open>order1_xminus\<close> of \<^verbatim>\<open>pml_updates_electric_MRIPML.pyx\<close>, line 27.\<close>

definition electric_MRIPML_order1_xminus ::
  "int \<Rightarrow> int \<Rightarrow> int \<Rightarrow> int \<Rightarrow> int \<Rightarrow> int \<Rightarrow> real \<Rightarrow> pml_state \<Rightarrow> pml_state option" where
"electric_MRIPML_order1_xminus xs xf ys yf zs zf d s = do {
  let dx = d;
  let nx = xf - xs;
  let ny = yf - ys;
  let nz = zf - zs;
  for_range nx (\<lambda>i s. do {
      IRA \<leftarrow> fdiv 1 (RA s (0, i));
      let IRA1 = IRA - 1;
      let RB0 = RB s (0, i);
      let RE0 = RE s (0, i);
      let RF0 = RF s (0, i);
      let RC0 = IRA * RB0 * RF0;
      let ii = xf - i;
      for_range ny (\<lambda>j s. do {
          let jj = j + ys;
          for_range nz (\<lambda>k s. do {
              let kk = k + zs;
              let materialEy = sint (ID s (1, ii, jj, kk));
              dHz \<leftarrow> fdiv (Hz s (ii, jj, kk) - Hz s (ii - 1, jj, kk)) dx;
              let s = s\<lparr>Ey := (Ey s)((ii, jj, kk) := Ey s (ii, jj, kk) - updatecoeffsE s (materialEy, 4) * (IRA1 * dHz - IRA * Phi1 s (0, i, j, k)))\<rparr>;
              let s = s\<lparr>Phi1 := (Phi1 s)((0, i, j, k) := RE0 * Phi1 s (0, i, j, k) + RC0 * dHz - RC0 * Phi1 s (0, i, j, k))\<rparr>;
              let materialEz = sint (ID s (2, ii, jj, kk));
              dHy \<leftarrow> fdiv (Hy s (ii, jj, kk) - Hy s (ii - 1, jj, kk)) dx;
              let s = s\<lparr>Ez := (Ez s)((ii, jj, kk) := Ez s (ii, jj, kk) + updatecoeffsE s (materialEz, 4) * (IRA1 * dHy - IRA * Phi2 s (0, i, j, k)))\<rparr>;
              let s = s\<lparr>Phi2 := (Phi2 s)((0, i, j, k) := RE0 * Phi2 s (0, i, j, k) + RC0 * dHy - RC0 * Phi2 s (0, i, j, k))\<rparr>;
              Some s
          }) s
      }) s
  }) s
}"

text \<open>\<^verbatim>\<open>order2_xminus\<close> of \<^verbatim>\<open>pml_updates_electric_MRIPML.pyx\<close>, line 97.\<close>

definition electric_MRIPML_order2_xminus ::
  "int \<Rightarrow> int \<Rightarrow> int \<Rightarrow> int \<Rightarrow> int \<Rightarrow> int \<Rightarrow> real \<Rightarrow> pml_state \<Rightarrow> pml_state option" where
"electric_MRIPML_order2_xminus xs xf ys yf zs zf d s = do {
  let dx = d;
  let nx = xf - xs;
  let ny = yf - ys;
  let nz = zf - zs;
  for_range nx (\<lambda>i s. do {
      IRA \<leftarrow> fdiv 1 (RA s (0, i) + RA s (1, i));
      let IRA1 = IRA - 1;
      let RB0 = RB s (0, i);
      let RE0 = RE s (0, i);
      let RF0 = RF s (0, i);
      let RC0 = IRA * RF0;
      let RB1 = RB s (1, i);
      let RE1 = RE s (1, i);
      let RF1 = RF s (1, i);
      let RC1 = IRA * RF1;
      let ii = xf - i;
      for_range ny (\<lambda>j s. do {
          let jj = j + ys;
          for_range nz (\<lambda>k s. do {
              let kk = k + zs;
              let Psi1 = RB0 * Phi1 s (0, i, j, k) + RB1 * Phi1 s (1, i, j, k);
              let Psi2 = RB0 * Phi2 s (0, i, j, k) + RB1 * Phi2 s (1, i, j, k);
              let materialEy = sint (ID s (1, ii, jj, kk));
              dHz \<leftarrow> fdiv (Hz s (ii, jj, kk) - Hz s (ii - 1, jj, kk)) dx;
              let s = s\<lparr>Ey := (Ey s)((ii, jj, kk) := Ey s (ii, jj, kk) - updatecoeffsE s (materialEy, 4) * (IRA1 * dHz - IRA * Psi1))\<rparr>;
              let s = s\<lparr>Phi1 := (Phi1 s)((1, i, j, k) := RE1 * Phi1 s (1, i, j, k) + RC1 * (dHz - Psi1))\<rparr>;
              let s = s\<lparr>Phi1 := (Phi1 s)((0, i, j, k) := RE0 * Phi1 s (0, i, j, k) + RC0 * (dHz - Psi1))\<rparr>;
              let materialEz = sint (ID s (2, ii, jj, kk));
              dHy \<leftarrow> fdiv (Hy s (ii, jj, kk) - Hy s (ii - 1, jj, kk)) dx;
              let s = s\<lparr>Ez := (Ez s)((ii, jj, kk) := Ez s (ii, jj, kk) + updatecoeffsE s (materialEz, 4) * (IRA1 * dHy - IRA * Psi2))\<rparr>;
              let s = s\<lparr>Phi2 := (Phi2 s)((1, i, j, k) := RE1 * Phi2 s (1, i, j, k) + RC1 * (dHy - Psi2))\<rparr>;
              let s = s\<lparr>Phi2 := (Phi2 s)((0, i, j, k) := RE0 * Phi2 s (0, i, j, k) + RC0 * (dHy - Psi2))\<rparr>;
              Some s
          }) s
      }) s
  }) s
}"

text \<open>\<^verbatim>\<open>order1_xplus\<close> of \<^verbatim>\<open>pml_updates_electric_MRIPML.pyx\<close>, line 176.\<close>

definition electric_MRIPML_order1_xplus ::
  "int \<Rightarrow> int \<Rightarrow> int \<Rightarrow> int \<Rightarrow> int \<Rightarrow> int \<Rightarrow> real \<Rightarrow> pml_state \<Rightarrow> pml_state option" where
"electric_MRIPML_order1_xplus xs xf ys yf zs zf d s = do {
  let dx = d;
  let nx = xf - xs;
  let ny = yf - ys;
  let nz = zf - zs;
  for_range nx (\<lambda>i s. do {
      IRA \<leftarrow> fdiv 1 (RA s (0, i));
      let IRA1 = IRA - 1;
      let RB0 = RB s (0, i);
      let RE0 = RE s (0, i);
      let RF0 = RF s (0, i);
      let RC0 = IRA * RB0 * RF0;
      let ii = i + xs;
      for_range ny (\<lambda>j s. do {
          let jj = j + ys;
          for_range nz (\<lambda>k s. do {
              let kk = k + zs;
              let materialEy = sint (ID s (1, ii, jj, kk));
              dHz \<leftarrow> fdiv (Hz s (ii, jj, kk) - Hz s (ii - 1, jj, kk)) dx;
              let s = s\<lparr>Ey := (Ey s)((ii, jj, kk) := Ey s (ii, jj, kk) - updatecoeffsE s (materialEy, 4) * (IRA1 * dHz - IRA * Phi1 s (0, i, j, k)))\<rparr>;
              let s = s\<lparr>Phi1 := (Phi1 s)((0, i, j, k) := RE0 * Phi1 s (0, i, j, k) + RC0 * dHz - RC0 * Phi1 s (0, i, j, k))\<rparr>;
              let materialEz = sint (ID s (2, ii, jj, kk));
              dHy \<leftarrow> fdiv (Hy s (ii, jj, kk) - Hy s (ii - 1, jj, kk)) dx;
              let s = s\<lparr>Ez := (Ez s)((ii, jj, kk) := Ez s (ii, jj, kk) + updatecoeffsE s (materialEz, 4) * (IRA1 * dHy - IRA * Phi2 s (0, i, j, k)))\<rparr>;
              let s = s\<lparr>Phi2 := (Phi2 s)((0, i, j, k) := RE0 * Phi2 s (0, i, j, k) + RC0 * dHy - RC0 * Phi2 s (0, i, j, k))\<rparr>;
              Some s
          }) s
      }) s
  }) s
}"

text \<open>\<^verbatim>\<open>order2_xplus\<close> of \<^verbatim>\<open>pml_updates_electric_MRIPML.pyx\<close>, line 246.\<close>

definition electric_MRIPML_order2_xplus ::
  "int \<Rightarrow> int \<Rightarrow> int \<Rightarrow> int \<Rightarrow> int \<Rightarrow> int \<Rightarrow> real \<Rightarrow> pml_state \<Rightarrow> pml_state option" where
"electric_MRIPML_order2_xplus xs xf ys yf zs zf d s = do {
  let dx = d;
  let nx = xf - xs;
  let ny = yf - ys;
  let nz = zf - zs;
  for_range nx (\<lambda>i s. do {
      IRA \<leftarrow> fdiv 1 (RA s (0, i) + RA s (1, i));
      let IRA1 = IRA - 1;
      let RB0 = RB s (0, i);
      let RE0 = RE s (0, i);
      let RF0 = RF s (0, i);
      let RC0 = IRA * RF0;
      let RB1 = RB s (1, i);
      let RE1 = RE s (1, i);
      let RF1 = RF s (1, i);
      let RC1 = IRA * RF1;
      let ii = i + xs;
      for_range ny (\<lambda>j s. do {
          let jj = j + ys;
          for_range nz (\<lambda>k s. do {
              let kk = k + zs;
              let Psi1 = RB0 * Phi1 s (0, i, j, k) + RB1 * Phi1 s (1, i, j, k);
              let Psi2 = RB0 * Phi2 s (0, i, j, k) + RB1 * Phi2 s (1, i, j, k);
              let materialEy = sint (ID s (1, ii, jj, kk));
              dHz \<leftarrow> fdiv (Hz s (ii, jj, kk) - Hz s (ii - 1, jj, kk)) dx;
              let s = s\<lparr>Ey := (Ey s)((ii, jj, kk) := Ey s (ii, jj, kk) - updatecoeffsE s (materialEy, 4) * (IRA1 * dHz - IRA * Psi1))\<rparr>;
              let s = s\<lparr>Phi1 := (Phi1 s)((1, i, j, k) := RE1 * Phi1 s (1, i, j, k) + RC1 * (dHz - Psi1))\<rparr>;
              let s = s\<lparr>Phi1 := (Phi1 s)((0, i, j, k) := RE0 * Phi1 s (0, i, j, k) + RC0 * (dHz - Psi1))\<rparr>;
              let materialEz = sint (ID s (2, ii, jj, kk));
              dHy \<leftarrow> fdiv (Hy s (ii, jj, kk) - Hy s (ii - 1, jj, kk)) dx;
              let s = s\<lparr>Ez := (Ez s)((ii, jj, kk) := Ez s (ii, jj, kk) + updatecoeffsE s (materialEz, 4) * (IRA1 * dHy - IRA * Psi2))\<rparr>;
              let s = s\<lparr>Phi2 := (Phi2 s)((1, i, j, k) := RE1 * Phi2 s (1, i, j, k) + RC1 * (dHy - Psi2))\<rparr>;
              let s = s\<lparr>Phi2 := (Phi2 s)((0, i, j, k) := RE0 * Phi2 s (0, i, j, k) + RC0 * (dHy - Psi2))\<rparr>;
              Some s
          }) s
      }) s
  }) s
}"

text \<open>\<^verbatim>\<open>order1_yminus\<close> of \<^verbatim>\<open>pml_updates_electric_MRIPML.pyx\<close>, line 324.\<close>

definition electric_MRIPML_order1_yminus ::
  "int \<Rightarrow> int \<Rightarrow> int \<Rightarrow> int \<Rightarrow> int \<Rightarrow> int \<Rightarrow> real \<Rightarrow> pml_state \<Rightarrow> pml_state option" where
"electric_MRIPML_order1_yminus xs xf ys yf zs zf d s = do {
  let dy = d;
  let nx = xf - xs;
  let ny = yf - ys;
  let nz = zf - zs;
  for_range nx (\<lambda>i s. do {
      let ii = i + xs;
      for_range ny (\<lambda>j s. do {
          let jj = yf - j;
          IRA \<leftarrow> fdiv 1 (RA s (0, j));
          let IRA1 = IRA - 1;
          let RB0 = RB s (0, j);
          let RE0 = RE s (0, j);
          let RF0 = RF s (0, j);
          let RC0 = IRA * RB0 * RF0;
          for_range nz (\<lambda>k s. do {
              let kk = k + zs;
              let materialEx = sint (ID s (0, ii, jj, kk));
              dHz \<leftarrow> fdiv (Hz s (ii, jj, kk) - Hz s (ii, jj - 1, kk)) dy;
              let s = s\<lparr>Ex := (Ex s)((ii, jj, kk) := Ex s (ii, jj, kk) + updatecoeffsE s (materialEx, 4) * (IRA1 * dHz - IRA * Phi1 s (0, i, j, k)))\<rparr>;
              let s = s\<lparr>Phi1 := (Phi1 s)((0, i, j, k) := RE0 * Phi1 s (0, i, j, k) + RC0 * dHz - RC0 * Phi1 s (0, i, j, k))\<rparr>;
              let materialEz = sint (ID s (2, ii, jj, kk));
              dHx \<leftarrow> fdiv (Hx s (ii, jj, kk) - Hx s (ii, jj - 1, kk)) dy;
              let s = s\<lparr>Ez := (Ez s)((ii, jj, kk) := Ez s (ii, jj, kk) - updatecoeffsE s (materialEz, 4) * (IRA1 * dHx - IRA * Phi2 s (0, i, j, k)))\<rparr>;
              let s = s\<lparr>Phi2 := (Phi2 s)((0, i, j, k) := RE0 * Phi2 s (0, i, j, k) + RC0 * dHx - RC0 * Phi2 s (0, i, j, k))\<rparr>;
              Some s
          }) s
      }) s
  }) s
}"

text \<open>\<^verbatim>\<open>order2_yminus\<close> of \<^verbatim>\<open>pml_updates_electric_MRIPML.pyx\<close>, line 394.\<close>

definition electric_MRIPML_order2_yminus ::
  "int \<Rightarrow> int \<Rightarrow> int \<Rightarrow> int \<Rightarrow> int \<Rightarrow> int \<Rightarrow> real \<Rightarrow> pml_state \<Rightarrow> pml_state option" where
"electric_MRIPML_order2_yminus xs xf ys yf zs zf d s = do {
  let dy = d;
  let nx = xf - xs;
  let ny = yf - ys;
  let nz = zf - zs;
  for_range nx (\<lambda>i s. do {
      let ii = i + xs;
      for_range ny (\<lambda>j s. do {
          let jj = yf - j;
          IRA \<leftarrow> fdiv 1 (RA s (0, j) + RA s (1, j));
          let IRA1 = IRA - 1;
          let RB0 = RB s (0, j);
          let RE0 = RE s (0, j);
          let RF0 = RF s (0, j);
          let RC0 = IRA * RF0;
          let RB1 = RB s (1, j);
          let RE1 = RE s (1, j);
          let RF1 = RF s (1, j);
          let RC1 = IRA * RF1;
          for_range nz (\<lambda>k s. do {
              let kk = k + zs;
              let Psi1 = RB0 * Phi1 s (0, i, j, k) + RB1 * Phi1 s (1, i, j, k);
              let Psi2 = RB0 * Phi2 s (0, i, j, k) + RB1 * Phi2 s (1, i, j, k);
              let materialEx = sint (ID s (0, ii, jj, kk));
              dHz \<leftarrow> fdiv (Hz s (ii, jj, kk) - Hz s (ii, jj - 1, kk)) dy;
              let s = s\<lparr>Ex := (Ex s)((ii, jj, kk) := Ex s (ii, jj, kk) + updatecoeffsE s (materialEx, 4) * (IRA1 * dHz - IRA * Psi1))\<rparr>;
              let s = s\<lparr>Phi1 := (Phi1 s)((1, i, j, k) := RE1 * Phi1 s (1, i, j, k) + RC1 * (dHz - Psi1))\<rparr>;
              let s = s\<lparr>Phi1 := (Phi1 s)((0, i, j, k) := RE0 * Phi1 s (0, i, j, k) + RC0 * (dHz - Psi1))\<rparr>;
              let materialEz = sint (ID s (2, ii, jj, kk));
              dHx \<leftarrow> fdiv (Hx s (ii, jj, kk) - Hx s (ii, jj - 1, kk)) dy;
              let s = s\<lparr>Ez := (Ez s)((ii, jj, kk) := Ez s (ii, jj, kk) - updatecoeffsE s (materialEz, 4) * (IRA1 * dHx - IRA * Psi2))\<rparr>;
              let s = s\<lparr>Phi2 := (Phi2 s)((1, i, j, k) := RE1 * Phi2 s (1, i, j, k) + RC1 * (dHx - Psi2))\<rparr>;
              let s = s\<lparr>Phi2 := (Phi2 s)((0, i, j, k) := RE0 * Phi2 s (0, i, j, k) + RC0 * (dHx - Psi2))\<rparr>;
              Some s
          }) s
      }) s
  }) s
}"

text \<open>\<^verbatim>\<open>order1_yplus\<close> of \<^verbatim>\<open>pml_updates_electric_MRIPML.pyx\<close>, line 472.\<close>

definition electric_MRIPML_order1_yplus ::
  "int \<Rightarrow> int \<Rightarrow> int \<Rightarrow> int \<Rightarrow> int \<Rightarrow> int \<Rightarrow> real \<Rightarrow> pml_state \<Rightarrow> pml_state option" where
"electric_MRIPML_order1_yplus xs xf ys yf zs zf d s = do {
  let dy = d;
  let nx = xf - xs;
  let ny = yf - ys;
  let nz = zf - zs;
  for_range nx (\<lambda>i s. do {
      let ii = i + xs;
      for_range ny (\<lambda>j s. do {
          let jj = j + ys;
          IRA \<leftarrow> fdiv 1 (RA s (0, j));
          let IRA1 = IRA - 1;
          let RB0 = RB s (0, j);
          let RE0 = RE s (0, j);
          let RF0 = RF s (0, j);
          let RC0 = IRA * RB0 * RF0;
          for_range nz (\<lambda>k s. do {
              let kk = k + zs;
              let materialEx = sint (ID s (0, ii, jj, kk));
              dHz \<leftarrow> fdiv (Hz s (ii, jj, kk) - Hz s (ii, jj - 1, kk)) dy;
              let s = s\<lparr>Ex := (Ex s)((ii, jj, kk) := Ex s (ii, jj, kk) + updatecoeffsE s (materialEx, 4) * (IRA1 * dHz - IRA * Phi1 s (0, i, j, k)))\<rparr>;
              let s = s\<lparr>Phi1 := (Phi1 s)((0, i, j, k) := RE0 * Phi1 s (0, i, j, k) + RC0 * dHz - RC0 * Phi1 s (0, i, j, k))\<rparr>;
              let materialEz = sint (ID s (2, ii, jj, kk));
              dHx \<leftarrow> fdiv (Hx s (ii, jj, kk) - Hx s (ii, jj - 1, kk)) dy;
              let s = s\<lparr>Ez := (Ez s)((ii, jj, kk) := Ez s (ii, jj, kk) - updatecoeffsE s (materialEz, 4) * (IRA1 * dHx - IRA * Phi2 s (0, i, j, k)))\<rparr>;
              let s = s\<lparr>Phi2 := (Phi2 s)((0, i, j, k) := RE0 * Phi2 s (0, i, j, k) + RC0 * dHx - RC0 * Phi2 s (0, i, j, k))\<rparr>;
              Some s
          }) s
      }) s
  }) s
}"

text \<open>\<^verbatim>\<open>order2_yplus\<close> of \<^verbatim>\<open>pml_updates_electric_MRIPML.pyx\<close>, line 542.\<close>

definition electric_MRIPML_order2_yplus ::
  "int \<Rightarrow> int \<Rightarrow> int \<Rightarrow> int \<Rightarrow> int \<Rightarrow> int \<Rightarrow> real \<Rightarrow> pml_state \<Rightarrow> pml_state option" where
"electric_MRIPML_order2_yplus xs xf ys yf zs zf d s = do {
  let dy = d;
  let nx = xf - xs;
  let ny = yf - ys;
  let nz = zf - zs;
  for_range nx (\<lambda>i s. do {
      let ii = i + xs;
      for_range ny (\<lambda>j s. do {
          let jj = j + ys;
          IRA \<leftarrow> fdiv 1 (RA s (0, j) + RA s (1, j));
          let IRA1 = IRA - 1;
          let RB0 = RB s (0, j);
          let RE0 = RE s (0, j);
          let RF0 = RF s (0, j);
          let RC0 = IRA * RF0;
          let RB1 = RB s (1, j);
          let RE1 = RE s (1, j);
          let RF1 = RF s (1, j);
          let RC1 = IRA * RF1;
          for_range nz (\<lambda>k s. do {
              let kk = k + zs;
              let Psi1 = RB0 * Phi1 s (0, i, j, k) + RB1 * Phi1 s (1, i, j, k);
              let Psi2 = RB0 * Phi2 s (0, i, j, k) + RB1 * Phi2 s (1, i, j, k);
              let materialEx = sint (ID s (0, ii, jj, kk));
              dHz \<leftarrow> fdiv (Hz s (ii, jj, kk) - Hz s (ii, jj - 1, kk)) dy;
              let s = s\<lparr>Ex := (Ex s)((ii, jj, kk) := Ex s (ii, jj, kk) + updatecoeffsE s (materialEx, 4) * (IRA1 * dHz - IRA * Psi1))\<rparr>;
              let s = s\<lparr>Phi1 := (Phi1 s)((1, i, j, k) := RE1 * Phi1 s (1, i, j, k) + RC1 * (dHz - Psi1))\<rparr>;
              let s = s\<lparr>Phi1 := (Phi1 s)((0, i, j, k) := RE0 * Phi1 s (0, i, j, k) + RC0 * (dHz - Psi1))\<rparr>;
              let materialEz = sint (ID s (2, ii, jj, kk));
              dHx \<leftarrow> fdiv (Hx s (ii, jj, kk) - Hx s (ii, jj - 1, kk)) dy;
              let s = s\<lparr>Ez := (Ez s)((ii, jj, kk) := Ez s (ii, jj, kk) - updatecoeffsE s (materialEz, 4) * (IRA1 * dHx - IRA * Psi2))\<rparr>;
              let s = s\<lparr>Phi2 := (Phi2 s)((1, i, j, k) := RE1 * Phi2 s (1, i, j, k) + RC1 * (dHx - Psi2))\<rparr>;
              let s = s\<lparr>Phi2 := (Phi2 s)((0, i, j, k) := RE0 * Phi2 s (0, i, j, k) + RC0 * (dHx - Psi2))\<rparr>;
              Some s
          }) s
      }) s
  }) s
}"

text \<open>\<^verbatim>\<open>order1_zminus\<close> of \<^verbatim>\<open>pml_updates_electric_MRIPML.pyx\<close>, line 620.\<close>

definition electric_MRIPML_order1_zminus ::
  "int \<Rightarrow> int \<Rightarrow> int \<Rightarrow> int \<Rightarrow> int \<Rightarrow> int \<Rightarrow> real \<Rightarrow> pml_state \<Rightarrow> pml_state option" where
"electric_MRIPML_order1_zminus xs xf ys yf zs zf d s = do {
  let dz = d;
  let nx = xf - xs;
  let ny = yf - ys;
  let nz = zf - zs;
  for_range nx (\<lambda>i s. do {
      let ii = i + xs;
      for_range ny (\<lambda>j s. do {
          let jj = j + ys;
          for_range nz (\<lambda>k s. do {
              let kk = zf - k;
              IRA \<leftarrow> fdiv 1 (RA s (0, k));
              let IRA1 = IRA - 1;
              let RB0 = RB s (0, k);
              let RE0 = RE s (0, k);
              let RF0 = RF s (0, k);
              let RC0 = IRA * RB0 * RF0;
              let materialEx = sint (ID s (0, ii, jj, kk));
              dHy \<leftarrow> fdiv (Hy s (ii, jj, kk) - Hy s (ii, jj, kk - 1)) dz;
              let s = s\<lparr>Ex := (Ex s)((ii, jj, kk) := Ex s (ii, jj, kk) - updatecoeffsE s (materialEx, 4) * (IRA1 * dHy - IRA * Phi1 s (0, i, j, k)))\<rparr>;
              let s = s\<lparr>Phi1 := (Phi1 s)((0, i, j, k) := RE0 * Phi1 s (0, i, j, k) + RC0 * dHy - RC0 * Phi1 s (0, i, j, k))\<rparr>;
              let materialEy = sint (ID s (1, ii, jj, kk));
              dHx \<leftarrow> fdiv (Hx s (ii, jj, kk) - Hx s (ii, jj, kk - 1)) dz;
              let s = s\<lparr>Ey := (Ey s)((ii, jj, kk) := Ey s (ii, jj, kk) + updatecoeffsE s (materialEy, 4) * (IRA1 * dHx - IRA * Phi2 s (0, i, j, k)))\<rparr>;
              let s = s\<lparr>Phi2 := (Phi2 s)((0, i, j, k) := RE0 * Phi2 s (0, i, j, k) + RC0 * dHx - RC0 * Phi2 s (0, i, j, k))\<rparr>;
              Some s
          }) s
      }) s
  }) s
}"

text \<open>\<^verbatim>\<open>order2_zminus\<close> of \<^verbatim>\<open>pml_updates_electric_MRIPML.pyx\<close>, line 690.\<close>

definition electric_MRIPML_order2_zminus ::
  "int \<Rightarrow> int \<Rightarrow> int \<Rightarrow> int \<Rightarrow> int \<Rightarrow> int \<Rightarrow> real \<Rightarrow> pml_state \<Rightarrow> pml_state option" where
"electric_MRIPML_order2_zminus xs xf ys yf zs zf d s = do {
  let dz = d;
  let nx = xf - xs;
  let ny = yf - ys;
  let nz = zf - zs;
  for_range nx (\<lambda>i s. do {
      let ii = i + xs;
      for_range ny (\<lambda>j s. do {
          let jj = j + ys;
          for_range nz (\<lambda>k s. do {
              let kk = zf - k;
              IRA \<leftarrow> fdiv 1 (RA s (0, k) + RA s (1, k));
              let IRA1 = IRA - 1;
              let RB0 = RB s (0, k);
              let RE0 = RE s (0, k);
              let RF0 = RF s (0, k);
              let RC0 = IRA * RF0;
              let RB1 = RB s (1, k);
              let RE1 = RE s (1, k);
              let RF1 = RF s (1, k);
              let RC1 = IRA * RF1;
              let Psi1 = RB0 * Phi1 s (0, i, j, k) + RB1 * Phi1 s (1, i, j, k);
              let Psi2 = RB0 * Phi2 s (0, i, j, k) + RB1 * Phi2 s (1, i, j, k);
              let materialEx = sint (ID s (0, ii, jj, kk));
              dHy \<leftarrow> fdiv (Hy s (ii, jj, kk) - Hy s (ii, jj, kk - 1)) dz;
              let s = s\<lparr>Ex := (Ex s)((ii, jj, kk) := Ex s (ii, jj, kk) - updatecoeffsE s (materialEx, 4) * (IRA1 * dHy - IRA * Psi1))\<rparr>;
              let s = s\<lparr>Phi1 := (Phi1 s)((1, i, j, k) := RE1 * Phi1 s (1, i, j, k) + RC1 * (dHy - Psi1))\<rparr>;
              let s = s\<lparr>Phi1 := (Phi1 s)((0, i, j, k) := RE0 * Phi1 s (0, i, j, k) + RC0 * (dHy - Psi1))\<rparr>;
              let materialEy = sint (ID s (1, ii, jj, kk));
              dHx \<leftarrow> fdiv (Hx s (ii, jj, kk) - Hx s (ii, jj, kk - 1)) dz;
              let s = s\<lparr>Ey := (Ey s)((ii, jj, kk) := Ey s (ii, jj, kk) + updatecoeffsE s (materialEy, 4) * (IRA1 * dHx - IRA * Psi2))\<rparr>;
              let s = s\<lparr>Phi2 := (Phi2 s)((1, i, j, k) := RE1 * Phi2 s (1, i, j, k) + RC1 * (dHx - Psi2))\<rparr>;
              let s = s\<lparr>Phi2 := (Phi2 s)((0, i, j, k) := RE0 * Phi2 s (0, i, j, k) + RC0 * (dHx - Psi2))\<rparr>;
              Some s
          }) s
      }) s
  }) s
}"

text \<open>\<^verbatim>\<open>order1_zplus\<close> of \<^verbatim>\<open>pml_updates_electric_MRIPML.pyx\<close>, line 767.\<close>

definition electric_MRIPML_order1_zplus ::
  "int \<Rightarrow> int \<Rightarrow> int \<Rightarrow> int \<Rightarrow> int \<Rightarrow> int \<Rightarrow> real \<Rightarrow> pml_state \<Rightarrow> pml_state option" where
"electric_MRIPML_order1_zplus xs xf ys yf zs zf d s = do {
  let dz = d;
  let nx = xf - xs;
  let ny = yf - ys;
  let nz = zf - zs;
  for_range nx (\<lambda>i s. do {
      let ii = i + xs;
      for_range ny (\<lambda>j s. do {
          let jj = j + ys;
          for_range nz (\<lambda>k s. do {
              let kk = k + zs;
              IRA \<leftarrow> fdiv 1 (RA s (0, k));
              let IRA1 = IRA - 1;
              let RB0 = RB s (0, k);
              let RE0 = RE s (0, k);
              let RF0 = RF s (0, k);
              let RC0 = IRA * RB0 * RF0;
              let materialEx = sint (ID s (0, ii, jj, kk));
              dHy \<leftarrow> fdiv (Hy s (ii, jj, kk) - Hy s (ii, jj, kk - 1)) dz;
              let s = s\<lparr>Ex := (Ex s)((ii, jj, kk) := Ex s (ii, jj, kk) - updatecoeffsE s (materialEx, 4) * (IRA1 * dHy - IRA * Phi1 s (0, i, j, k)))\<rparr>;
              let s = s\<lparr>Phi1 := (Phi1 s)((0, i, j, k) := RE0 * Phi1 s (0, i, j, k) + RC0 * dHy - RC0 * Phi1 s (0, i, j, k))\<rparr>;
              let materialEy = sint (ID s (1, ii, jj, kk));
              dHx \<leftarrow> fdiv (Hx s (ii, jj, kk) - Hx s (ii, jj, kk - 1)) dz;
              let s = s\<lparr>Ey := (Ey s)((ii, jj, kk) := Ey s (ii, jj, kk) + updatecoeffsE s (materialEy, 4) * (IRA1 * dHx - IRA * Phi2 s (0, i, j, k)))\<rparr>;
              let s = s\<lparr>Phi2 := (Phi2 s)((0, i, j, k) := RE0 * Phi2 s (0, i, j, k) + RC0 * dHx - RC0 * Phi2 s (0, i, j, k))\<rparr>;
              Some s
          }) s
      }) s
  }) s
}"

text \<open>\<^verbatim>\<open>order2_zplus\<close> of \<^verbatim>\<open>pml_updates_electric_MRIPML.pyx\<close>, line 837.\<close>

definition electric_MRIPML_order2_zplus ::
  "int \<Rightarrow> int \<Rightarrow> int \<Rightarrow> int \<Rightarrow> int \<Rightarrow> int \<Rightarrow> real \<Rightarrow> pml_state \<Rightarrow> pml_state option" where
"electric_MRIPML_order2_zplus xs xf ys yf zs zf d s = do {
  let dz = d;
  let nx = xf - xs;
  let ny = yf - ys;
  let nz = zf - zs;
  for_range nx (\<lambda>i s. do {
      let ii = i + xs;
      for_range ny (\<lambda>j s. do {
          let jj = j + ys;
          for_range nz (\<lambda>k s. do {
              let kk = k + zs;
              IRA \<leftarrow> fdiv 1 (RA s (0, k) + RA s (1, k));
              let IRA1 = IRA - 1;
              let RB0 = RB s (0, k);
              let RE0 = RE s (0, k);
              let RF0 = RF s (0, k);
              let RC0 = IRA * RF0;
              let RB1 = RB s (1, k);
              let RE1 = RE s (1, k);
              let RF1 = RF s (1, k);
              let RC1 = IRA * RF1;
              let Psi1 = RB0 * Phi1 s (0, i, j, k) + RB1 * Phi1 s (1, i, j, k);
              let Psi2 = RB0 * Phi2 s (0, i, j, k) + RB1 * Phi2 s (1, i, j, k);
              let materialEx = sint (ID s (0, ii, jj, kk));
              dHy \<leftarrow> fdiv (Hy s (ii, jj, kk) - Hy s (ii, jj, kk - 1)) dz;
              let s = s\<lparr>Ex := (Ex s)((ii, jj, kk) := Ex s (ii, jj, kk) - updatecoeffsE s (materialEx, 4) * (IRA1 * dHy - IRA * Psi1))\<rparr>;
              let s = s\<lparr>Phi1 := (Phi1 s)((1, i, j, k) := RE1 * Phi1 s (1, i, j, k) + RC1 * (dHy - Psi1))\<rparr>;
              let s = s\<lparr>Phi1 := (Phi1 s)((0, i, j, k) := RE0 * Phi1 s (0, i, j, k) + RC0 * (dHy - Psi1))\<rparr>;
              let materialEy = sint (ID s (1, ii, jj, kk));
              dHx \<leftarrow> fdiv (Hx s (ii, jj, kk) - Hx s (ii, jj, kk - 1)) dz;
              let s = s\<lparr>Ey := (Ey s)((ii, jj, kk) := Ey s (ii, jj, kk) + updatecoeffsE s (materialEy, 4) * (IRA1 * dHx - IRA * Psi2))\<rparr>;
              let s = s\<lparr>Phi2 := (Phi2 s)((1, i, j, k) := RE1 * Phi2 s (1, i, j, k) + RC1 * (dHx - Psi2))\<rparr>;
              let s = s\<lparr>Phi2 := (Phi2 s)((0, i, j, k) := RE0 * Phi2 s (0, i, j, k) + RC0 * (dHx - Psi2))\<rparr>;
              Some s
          }) s
      }) s
  }) s
}"

section \<open>The kernels as a family\<close>

text \<open>
  The callers select a kernel by field kind, face and order. \<open>pml_kernel\<close> is that
  selection over the twenty-four functions above; the six slab bounds travel as one tuple.
\<close>

datatype field_kind = Electric | Magnetic
datatype axis = X | Y | Z
datatype direction = Minus | Plus
datatype pml_order = Order1 | Order2
datatype component = CEx | CEy | CEz | CHx | CHy | CHz

type_synonym bounds = "int \<times> int \<times> int \<times> int \<times> int \<times> int"

fun pml_kernel ::
  "field_kind \<Rightarrow> axis \<Rightarrow> direction \<Rightarrow> pml_order \<Rightarrow> bounds \<Rightarrow> real \<Rightarrow> pml_state \<Rightarrow> pml_state option" where
  "pml_kernel Magnetic X Minus Order1 (xs, xf, ys, yf, zs, zf) d s = magnetic_HORIPML_order1_xminus xs xf ys yf zs zf d s"
| "pml_kernel Magnetic X Minus Order2 (xs, xf, ys, yf, zs, zf) d s = magnetic_HORIPML_order2_xminus xs xf ys yf zs zf d s"
| "pml_kernel Magnetic X Plus Order1 (xs, xf, ys, yf, zs, zf) d s = magnetic_HORIPML_order1_xplus xs xf ys yf zs zf d s"
| "pml_kernel Magnetic X Plus Order2 (xs, xf, ys, yf, zs, zf) d s = magnetic_HORIPML_order2_xplus xs xf ys yf zs zf d s"
| "pml_kernel Magnetic Y Minus Order1 (xs, xf, ys, yf, zs, zf) d s = magnetic_HORIPML_order1_yminus xs xf ys yf zs zf d s"
| "pml_kernel Magnetic Y Minus Order2 (xs, xf, ys, yf, zs, zf) d s = magnetic_HORIPML_order2_yminus xs xf ys yf zs zf d s"
| "pml_kernel Magnetic Y Plus Order1 (xs, xf, ys, yf, zs, zf) d s = magnetic_HORIPML_order1_yplus xs xf ys yf zs zf d s"
| "pml_kernel Magnetic Y Plus Order2 (xs, xf, ys, yf, zs, zf) d s = magnetic_HORIPML_order2_yplus xs xf ys yf zs zf d s"
| "pml_kernel Magnetic Z Minus Order1 (xs, xf, ys, yf, zs, zf) d s = magnetic_HORIPML_order1_zminus xs xf ys yf zs zf d s"
| "pml_kernel Magnetic Z Minus Order2 (xs, xf, ys, yf, zs, zf) d s = magnetic_HORIPML_order2_zminus xs xf ys yf zs zf d s"
| "pml_kernel Magnetic Z Plus Order1 (xs, xf, ys, yf, zs, zf) d s = magnetic_HORIPML_order1_zplus xs xf ys yf zs zf d s"
| "pml_kernel Magnetic Z Plus Order2 (xs, xf, ys, yf, zs, zf) d s = magnetic_HORIPML_order2_zplus xs xf ys yf zs zf d s"
| "pml_kernel Electric X Minus Order1 (xs, xf, ys, yf, zs, zf) d s = electric_MRIPML_order1_xminus xs xf ys yf zs zf d s"
| "pml_kernel Electric X Minus Order2 (xs, xf, ys, yf, zs, zf) d s = electric_MRIPML_order2_xminus xs xf ys yf zs zf d s"
| "pml_kernel Electric X Plus Order1 (xs, xf, ys, yf, zs, zf) d s = electric_MRIPML_order1_xplus xs xf ys yf zs zf d s"
| "pml_kernel Electric X Plus Order2 (xs, xf, ys, yf, zs, zf) d s = electric_MRIPML_order2_xplus xs xf ys yf zs zf d s"
| "pml_kernel Electric Y Minus Order1 (xs, xf, ys, yf, zs, zf) d s = electric_MRIPML_order1_yminus xs xf ys yf zs zf d s"
| "pml_kernel Electric Y Minus Order2 (xs, xf, ys, yf, zs, zf) d s = electric_MRIPML_order2_yminus xs xf ys yf zs zf d s"
| "pml_kernel Electric Y Plus Order1 (xs, xf, ys, yf, zs, zf) d s = electric_MRIPML_order1_yplus xs xf ys yf zs zf d s"
| "pml_kernel Electric Y Plus Order2 (xs, xf, ys, yf, zs, zf) d s = electric_MRIPML_order2_yplus xs xf ys yf zs zf d s"
| "pml_kernel Electric Z Minus Order1 (xs, xf, ys, yf, zs, zf) d s = electric_MRIPML_order1_zminus xs xf ys yf zs zf d s"
| "pml_kernel Electric Z Minus Order2 (xs, xf, ys, yf, zs, zf) d s = electric_MRIPML_order2_zminus xs xf ys yf zs zf d s"
| "pml_kernel Electric Z Plus Order1 (xs, xf, ys, yf, zs, zf) d s = electric_MRIPML_order1_zplus xs xf ys yf zs zf d s"
| "pml_kernel Electric Z Plus Order2 (xs, xf, ys, yf, zs, zf) d s = electric_MRIPML_order2_zplus xs xf ys yf zs zf d s"

section \<open>The update law in closed form\<close>

text \<open>
  The vocabulary in which the properties of the kernels are stated: the components a face
  updates and the components that drive them, the signs of the correction terms, the map
  from slab-local to global indices, the curl differences and the recursive-convolution
  formulas. None of it is used by the kernels above; the refinement lemmas below show
  that every kernel computes what these functions describe.
\<close>

fun field :: "component \<Rightarrow> pml_state \<Rightarrow> idx3 \<Rightarrow> real" where
  "field CEx = Ex" | "field CEy = Ey" | "field CEz = Ez"
| "field CHx = Hx" | "field CHy = Hy" | "field CHz = Hz"

fun set_field :: "component \<Rightarrow> (idx3 \<Rightarrow> real) \<Rightarrow> pml_state \<Rightarrow> pml_state" where
  "set_field CEx f s = s\<lparr>Ex := f\<rparr>" | "set_field CEy f s = s\<lparr>Ey := f\<rparr>"
| "set_field CEz f s = s\<lparr>Ez := f\<rparr>" | "set_field CHx f s = s\<lparr>Hx := f\<rparr>"
| "set_field CHy f s = s\<lparr>Hy := f\<rparr>" | "set_field CHz f s = s\<lparr>Hz := f\<rparr>"

text \<open>Axis 0 of \<^verbatim>\<open>ID\<close>: Ex=0, Ey=1, Ez=2, Hx=3, Hy=4, Hz=5.\<close>

fun comp_index :: "component \<Rightarrow> int" where
  "comp_index CEx = 0" | "comp_index CEy = 1" | "comp_index CEz = 2"
| "comp_index CHx = 3" | "comp_index CHy = 4" | "comp_index CHz = 5"

fun coeffs :: "field_kind \<Rightarrow> pml_state \<Rightarrow> idx2 \<Rightarrow> real" where
  "coeffs Electric = updatecoeffsE"
| "coeffs Magnetic = updatecoeffsH"

text \<open>
  Per kind and normal axis: the two components updated (the one paired with \<^verbatim>\<open>Phi1\<close>
  first), the components whose differences drive them, and the signs in front of the
  two correction terms.
\<close>

fun targets :: "field_kind \<Rightarrow> axis \<Rightarrow> component \<times> component" where
  "targets Magnetic X = (CHy, CHz)"
| "targets Magnetic Y = (CHx, CHz)"
| "targets Magnetic Z = (CHx, CHy)"
| "targets Electric X = (CEy, CEz)"
| "targets Electric Y = (CEx, CEz)"
| "targets Electric Z = (CEx, CEy)"

fun drivers :: "field_kind \<Rightarrow> axis \<Rightarrow> component \<times> component" where
  "drivers Magnetic X = (CEz, CEy)"
| "drivers Magnetic Y = (CEz, CEx)"
| "drivers Magnetic Z = (CEy, CEx)"
| "drivers Electric X = (CHz, CHy)"
| "drivers Electric Y = (CHz, CHx)"
| "drivers Electric Z = (CHy, CHx)"

fun signs :: "field_kind \<Rightarrow> axis \<Rightarrow> real \<times> real" where
  "signs Magnetic X = (1, -1)"
| "signs Magnetic Y = (-1, 1)"
| "signs Magnetic Z = (1, -1)"
| "signs Electric X = (-1, 1)"
| "signs Electric Y = (1, -1)"
| "signs Electric Z = (-1, 1)"

fun normal_index :: "axis \<Rightarrow> idx3 \<Rightarrow> int" where
  "normal_index X (i, j, k) = i"
| "normal_index Y (i, j, k) = j"
| "normal_index Z (i, j, k) = k"

fun shift :: "axis \<Rightarrow> int \<Rightarrow> idx3 \<Rightarrow> idx3" where
  "shift X t (a, b, c) = (a + t, b, c)"
| "shift Y t (a, b, c) = (a, b + t, c)"
| "shift Z t (a, b, c) = (a, b, c + t)"

text \<open>The global cell a kernel addresses at the slab-local indices \<open>(i, j, k)\<close>.\<close>

fun gidx :: "field_kind \<Rightarrow> axis \<Rightarrow> direction \<Rightarrow> bounds \<Rightarrow> idx3 \<Rightarrow> idx3" where
  "gidx kd ax Plus (xs, xf, ys, yf, zs, zf) (i, j, k) = (i + xs, j + ys, k + zs)"
| "gidx Magnetic X Minus (xs, xf, ys, yf, zs, zf) (i, j, k) = (xf - (i + 1), j + ys, k + zs)"
| "gidx Magnetic Y Minus (xs, xf, ys, yf, zs, zf) (i, j, k) = (i + xs, yf - (j + 1), k + zs)"
| "gidx Magnetic Z Minus (xs, xf, ys, yf, zs, zf) (i, j, k) = (i + xs, j + ys, zf - (k + 1))"
| "gidx Electric X Minus (xs, xf, ys, yf, zs, zf) (i, j, k) = (xf - i, j + ys, k + zs)"
| "gidx Electric Y Minus (xs, xf, ys, yf, zs, zf) (i, j, k) = (i + xs, yf - j, k + zs)"
| "gidx Electric Z Minus (xs, xf, ys, yf, zs, zf) (i, j, k) = (i + xs, j + ys, zf - k)"

text \<open>Its inverse: the slab-local indices at which a global cell is addressed.\<close>

fun lidx :: "field_kind \<Rightarrow> axis \<Rightarrow> direction \<Rightarrow> bounds \<Rightarrow> idx3 \<Rightarrow> idx3" where
  "lidx kd ax Plus (xs, xf, ys, yf, zs, zf) (a, b, c) = (a - xs, b - ys, c - zs)"
| "lidx Magnetic X Minus (xs, xf, ys, yf, zs, zf) (a, b, c) = (xf - a - 1, b - ys, c - zs)"
| "lidx Magnetic Y Minus (xs, xf, ys, yf, zs, zf) (a, b, c) = (a - xs, yf - b - 1, c - zs)"
| "lidx Magnetic Z Minus (xs, xf, ys, yf, zs, zf) (a, b, c) = (a - xs, b - ys, zf - c - 1)"
| "lidx Electric X Minus (xs, xf, ys, yf, zs, zf) (a, b, c) = (xf - a, b - ys, c - zs)"
| "lidx Electric Y Minus (xs, xf, ys, yf, zs, zf) (a, b, c) = (a - xs, yf - b, c - zs)"
| "lidx Electric Z Minus (xs, xf, ys, yf, zs, zf) (a, b, c) = (a - xs, b - ys, zf - c)"

text \<open>The slab-local index space \<open>[0,nx) \<times> [0,ny) \<times> [0,nz)\<close> of a call.\<close>

definition box :: "bounds \<Rightarrow> idx3 set" where
  "box b = (case b of (xs, xf, ys, yf, zs, zf) \<Rightarrow>
     {(i, j, k). 0 \<le> i \<and> i < xf - xs \<and> 0 \<le> j \<and> j < yf - ys \<and> 0 \<le> k \<and> k < zf - zs})"

text \<open>
  Forward differences of E along the normal axis for the magnetic kernels, backward
  differences of H for the electric ones.
\<close>

fun curl_diff :: "field_kind \<Rightarrow> axis \<Rightarrow> (idx3 \<Rightarrow> real) \<Rightarrow> idx3 \<Rightarrow> real \<Rightarrow> real" where
  "curl_diff Magnetic ax F g d = (F (shift ax 1 g) - F g) / d"
| "curl_diff Electric ax F g d = (F g - F (shift ax (- 1) g)) / d"

text \<open>
  The correction term of a field update and the new auxiliary states, from the profiles, the
  profile index \<open>n\<close>, the curl difference \<open>dF\<close> and the old states \<open>p0\<close>, \<open>p1\<close> of the cell.
\<close>

fun corr_term ::
  "field_kind \<Rightarrow> pml_order \<Rightarrow> (idx2 \<Rightarrow> real) \<Rightarrow> (idx2 \<Rightarrow> real) \<Rightarrow> int \<Rightarrow> real \<Rightarrow> real \<Rightarrow> real \<Rightarrow> real" where
  "corr_term Magnetic Order1 ra rb n dF p0 p1 = (ra (0, n) - 1) * dF + rb (0, n) * p0"
| "corr_term Magnetic Order2 ra rb n dF p0 p1 =
     (ra (0, n) * ra (1, n) - 1) * dF + ra (1, n) * rb (0, n) * p0 + rb (1, n) * p1"
| "corr_term Electric Order1 ra rb n dF p0 p1 =
     (1 / ra (0, n) - 1) * dF - 1 / ra (0, n) * p0"
| "corr_term Electric Order2 ra rb n dF p0 p1 =
     (1 / (ra (0, n) + ra (1, n)) - 1) * dF
       - 1 / (ra (0, n) + ra (1, n)) * (rb (0, n) * p0 + rb (1, n) * p1)"

fun next_phi0 ::
  "field_kind \<Rightarrow> pml_order \<Rightarrow> (idx2 \<Rightarrow> real) \<Rightarrow> (idx2 \<Rightarrow> real) \<Rightarrow> (idx2 \<Rightarrow> real) \<Rightarrow> (idx2 \<Rightarrow> real)
    \<Rightarrow> int \<Rightarrow> real \<Rightarrow> real \<Rightarrow> real \<Rightarrow> real" where
  "next_phi0 Magnetic ord ra rb re rf n dF p0 p1 = re (0, n) * p0 - rf (0, n) * dF"
| "next_phi0 Electric Order1 ra rb re rf n dF p0 p1 =
     re (0, n) * p0 + 1 / ra (0, n) * rb (0, n) * rf (0, n) * dF
       - 1 / ra (0, n) * rb (0, n) * rf (0, n) * p0"
| "next_phi0 Electric Order2 ra rb re rf n dF p0 p1 =
     re (0, n) * p0 + 1 / (ra (0, n) + ra (1, n)) * rf (0, n)
       * (dF - (rb (0, n) * p0 + rb (1, n) * p1))"

fun next_phi1 ::
  "field_kind \<Rightarrow> pml_order \<Rightarrow> (idx2 \<Rightarrow> real) \<Rightarrow> (idx2 \<Rightarrow> real) \<Rightarrow> (idx2 \<Rightarrow> real) \<Rightarrow> (idx2 \<Rightarrow> real)
    \<Rightarrow> int \<Rightarrow> real \<Rightarrow> real \<Rightarrow> real \<Rightarrow> real" where
  "next_phi1 kd Order1 ra rb re rf n dF p0 p1 = p1"
| "next_phi1 Magnetic Order2 ra rb re rf n dF p0 p1 =
     re (1, n) * p1 - rf (1, n) * (ra (0, n) * dF + rb (0, n) * p0)"
| "next_phi1 Electric Order2 ra rb re rf n dF p0 p1 =
     re (1, n) * p1 + 1 / (ra (0, n) + ra (1, n)) * rf (1, n)
       * (dF - (rb (0, n) * p0 + rb (1, n) * p1))"

text \<open>
  The state after the cells \<open>P\<close> of the slab-local index space have been updated, each
  from the state \<open>s\<close> before the call.
\<close>

definition new_field ::
  "field_kind \<Rightarrow> axis \<Rightarrow> direction \<Rightarrow> pml_order \<Rightarrow> bounds \<Rightarrow> real \<Rightarrow> pml_state
    \<Rightarrow> component \<Rightarrow> component \<Rightarrow> real \<Rightarrow> (idx4 \<Rightarrow> real) \<Rightarrow> idx3 \<Rightarrow> real" where
  "new_field kd ax dr ord b d s t r sg phi c =
     (let g = gidx kd ax dr b c in
      field t s g + sg * (coeffs kd s (sint (ID s (comp_index t, g)), 4)
        * corr_term kd ord (RA s) (RB s) (normal_index ax c) (curl_diff kd ax (field r s) g d)
            (phi (0, c)) (phi (1, c))))"

definition new_phi ::
  "field_kind \<Rightarrow> axis \<Rightarrow> direction \<Rightarrow> pml_order \<Rightarrow> bounds \<Rightarrow> real \<Rightarrow> pml_state
    \<Rightarrow> component \<Rightarrow> (idx4 \<Rightarrow> real) \<Rightarrow> idx4 \<Rightarrow> real" where
  "new_phi kd ax dr ord b d s r phi mc =
     (let m = fst mc; c = snd mc;
          dF = curl_diff kd ax (field r s) (gidx kd ax dr b c) d; n = normal_index ax c in
      if m = 0 then next_phi0 kd ord (RA s) (RB s) (RE s) (RF s) n dF (phi (0, c)) (phi (1, c))
      else if m = 1 then next_phi1 kd ord (RA s) (RB s) (RE s) (RF s) n dF (phi (0, c)) (phi (1, c))
      else phi mc)"

definition pml_closed ::
  "field_kind \<Rightarrow> axis \<Rightarrow> direction \<Rightarrow> pml_order \<Rightarrow> bounds \<Rightarrow> real \<Rightarrow> idx3 set \<Rightarrow> pml_state \<Rightarrow> pml_state" where
  "pml_closed kd ax dr ord b d P s =
     (let t1 = fst (targets kd ax); t2 = snd (targets kd ax);
          r1 = fst (drivers kd ax); r2 = snd (drivers kd ax) in
      set_field t1 (\<lambda>g. if lidx kd ax dr b g \<in> P
                         then new_field kd ax dr ord b d s t1 r1 (fst (signs kd ax)) (Phi1 s) (lidx kd ax dr b g)
                         else field t1 s g)
     (set_field t2 (\<lambda>g. if lidx kd ax dr b g \<in> P
                         then new_field kd ax dr ord b d s t2 r2 (snd (signs kd ax)) (Phi2 s) (lidx kd ax dr b g)
                         else field t2 s g)
       (s\<lparr>Phi1 := \<lambda>mc. if snd mc \<in> P then new_phi kd ax dr ord b d s r1 (Phi1 s) mc else Phi1 s mc,
          Phi2 := \<lambda>mc. if snd mc \<in> P then new_phi kd ax dr ord b d s r2 (Phi2 s) mc else Phi2 s mc\<rparr>)))"

text \<open>
  One cell of the slab, updated on a state \<open>s\<close>: both target components at the global
  index of the cell and the two auxiliary states of each.
\<close>

definition cell_step ::
  "field_kind \<Rightarrow> axis \<Rightarrow> direction \<Rightarrow> pml_order \<Rightarrow> bounds \<Rightarrow> real \<Rightarrow> idx3 \<Rightarrow> pml_state \<Rightarrow> pml_state" where
  "cell_step kd ax dr ord b d c s =
     (let t1 = fst (targets kd ax); t2 = snd (targets kd ax);
          r1 = fst (drivers kd ax); r2 = snd (drivers kd ax);
          g = gidx kd ax dr b c in
      set_field t1 ((field t1 s)(g := new_field kd ax dr ord b d s t1 r1 (fst (signs kd ax)) (Phi1 s) c))
     (set_field t2 ((field t2 s)(g := new_field kd ax dr ord b d s t2 r2 (snd (signs kd ax)) (Phi2 s) c))
       (s\<lparr>Phi1 := (Phi1 s)((1, c) := new_phi kd ax dr ord b d s r1 (Phi1 s) (1, c),
                              (0, c) := new_phi kd ax dr ord b d s r1 (Phi1 s) (0, c)),
          Phi2 := (Phi2 s)((1, c) := new_phi kd ax dr ord b d s r2 (Phi2 s) (1, c),
                              (0, c) := new_phi kd ax dr ord b d s r2 (Phi2 s) (0, c))\<rparr>)))"

text \<open>
  When a call raises no \<^verbatim>\<open>ZeroDivisionError\<close>: the divisor \<open>d\<close> is used once a cell of
  the slab is reached, and the electric kernels divide by \<open>RA[0, n]\<close> (order 1) or
  \<open>RA[0, n] + RA[1, n]\<close> (order 2) inside the loop over the normal axis.
\<close>

fun ira_divisor :: "pml_order \<Rightarrow> pml_state \<Rightarrow> int \<Rightarrow> real" where
  "ira_divisor Order1 s n = RA s (0, n)"
| "ira_divisor Order2 s n = RA s (0, n) + RA s (1, n)"

fun normal_reached :: "axis \<Rightarrow> bounds \<Rightarrow> int \<Rightarrow> bool" where
  "normal_reached X (xs, xf, ys, yf, zs, zf) n = (0 \<le> n \<and> n < xf - xs)"
| "normal_reached Y (xs, xf, ys, yf, zs, zf) n = (0 < xf - xs \<and> 0 \<le> n \<and> n < yf - ys)"
| "normal_reached Z (xs, xf, ys, yf, zs, zf) n = (0 < xf - xs \<and> 0 < yf - ys \<and> 0 \<le> n \<and> n < zf - zs)"

fun kernel_ok :: "field_kind \<Rightarrow> axis \<Rightarrow> pml_order \<Rightarrow> bounds \<Rightarrow> real \<Rightarrow> pml_state \<Rightarrow> bool" where
  "kernel_ok Magnetic ax ord b d s = (box b \<noteq> {} \<longrightarrow> d \<noteq> 0)"
| "kernel_ok Electric ax ord b d s =
     ((\<forall>n. normal_reached ax b n \<longrightarrow> ira_divisor ord s n \<noteq> 0) \<and> (box b \<noteq> {} \<longrightarrow> d \<noteq> 0))"

text \<open>
  The cells the three nested loops have finished when the counters stand at \<open>(i, j, k)\<close>:
  the loops run through the index space in lexicographic order.
\<close>

definition done_before :: "bounds \<Rightarrow> int \<Rightarrow> int \<Rightarrow> int \<Rightarrow> idx3 set" where
  "done_before b i j k =
     {c \<in> box b. case c of (i', j', k') \<Rightarrow> i' < i \<or> (i' = i \<and> (j' < j \<or> (j' = j \<and> k' < k)))}"

section \<open>The fractal generator\<close>

text \<open>
  \<^verbatim>\<open>generate_fractal2D\<close> (the second part of \<^verbatim>\<open>pml_updates_electric_MRIPML.pyx\<close>,
  line 939). The integer \<^verbatim>\<open>%\<close> follows Python: the result has the sign of the divisor,
  as \<^term>\<open>(mod)\<close> on the integers, and a divisor of zero raises \<^verbatim>\<open>ZeroDivisionError\<close>.
  \<^verbatim>\<open>gx // 2\<close> is the floor division \<^term>\<open>(div)\<close>. The exponent \<^verbatim>\<open>(1/2)\<close> is the
  true division of the language level the package is built with, one half. \<^verbatim>\<open>x**y\<close> on
  doubles is C's \<^verbatim>\<open>pow\<close>, modelled by \<^term>\<open>(powr)\<close> on the reals: the two agree on a
  positive base, and on the base zero for a positive exponent, where both give zero.
  The arrays \<^verbatim>\<open>weighting\<close> and \<^verbatim>\<open>v1\<close> are functions of their index, \<^verbatim>\<open>A\<close> and
  \<^verbatim>\<open>fractalsurface\<close> functions of an index pair into the complex numbers; the updated
  \<^verbatim>\<open>fractalsurface\<close> is returned.
\<close>

definition imod :: "int \<Rightarrow> int \<Rightarrow> int option" where
  "imod a b = (if b = 0 then None else Some (a mod b))"

definition generate_fractal2D ::
  "int \<Rightarrow> int \<Rightarrow> int \<Rightarrow> int \<Rightarrow> int \<Rightarrow> int \<Rightarrow> real \<Rightarrow> (int \<Rightarrow> real) \<Rightarrow> (int \<Rightarrow> real)
    \<Rightarrow> (idx2 \<Rightarrow> complex) \<Rightarrow> (idx2 \<Rightarrow> complex) \<Rightarrow> (idx2 \<Rightarrow> complex) option" where
"generate_fractal2D nx ny ox oy gx gy D weighting v1 A fractalsurface = do {
  let sx = gx div 2;
  let sy = gy div 2;
  for_range nx (\<lambda>i fractalsurface. do {
      for_range ny (\<lambda>j fractalsurface. do {
          mx \<leftarrow> imod (i + ox + sx) gx;
          let v2x = weighting 0 * of_int mx;
          my \<leftarrow> imod (j + oy + sy) gy;
          let v2y = weighting 1 * of_int my;
          let rr = ((v2x - v1 0)\<^sup>2 + (v2y - v1 1)\<^sup>2) powr (1 / 2);
          let B = rr powr D;
          let B = (if B = 0 then 0.9 else B);
          Some (fractalsurface((i, j) := A (i, j) / complex_of_real B))
      }) fractalsurface
  }) fractalsurface
}"

text \<open>
  The divisor of a cell in the words of the specification: the Euclidean distance \<open>r\<close> of
  the shifted, wrapped and weighted coordinate from \<open>v1\<close>, raised to \<open>D\<close>, and 0.9 in its
  place when that is zero.
\<close>

definition fractal_B ::
  "int \<Rightarrow> int \<Rightarrow> int \<Rightarrow> int \<Rightarrow> real \<Rightarrow> (int \<Rightarrow> real) \<Rightarrow> (int \<Rightarrow> real) \<Rightarrow> idx2 \<Rightarrow> real" where
  "fractal_B ox oy gx gy D weighting v1 ij =
     (let i = fst ij; j = snd ij;
          v2x = weighting 0 * of_int ((i + ox + gx div 2) mod gx);
          v2y = weighting 1 * of_int ((j + oy + gy div 2) mod gy);
          r = sqrt ((v2x - v1 0)\<^sup>2 + (v2y - v1 1)\<^sup>2);
          B = r powr D
      in if B = 0 then 0.9 else B)"

text \<open>The concrete run of the specification: a 4 by 4 surface, \<open>D = 2.5\<close>, centre \<open>(2, 2)\<close>.\<close>

definition fractal_run :: "(idx2 \<Rightarrow> complex) option" where
  "fractal_run = generate_fractal2D 4 4 0 0 4 4 (5 / 2) (\<lambda>_. 1) (\<lambda>_. 2) (\<lambda>_. 1) (\<lambda>_. 0)"

section \<open>The words of the specification\<close>



text \<open>The cells of the slab \<open>[xs,xf) \<times> [ys,yf) \<times> [zs,zf)\<close>, by their global indices.\<close>

definition slab :: "bounds \<Rightarrow> idx3 set" where
  "slab b = (case b of (xs, xf, ys, yf, zs, zf) \<Rightarrow>
     {(a, b, c). xs \<le> a \<and> a < xf \<and> ys \<le> b \<and> b < yf \<and> zs \<le> c \<and> c < zf})"

text \<open>The number of recursive poles of an order.\<close>

fun poles :: "pml_order \<Rightarrow> int" where
  "poles Order1 = 1"
| "poles Order2 = 2"

section \<open>Successive calls and zero excitation\<close>

text \<open>
  \<open>N\<close> successive calls of one kernel, each on the state the previous call left; a call
  that raises ends the sequence.
\<close>

fun repeat_calls :: "nat \<Rightarrow> (pml_state \<Rightarrow> pml_state option) \<Rightarrow> pml_state \<Rightarrow> pml_state option" where
  "repeat_calls 0 call s = Some s"
| "repeat_calls (Suc N) call s = Option.bind (call s) (repeat_calls N call)"

text \<open>
  Zero excitation of a slab: both curl differences that drive the kernel vanish at every
  cell of the slab.
\<close>

definition quiet :: "field_kind \<Rightarrow> axis \<Rightarrow> direction \<Rightarrow> bounds \<Rightarrow> real \<Rightarrow> pml_state \<Rightarrow> bool" where
  "quiet kd ax dr b d s \<longleftrightarrow>
     (\<forall>c \<in> box b. curl_diff kd ax (field (fst (drivers kd ax)) s) (gidx kd ax dr b c) d = 0
                \<and> curl_diff kd ax (field (snd (drivers kd ax)) s) (gidx kd ax dr b c) d = 0)"

section \<open>Sample states\<close>

text \<open>
  A state on which the theorems below are instantiated: fields that vary from cell to
  cell, auxiliary states and profiles that differ from each other and are nowhere zero.
\<close>

definition sample_state :: pml_state where
  "sample_state =
     \<lparr>updatecoeffsE = (\<lambda>_. 2), updatecoeffsH = (\<lambda>_. 3), ID = (\<lambda>_. 0),
      Ex = (\<lambda>(a, b, c). of_int (a * a + b + c)),
      Ey = (\<lambda>(a, b, c). of_int (a + b * b + c)),
      Ez = (\<lambda>(a, b, c). of_int (a + b + c * c)),
      Hx = (\<lambda>(a, b, c). of_int (a * a - b - c)),
      Hy = (\<lambda>(a, b, c). of_int (b * b - a - c)),
      Hz = (\<lambda>(a, b, c). of_int (c * c - a - b)),
      Phi1 = (\<lambda>(m, c). of_int (1 + m)), Phi2 = (\<lambda>(m, c). of_int (3 + m)),
      RA = (\<lambda>(m, n). of_int (2 + m)), RB = (\<lambda>(m, n). of_int (3 + m)),
      RE = (\<lambda>(m, n). of_int (5 + m)), RF = (\<lambda>(m, n). of_int (7 + m))\<rparr>"


text \<open>The sample state with a profile \<open>RA\<close> that is zero everywhere.\<close>

definition zero_RA_state :: pml_state where
  "zero_RA_state = sample_state\<lparr>RA := (\<lambda>_. 0)\<rparr>"

text \<open>
  The sample state with all six field components zero, so that every curl difference
  vanishes; and that state with the auxiliary states zero and a field \<open>Hz\<close> whose
  difference along x is one.
\<close>

definition still_state :: pml_state where
  "still_state = sample_state\<lparr>Ex := (\<lambda>_. 0), Ey := (\<lambda>_. 0), Ez := (\<lambda>_. 0),
                               Hx := (\<lambda>_. 0), Hy := (\<lambda>_. 0), Hz := (\<lambda>_. 0)\<rparr>"

definition impulse_state :: pml_state where
  "impulse_state = still_state\<lparr>Phi1 := (\<lambda>_. 0), Phi2 := (\<lambda>_. 0), Hz := (\<lambda>(a, b, c). of_int a)\<rparr>"

text \<open>
  A state with the second pole switched off the way the specification's order-2
  reduction describes it: the rows \<open>RA[1] = 1\<close>, \<open>RB[1] = 0\<close>, \<open>RE[1] = 0\<close>, \<open>RF[1] = 0\<close>,
  and \<open>Phi1[1]\<close>, \<open>Phi2[1]\<close> zero.
\<close>

definition second_pole_off :: "pml_state \<Rightarrow> pml_state" where
  "second_pole_off s =
     s\<lparr>RA := (\<lambda>(m, n). if m = 1 then 1 else RA s (m, n)),
       RB := (\<lambda>(m, n). if m = 1 then 0 else RB s (m, n)),
       RE := (\<lambda>(m, n). if m = 1 then 0 else RE s (m, n)),
       RF := (\<lambda>(m, n). if m = 1 then 0 else RF s (m, n)),
       Phi1 := (\<lambda>(m, c). if m = 1 then 0 else Phi1 s (m, c)),
       Phi2 := (\<lambda>(m, c). if m = 1 then 0 else Phi2 s (m, c))\<rparr>"

section \<open>Loops\<close>

text \<open>
  One loop, when the state before iteration \<open>i\<close> is \<open>S i\<close> and iteration \<open>i\<close> raises
  exactly when \<open>good i\<close> fails.
\<close>

lemma for_loop_upto_cases:
  assumes step: "\<And>i. m \<le> i \<Longrightarrow> i < n \<Longrightarrow> body i (S i) = (if good i then Some (S (i + 1)) else None)"
  shows "for_loop [m..n - 1] body (S m)
           = (if (\<forall>i. m \<le> i \<and> i < n \<longrightarrow> good i) then Some (S (max n m)) else None)"
  using step
proof (induction "nat (n - m)" arbitrary: m)
  case 0
  then have "n \<le> m" by simp
  then show ?case by (simp add: max_def)
next
  case (Suc k)
  then have lt: "m < n" by linarith
  have up: "[m..n - 1] = m # [m + 1..n - 1]" using lt by (simp add: upto_rec1)
  have k: "k = nat (n - (m + 1))" using Suc.hyps(2) by linarith
  have ih: "for_loop [m + 1..n - 1] body (S (m + 1))
           = (if (\<forall>i. m + 1 \<le> i \<and> i < n \<longrightarrow> good i) then Some (S (max n (m + 1))) else None)"
    by (rule Suc.hyps(1)[OF k]) (use Suc.prems in auto)
  have split: "(\<forall>i. m \<le> i \<and> i < n \<longrightarrow> good i) \<longleftrightarrow> good m \<and> (\<forall>i. m + 1 \<le> i \<and> i < n \<longrightarrow> good i)"
    using lt by (metis add1_zle_eq order_le_less)
  have mx: "max n (m + 1) = max n m" using lt by simp
  show ?case
    unfolding up using Suc.prems[of m] lt ih split mx by simp
qed

lemma for_range_cases:
  assumes "s = S 0"
    and "\<And>i. 0 \<le> i \<Longrightarrow> i < n \<Longrightarrow> body i (S i) = (if good i then Some (S (i + 1)) else None)"
    and "r = (if (\<forall>i. 0 \<le> i \<and> i < n \<longrightarrow> good i) then Some (S (max n 0)) else None)"
  shows "for_range n body s = r"
  unfolding for_range_def assms(1) assms(3)
  by (rule for_loop_upto_cases) (use assms(2) in auto)

lemma bind_fdiv: "Option.bind (fdiv a b) f = (if b = 0 then None else f (a / b))"
  by (simp add: fdiv_def)

lemma all_range_const: "(\<forall>i::int. 0 \<le> i \<and> i < n \<longrightarrow> Q) \<longleftrightarrow> (0 < n \<longrightarrow> Q)"
  by (metis order_refl order_le_less_trans)

lemma all_range_conj:
  "(\<forall>i::int. 0 \<le> i \<and> i < n \<longrightarrow> A i \<and> Q) \<longleftrightarrow> (\<forall>i. 0 \<le> i \<and> i < n \<longrightarrow> A i) \<and> (0 < n \<longrightarrow> Q)"
  by (metis order_refl order_le_less_trans)

subsection \<open>The cells finished so far\<close>

lemma done_before_0: "done_before b 0 0 0 = {}"
  by (cases b) (auto simp: done_before_def box_def)

lemma done_before_step:
  "0 \<le> i \<Longrightarrow> i < xf - xs \<Longrightarrow> 0 \<le> j \<Longrightarrow> j < yf - ys \<Longrightarrow> 0 \<le> k \<Longrightarrow> k < zf - zs \<Longrightarrow>
   done_before (xs, xf, ys, yf, zs, zf) i j (k + 1) = insert (i, j, k) (done_before (xs, xf, ys, yf, zs, zf) i j k)"
  by (auto simp: done_before_def box_def)

lemma done_before_fresh: "(i, j, k) \<notin> done_before b i j k"
  by (auto simp: done_before_def)

lemma done_before_k_end:
  "done_before (xs, xf, ys, yf, zs, zf) i j (max (zf - zs) 0) = done_before (xs, xf, ys, yf, zs, zf) i (j + 1) 0"
  by (auto simp: done_before_def box_def)

lemma done_before_j_end:
  "done_before (xs, xf, ys, yf, zs, zf) i (max (yf - ys) 0) 0 = done_before (xs, xf, ys, yf, zs, zf) (i + 1) 0 0"
  by (auto simp: done_before_def box_def)

lemma done_before_i_end:
  "done_before (xs, xf, ys, yf, zs, zf) (max (xf - xs) 0) 0 0 = box (xs, xf, ys, yf, zs, zf)"
  by (auto simp: done_before_def box_def)

lemma box_nonempty: "box (xs, xf, ys, yf, zs, zf) \<noteq> {} \<longleftrightarrow> 0 < xf - xs \<and> 0 < yf - ys \<and> 0 < zf - zs"
proof
  assume "box (xs, xf, ys, yf, zs, zf) \<noteq> {}"
  then show "0 < xf - xs \<and> 0 < yf - ys \<and> 0 < zf - zs" by (auto simp: box_def)
next
  assume "0 < xf - xs \<and> 0 < yf - ys \<and> 0 < zf - zs"
  then have "(0, 0, 0) \<in> box (xs, xf, ys, yf, zs, zf)" by (simp add: box_def)
  then show "box (xs, xf, ys, yf, zs, zf) \<noteq> {}" by blast
qed

section \<open>Every kernel computes the closed form\<close>

lemma pml_closed_empty: "pml_closed kd ax dr ord b d {} s = s"
  by (cases kd; cases ax) (simp_all add: pml_closed_def)

lemma pml_closed_frame:
  "RA (pml_closed kd ax dr ord b d P s) = RA s"
  "RB (pml_closed kd ax dr ord b d P s) = RB s"
  "RE (pml_closed kd ax dr ord b d P s) = RE s"
  "RF (pml_closed kd ax dr ord b d P s) = RF s"
  "ID (pml_closed kd ax dr ord b d P s) = ID s"
  "updatecoeffsE (pml_closed kd ax dr ord b d P s) = updatecoeffsE s"
  "updatecoeffsH (pml_closed kd ax dr ord b d P s) = updatecoeffsH s"
  by (cases kd; cases ax; simp add: pml_closed_def)+

lemma lidx_gidx [simp]: "lidx kd ax dr b (gidx kd ax dr b c) = c"
  by (cases kd; cases ax; cases dr; cases b; cases c) simp_all

lemma gidx_lidx [simp]: "gidx kd ax dr b (lidx kd ax dr b g) = g"
  by (cases kd; cases ax; cases dr; cases b; cases g) simp_all

lemma lidx_eq_iff: "lidx kd ax dr b g = c \<longleftrightarrow> g = gidx kd ax dr b c"
  by (metis lidx_gidx gidx_lidx)

lemma cell_step_closed:
  assumes "c \<notin> P"
  shows "cell_step kd ax dr ord b d c (pml_closed kd ax dr ord b d P s) = pml_closed kd ax dr ord b d (insert c P) s"
  using assms
  apply (cases kd; cases ax)
       apply (simp_all add: cell_step_def pml_closed_def Let_def)
       apply (intro pml_state.equality; (simp add: fun_eq_iff new_field_def new_phi_def lidx_eq_iff Let_def del: split_paired_All)?; (auto simp: prod_eq_iff)?)+
  done

lemma magnetic_HORIPML_order1_xminus_closed:
  "magnetic_HORIPML_order1_xminus xs xf ys yf zs zf d s0 =
     (if kernel_ok Magnetic X Order1 (xs, xf, ys, yf, zs, zf) d s0
      then Some (pml_closed Magnetic X Minus Order1 (xs, xf, ys, yf, zs, zf) d (box (xs, xf, ys, yf, zs, zf)) s0) else None)"
proof -
  let ?b = "(xs, xf, ys, yf, zs, zf)"
  let ?U = "\<lambda>P. pml_closed Magnetic X Minus Order1 ?b d P s0"
  show ?thesis
    unfolding magnetic_HORIPML_order1_xminus_def Let_def[where ?'a = real] Let_def[where ?'a = int]
    apply (rule for_range_cases[where S = "\<lambda>i. ?U (done_before ?b i 0 0)"
          and good = "\<lambda>i. 0 < yf - ys \<longrightarrow> 0 < zf - zs \<longrightarrow> d \<noteq> 0"])
    subgoal by (simp only: done_before_0 pml_closed_empty)
    subgoal for i
      apply (simp only: pml_closed_frame)?
      apply (rule for_range_cases[where S = "\<lambda>j. ?U (done_before ?b i j 0)"
            and good = "\<lambda>j. 0 < zf - zs \<longrightarrow> d \<noteq> 0"])
      subgoal by (rule refl)
      subgoal for j
        apply (rule for_range_cases[where S = "\<lambda>k. ?U (done_before ?b i j k)"
              and good = "\<lambda>k. d \<noteq> 0"])
        subgoal by (rule refl)
        subgoal for k
          using done_before_fresh[of i j k ?b]
          apply (simp only: done_before_step)
          apply (subst cell_step_closed[symmetric], assumption)
          apply (cases "d = 0")
           apply (simp add: fdiv_def)
          apply (simp add: fdiv_def cell_step_def new_field_def new_phi_def pml_closed_frame Let_def)
          done
        subgoal by (simp only: all_range_const all_range_conj done_before_k_end) simp?
        done
      subgoal by (simp only: all_range_const all_range_conj done_before_j_end) simp?
      done
    subgoal by (simp only: all_range_const all_range_conj done_before_i_end) (auto simp: box_nonempty)
    done
qed

lemma magnetic_HORIPML_order2_xminus_closed:
  "magnetic_HORIPML_order2_xminus xs xf ys yf zs zf d s0 =
     (if kernel_ok Magnetic X Order2 (xs, xf, ys, yf, zs, zf) d s0
      then Some (pml_closed Magnetic X Minus Order2 (xs, xf, ys, yf, zs, zf) d (box (xs, xf, ys, yf, zs, zf)) s0) else None)"
proof -
  let ?b = "(xs, xf, ys, yf, zs, zf)"
  let ?U = "\<lambda>P. pml_closed Magnetic X Minus Order2 ?b d P s0"
  show ?thesis
    unfolding magnetic_HORIPML_order2_xminus_def Let_def[where ?'a = real] Let_def[where ?'a = int]
    apply (rule for_range_cases[where S = "\<lambda>i. ?U (done_before ?b i 0 0)"
          and good = "\<lambda>i. 0 < yf - ys \<longrightarrow> 0 < zf - zs \<longrightarrow> d \<noteq> 0"])
    subgoal by (simp only: done_before_0 pml_closed_empty)
    subgoal for i
      apply (simp only: pml_closed_frame)?
      apply (rule for_range_cases[where S = "\<lambda>j. ?U (done_before ?b i j 0)"
            and good = "\<lambda>j. 0 < zf - zs \<longrightarrow> d \<noteq> 0"])
      subgoal by (rule refl)
      subgoal for j
        apply (rule for_range_cases[where S = "\<lambda>k. ?U (done_before ?b i j k)"
              and good = "\<lambda>k. d \<noteq> 0"])
        subgoal by (rule refl)
        subgoal for k
          using done_before_fresh[of i j k ?b]
          apply (simp only: done_before_step)
          apply (subst cell_step_closed[symmetric], assumption)
          apply (cases "d = 0")
           apply (simp add: fdiv_def)
          apply (simp add: fdiv_def cell_step_def new_field_def new_phi_def pml_closed_frame Let_def)
          done
        subgoal by (simp only: all_range_const all_range_conj done_before_k_end) simp?
        done
      subgoal by (simp only: all_range_const all_range_conj done_before_j_end) simp?
      done
    subgoal by (simp only: all_range_const all_range_conj done_before_i_end) (auto simp: box_nonempty)
    done
qed

lemma magnetic_HORIPML_order1_xplus_closed:
  "magnetic_HORIPML_order1_xplus xs xf ys yf zs zf d s0 =
     (if kernel_ok Magnetic X Order1 (xs, xf, ys, yf, zs, zf) d s0
      then Some (pml_closed Magnetic X Plus Order1 (xs, xf, ys, yf, zs, zf) d (box (xs, xf, ys, yf, zs, zf)) s0) else None)"
proof -
  let ?b = "(xs, xf, ys, yf, zs, zf)"
  let ?U = "\<lambda>P. pml_closed Magnetic X Plus Order1 ?b d P s0"
  show ?thesis
    unfolding magnetic_HORIPML_order1_xplus_def Let_def[where ?'a = real] Let_def[where ?'a = int]
    apply (rule for_range_cases[where S = "\<lambda>i. ?U (done_before ?b i 0 0)"
          and good = "\<lambda>i. 0 < yf - ys \<longrightarrow> 0 < zf - zs \<longrightarrow> d \<noteq> 0"])
    subgoal by (simp only: done_before_0 pml_closed_empty)
    subgoal for i
      apply (simp only: pml_closed_frame)?
      apply (rule for_range_cases[where S = "\<lambda>j. ?U (done_before ?b i j 0)"
            and good = "\<lambda>j. 0 < zf - zs \<longrightarrow> d \<noteq> 0"])
      subgoal by (rule refl)
      subgoal for j
        apply (rule for_range_cases[where S = "\<lambda>k. ?U (done_before ?b i j k)"
              and good = "\<lambda>k. d \<noteq> 0"])
        subgoal by (rule refl)
        subgoal for k
          using done_before_fresh[of i j k ?b]
          apply (simp only: done_before_step)
          apply (subst cell_step_closed[symmetric], assumption)
          apply (cases "d = 0")
           apply (simp add: fdiv_def)
          apply (simp add: fdiv_def cell_step_def new_field_def new_phi_def pml_closed_frame Let_def)
          done
        subgoal by (simp only: all_range_const all_range_conj done_before_k_end) simp?
        done
      subgoal by (simp only: all_range_const all_range_conj done_before_j_end) simp?
      done
    subgoal by (simp only: all_range_const all_range_conj done_before_i_end) (auto simp: box_nonempty)
    done
qed

lemma magnetic_HORIPML_order2_xplus_closed:
  "magnetic_HORIPML_order2_xplus xs xf ys yf zs zf d s0 =
     (if kernel_ok Magnetic X Order2 (xs, xf, ys, yf, zs, zf) d s0
      then Some (pml_closed Magnetic X Plus Order2 (xs, xf, ys, yf, zs, zf) d (box (xs, xf, ys, yf, zs, zf)) s0) else None)"
proof -
  let ?b = "(xs, xf, ys, yf, zs, zf)"
  let ?U = "\<lambda>P. pml_closed Magnetic X Plus Order2 ?b d P s0"
  show ?thesis
    unfolding magnetic_HORIPML_order2_xplus_def Let_def[where ?'a = real] Let_def[where ?'a = int]
    apply (rule for_range_cases[where S = "\<lambda>i. ?U (done_before ?b i 0 0)"
          and good = "\<lambda>i. 0 < yf - ys \<longrightarrow> 0 < zf - zs \<longrightarrow> d \<noteq> 0"])
    subgoal by (simp only: done_before_0 pml_closed_empty)
    subgoal for i
      apply (simp only: pml_closed_frame)?
      apply (rule for_range_cases[where S = "\<lambda>j. ?U (done_before ?b i j 0)"
            and good = "\<lambda>j. 0 < zf - zs \<longrightarrow> d \<noteq> 0"])
      subgoal by (rule refl)
      subgoal for j
        apply (rule for_range_cases[where S = "\<lambda>k. ?U (done_before ?b i j k)"
              and good = "\<lambda>k. d \<noteq> 0"])
        subgoal by (rule refl)
        subgoal for k
          using done_before_fresh[of i j k ?b]
          apply (simp only: done_before_step)
          apply (subst cell_step_closed[symmetric], assumption)
          apply (cases "d = 0")
           apply (simp add: fdiv_def)
          apply (simp add: fdiv_def cell_step_def new_field_def new_phi_def pml_closed_frame Let_def)
          done
        subgoal by (simp only: all_range_const all_range_conj done_before_k_end) simp?
        done
      subgoal by (simp only: all_range_const all_range_conj done_before_j_end) simp?
      done
    subgoal by (simp only: all_range_const all_range_conj done_before_i_end) (auto simp: box_nonempty)
    done
qed

lemma magnetic_HORIPML_order1_yminus_closed:
  "magnetic_HORIPML_order1_yminus xs xf ys yf zs zf d s0 =
     (if kernel_ok Magnetic Y Order1 (xs, xf, ys, yf, zs, zf) d s0
      then Some (pml_closed Magnetic Y Minus Order1 (xs, xf, ys, yf, zs, zf) d (box (xs, xf, ys, yf, zs, zf)) s0) else None)"
proof -
  let ?b = "(xs, xf, ys, yf, zs, zf)"
  let ?U = "\<lambda>P. pml_closed Magnetic Y Minus Order1 ?b d P s0"
  show ?thesis
    unfolding magnetic_HORIPML_order1_yminus_def Let_def[where ?'a = real] Let_def[where ?'a = int]
    apply (rule for_range_cases[where S = "\<lambda>i. ?U (done_before ?b i 0 0)"
          and good = "\<lambda>i. 0 < yf - ys \<longrightarrow> 0 < zf - zs \<longrightarrow> d \<noteq> 0"])
    subgoal by (simp only: done_before_0 pml_closed_empty)
    subgoal for i
      apply (simp only: pml_closed_frame)?
      apply (rule for_range_cases[where S = "\<lambda>j. ?U (done_before ?b i j 0)"
            and good = "\<lambda>j. 0 < zf - zs \<longrightarrow> d \<noteq> 0"])
      subgoal by (rule refl)
      subgoal for j
        apply (rule for_range_cases[where S = "\<lambda>k. ?U (done_before ?b i j k)"
              and good = "\<lambda>k. d \<noteq> 0"])
        subgoal by (rule refl)
        subgoal for k
          using done_before_fresh[of i j k ?b]
          apply (simp only: done_before_step)
          apply (subst cell_step_closed[symmetric], assumption)
          apply (cases "d = 0")
           apply (simp add: fdiv_def)
          apply (simp add: fdiv_def cell_step_def new_field_def new_phi_def pml_closed_frame Let_def)
          done
        subgoal by (simp only: all_range_const all_range_conj done_before_k_end) simp?
        done
      subgoal by (simp only: all_range_const all_range_conj done_before_j_end) simp?
      done
    subgoal by (simp only: all_range_const all_range_conj done_before_i_end) (auto simp: box_nonempty)
    done
qed

lemma magnetic_HORIPML_order2_yminus_closed:
  "magnetic_HORIPML_order2_yminus xs xf ys yf zs zf d s0 =
     (if kernel_ok Magnetic Y Order2 (xs, xf, ys, yf, zs, zf) d s0
      then Some (pml_closed Magnetic Y Minus Order2 (xs, xf, ys, yf, zs, zf) d (box (xs, xf, ys, yf, zs, zf)) s0) else None)"
proof -
  let ?b = "(xs, xf, ys, yf, zs, zf)"
  let ?U = "\<lambda>P. pml_closed Magnetic Y Minus Order2 ?b d P s0"
  show ?thesis
    unfolding magnetic_HORIPML_order2_yminus_def Let_def[where ?'a = real] Let_def[where ?'a = int]
    apply (rule for_range_cases[where S = "\<lambda>i. ?U (done_before ?b i 0 0)"
          and good = "\<lambda>i. 0 < yf - ys \<longrightarrow> 0 < zf - zs \<longrightarrow> d \<noteq> 0"])
    subgoal by (simp only: done_before_0 pml_closed_empty)
    subgoal for i
      apply (simp only: pml_closed_frame)?
      apply (rule for_range_cases[where S = "\<lambda>j. ?U (done_before ?b i j 0)"
            and good = "\<lambda>j. 0 < zf - zs \<longrightarrow> d \<noteq> 0"])
      subgoal by (rule refl)
      subgoal for j
        apply (rule for_range_cases[where S = "\<lambda>k. ?U (done_before ?b i j k)"
              and good = "\<lambda>k. d \<noteq> 0"])
        subgoal by (rule refl)
        subgoal for k
          using done_before_fresh[of i j k ?b]
          apply (simp only: done_before_step)
          apply (subst cell_step_closed[symmetric], assumption)
          apply (cases "d = 0")
           apply (simp add: fdiv_def)
          apply (simp add: fdiv_def cell_step_def new_field_def new_phi_def pml_closed_frame Let_def)
          done
        subgoal by (simp only: all_range_const all_range_conj done_before_k_end) simp?
        done
      subgoal by (simp only: all_range_const all_range_conj done_before_j_end) simp?
      done
    subgoal by (simp only: all_range_const all_range_conj done_before_i_end) (auto simp: box_nonempty)
    done
qed

lemma magnetic_HORIPML_order1_yplus_closed:
  "magnetic_HORIPML_order1_yplus xs xf ys yf zs zf d s0 =
     (if kernel_ok Magnetic Y Order1 (xs, xf, ys, yf, zs, zf) d s0
      then Some (pml_closed Magnetic Y Plus Order1 (xs, xf, ys, yf, zs, zf) d (box (xs, xf, ys, yf, zs, zf)) s0) else None)"
proof -
  let ?b = "(xs, xf, ys, yf, zs, zf)"
  let ?U = "\<lambda>P. pml_closed Magnetic Y Plus Order1 ?b d P s0"
  show ?thesis
    unfolding magnetic_HORIPML_order1_yplus_def Let_def[where ?'a = real] Let_def[where ?'a = int]
    apply (rule for_range_cases[where S = "\<lambda>i. ?U (done_before ?b i 0 0)"
          and good = "\<lambda>i. 0 < yf - ys \<longrightarrow> 0 < zf - zs \<longrightarrow> d \<noteq> 0"])
    subgoal by (simp only: done_before_0 pml_closed_empty)
    subgoal for i
      apply (simp only: pml_closed_frame)?
      apply (rule for_range_cases[where S = "\<lambda>j. ?U (done_before ?b i j 0)"
            and good = "\<lambda>j. 0 < zf - zs \<longrightarrow> d \<noteq> 0"])
      subgoal by (rule refl)
      subgoal for j
        apply (rule for_range_cases[where S = "\<lambda>k. ?U (done_before ?b i j k)"
              and good = "\<lambda>k. d \<noteq> 0"])
        subgoal by (rule refl)
        subgoal for k
          using done_before_fresh[of i j k ?b]
          apply (simp only: done_before_step)
          apply (subst cell_step_closed[symmetric], assumption)
          apply (cases "d = 0")
           apply (simp add: fdiv_def)
          apply (simp add: fdiv_def cell_step_def new_field_def new_phi_def pml_closed_frame Let_def)
          done
        subgoal by (simp only: all_range_const all_range_conj done_before_k_end) simp?
        done
      subgoal by (simp only: all_range_const all_range_conj done_before_j_end) simp?
      done
    subgoal by (simp only: all_range_const all_range_conj done_before_i_end) (auto simp: box_nonempty)
    done
qed

lemma magnetic_HORIPML_order2_yplus_closed:
  "magnetic_HORIPML_order2_yplus xs xf ys yf zs zf d s0 =
     (if kernel_ok Magnetic Y Order2 (xs, xf, ys, yf, zs, zf) d s0
      then Some (pml_closed Magnetic Y Plus Order2 (xs, xf, ys, yf, zs, zf) d (box (xs, xf, ys, yf, zs, zf)) s0) else None)"
proof -
  let ?b = "(xs, xf, ys, yf, zs, zf)"
  let ?U = "\<lambda>P. pml_closed Magnetic Y Plus Order2 ?b d P s0"
  show ?thesis
    unfolding magnetic_HORIPML_order2_yplus_def Let_def[where ?'a = real] Let_def[where ?'a = int]
    apply (rule for_range_cases[where S = "\<lambda>i. ?U (done_before ?b i 0 0)"
          and good = "\<lambda>i. 0 < yf - ys \<longrightarrow> 0 < zf - zs \<longrightarrow> d \<noteq> 0"])
    subgoal by (simp only: done_before_0 pml_closed_empty)
    subgoal for i
      apply (simp only: pml_closed_frame)?
      apply (rule for_range_cases[where S = "\<lambda>j. ?U (done_before ?b i j 0)"
            and good = "\<lambda>j. 0 < zf - zs \<longrightarrow> d \<noteq> 0"])
      subgoal by (rule refl)
      subgoal for j
        apply (rule for_range_cases[where S = "\<lambda>k. ?U (done_before ?b i j k)"
              and good = "\<lambda>k. d \<noteq> 0"])
        subgoal by (rule refl)
        subgoal for k
          using done_before_fresh[of i j k ?b]
          apply (simp only: done_before_step)
          apply (subst cell_step_closed[symmetric], assumption)
          apply (cases "d = 0")
           apply (simp add: fdiv_def)
          apply (simp add: fdiv_def cell_step_def new_field_def new_phi_def pml_closed_frame Let_def)
          done
        subgoal by (simp only: all_range_const all_range_conj done_before_k_end) simp?
        done
      subgoal by (simp only: all_range_const all_range_conj done_before_j_end) simp?
      done
    subgoal by (simp only: all_range_const all_range_conj done_before_i_end) (auto simp: box_nonempty)
    done
qed

lemma magnetic_HORIPML_order1_zminus_closed:
  "magnetic_HORIPML_order1_zminus xs xf ys yf zs zf d s0 =
     (if kernel_ok Magnetic Z Order1 (xs, xf, ys, yf, zs, zf) d s0
      then Some (pml_closed Magnetic Z Minus Order1 (xs, xf, ys, yf, zs, zf) d (box (xs, xf, ys, yf, zs, zf)) s0) else None)"
proof -
  let ?b = "(xs, xf, ys, yf, zs, zf)"
  let ?U = "\<lambda>P. pml_closed Magnetic Z Minus Order1 ?b d P s0"
  show ?thesis
    unfolding magnetic_HORIPML_order1_zminus_def Let_def[where ?'a = real] Let_def[where ?'a = int]
    apply (rule for_range_cases[where S = "\<lambda>i. ?U (done_before ?b i 0 0)"
          and good = "\<lambda>i. 0 < yf - ys \<longrightarrow> 0 < zf - zs \<longrightarrow> d \<noteq> 0"])
    subgoal by (simp only: done_before_0 pml_closed_empty)
    subgoal for i
      apply (simp only: pml_closed_frame)?
      apply (rule for_range_cases[where S = "\<lambda>j. ?U (done_before ?b i j 0)"
            and good = "\<lambda>j. 0 < zf - zs \<longrightarrow> d \<noteq> 0"])
      subgoal by (rule refl)
      subgoal for j
        apply (rule for_range_cases[where S = "\<lambda>k. ?U (done_before ?b i j k)"
              and good = "\<lambda>k. d \<noteq> 0"])
        subgoal by (rule refl)
        subgoal for k
          using done_before_fresh[of i j k ?b]
          apply (simp only: done_before_step)
          apply (subst cell_step_closed[symmetric], assumption)
          apply (cases "d = 0")
           apply (simp add: fdiv_def)
          apply (simp add: fdiv_def cell_step_def new_field_def new_phi_def pml_closed_frame Let_def)
          done
        subgoal by (simp only: all_range_const all_range_conj done_before_k_end) simp?
        done
      subgoal by (simp only: all_range_const all_range_conj done_before_j_end) simp?
      done
    subgoal by (simp only: all_range_const all_range_conj done_before_i_end) (auto simp: box_nonempty)
    done
qed

lemma magnetic_HORIPML_order2_zminus_closed:
  "magnetic_HORIPML_order2_zminus xs xf ys yf zs zf d s0 =
     (if kernel_ok Magnetic Z Order2 (xs, xf, ys, yf, zs, zf) d s0
      then Some (pml_closed Magnetic Z Minus Order2 (xs, xf, ys, yf, zs, zf) d (box (xs, xf, ys, yf, zs, zf)) s0) else None)"
proof -
  let ?b = "(xs, xf, ys, yf, zs, zf)"
  let ?U = "\<lambda>P. pml_closed Magnetic Z Minus Order2 ?b d P s0"
  show ?thesis
    unfolding magnetic_HORIPML_order2_zminus_def Let_def[where ?'a = real] Let_def[where ?'a = int]
    apply (rule for_range_cases[where S = "\<lambda>i. ?U (done_before ?b i 0 0)"
          and good = "\<lambda>i. 0 < yf - ys \<longrightarrow> 0 < zf - zs \<longrightarrow> d \<noteq> 0"])
    subgoal by (simp only: done_before_0 pml_closed_empty)
    subgoal for i
      apply (simp only: pml_closed_frame)?
      apply (rule for_range_cases[where S = "\<lambda>j. ?U (done_before ?b i j 0)"
            and good = "\<lambda>j. 0 < zf - zs \<longrightarrow> d \<noteq> 0"])
      subgoal by (rule refl)
      subgoal for j
        apply (rule for_range_cases[where S = "\<lambda>k. ?U (done_before ?b i j k)"
              and good = "\<lambda>k. d \<noteq> 0"])
        subgoal by (rule refl)
        subgoal for k
          using done_before_fresh[of i j k ?b]
          apply (simp only: done_before_step)
          apply (subst cell_step_closed[symmetric], assumption)
          apply (cases "d = 0")
           apply (simp add: fdiv_def)
          apply (simp add: fdiv_def cell_step_def new_field_def new_phi_def pml_closed_frame Let_def)
          done
        subgoal by (simp only: all_range_const all_range_conj done_before_k_end) simp?
        done
      subgoal by (simp only: all_range_const all_range_conj done_before_j_end) simp?
      done
    subgoal by (simp only: all_range_const all_range_conj done_before_i_end) (auto simp: box_nonempty)
    done
qed

lemma magnetic_HORIPML_order1_zplus_closed:
  "magnetic_HORIPML_order1_zplus xs xf ys yf zs zf d s0 =
     (if kernel_ok Magnetic Z Order1 (xs, xf, ys, yf, zs, zf) d s0
      then Some (pml_closed Magnetic Z Plus Order1 (xs, xf, ys, yf, zs, zf) d (box (xs, xf, ys, yf, zs, zf)) s0) else None)"
proof -
  let ?b = "(xs, xf, ys, yf, zs, zf)"
  let ?U = "\<lambda>P. pml_closed Magnetic Z Plus Order1 ?b d P s0"
  show ?thesis
    unfolding magnetic_HORIPML_order1_zplus_def Let_def[where ?'a = real] Let_def[where ?'a = int]
    apply (rule for_range_cases[where S = "\<lambda>i. ?U (done_before ?b i 0 0)"
          and good = "\<lambda>i. 0 < yf - ys \<longrightarrow> 0 < zf - zs \<longrightarrow> d \<noteq> 0"])
    subgoal by (simp only: done_before_0 pml_closed_empty)
    subgoal for i
      apply (simp only: pml_closed_frame)?
      apply (rule for_range_cases[where S = "\<lambda>j. ?U (done_before ?b i j 0)"
            and good = "\<lambda>j. 0 < zf - zs \<longrightarrow> d \<noteq> 0"])
      subgoal by (rule refl)
      subgoal for j
        apply (rule for_range_cases[where S = "\<lambda>k. ?U (done_before ?b i j k)"
              and good = "\<lambda>k. d \<noteq> 0"])
        subgoal by (rule refl)
        subgoal for k
          using done_before_fresh[of i j k ?b]
          apply (simp only: done_before_step)
          apply (subst cell_step_closed[symmetric], assumption)
          apply (cases "d = 0")
           apply (simp add: fdiv_def)
          apply (simp add: fdiv_def cell_step_def new_field_def new_phi_def pml_closed_frame Let_def)
          done
        subgoal by (simp only: all_range_const all_range_conj done_before_k_end) simp?
        done
      subgoal by (simp only: all_range_const all_range_conj done_before_j_end) simp?
      done
    subgoal by (simp only: all_range_const all_range_conj done_before_i_end) (auto simp: box_nonempty)
    done
qed

lemma magnetic_HORIPML_order2_zplus_closed:
  "magnetic_HORIPML_order2_zplus xs xf ys yf zs zf d s0 =
     (if kernel_ok Magnetic Z Order2 (xs, xf, ys, yf, zs, zf) d s0
      then Some (pml_closed Magnetic Z Plus Order2 (xs, xf, ys, yf, zs, zf) d (box (xs, xf, ys, yf, zs, zf)) s0) else None)"
proof -
  let ?b = "(xs, xf, ys, yf, zs, zf)"
  let ?U = "\<lambda>P. pml_closed Magnetic Z Plus Order2 ?b d P s0"
  show ?thesis
    unfolding magnetic_HORIPML_order2_zplus_def Let_def[where ?'a = real] Let_def[where ?'a = int]
    apply (rule for_range_cases[where S = "\<lambda>i. ?U (done_before ?b i 0 0)"
          and good = "\<lambda>i. 0 < yf - ys \<longrightarrow> 0 < zf - zs \<longrightarrow> d \<noteq> 0"])
    subgoal by (simp only: done_before_0 pml_closed_empty)
    subgoal for i
      apply (simp only: pml_closed_frame)?
      apply (rule for_range_cases[where S = "\<lambda>j. ?U (done_before ?b i j 0)"
            and good = "\<lambda>j. 0 < zf - zs \<longrightarrow> d \<noteq> 0"])
      subgoal by (rule refl)
      subgoal for j
        apply (rule for_range_cases[where S = "\<lambda>k. ?U (done_before ?b i j k)"
              and good = "\<lambda>k. d \<noteq> 0"])
        subgoal by (rule refl)
        subgoal for k
          using done_before_fresh[of i j k ?b]
          apply (simp only: done_before_step)
          apply (subst cell_step_closed[symmetric], assumption)
          apply (cases "d = 0")
           apply (simp add: fdiv_def)
          apply (simp add: fdiv_def cell_step_def new_field_def new_phi_def pml_closed_frame Let_def)
          done
        subgoal by (simp only: all_range_const all_range_conj done_before_k_end) simp?
        done
      subgoal by (simp only: all_range_const all_range_conj done_before_j_end) simp?
      done
    subgoal by (simp only: all_range_const all_range_conj done_before_i_end) (auto simp: box_nonempty)
    done
qed

lemma electric_MRIPML_order1_xminus_closed:
  "electric_MRIPML_order1_xminus xs xf ys yf zs zf d s0 =
     (if kernel_ok Electric X Order1 (xs, xf, ys, yf, zs, zf) d s0
      then Some (pml_closed Electric X Minus Order1 (xs, xf, ys, yf, zs, zf) d (box (xs, xf, ys, yf, zs, zf)) s0) else None)"
proof -
  let ?b = "(xs, xf, ys, yf, zs, zf)"
  let ?U = "\<lambda>P. pml_closed Electric X Minus Order1 ?b d P s0"
  show ?thesis
    unfolding electric_MRIPML_order1_xminus_def Let_def[where ?'a = real] Let_def[where ?'a = int]
    apply (rule for_range_cases[where S = "\<lambda>i. ?U (done_before ?b i 0 0)"
          and good = "\<lambda>i. RA s0 (0, i) \<noteq> 0 \<and> (0 < yf - ys \<longrightarrow> 0 < zf - zs \<longrightarrow> d \<noteq> 0)"])
    subgoal by (simp only: done_before_0 pml_closed_empty)
    subgoal for i
      apply (simp only: pml_closed_frame bind_fdiv)
      apply (cases "RA s0 (0, i) = 0")
       apply simp
      apply (subst if_not_P, assumption)
      apply (rule for_range_cases[where S = "\<lambda>j. ?U (done_before ?b i j 0)"
            and good = "\<lambda>j. 0 < zf - zs \<longrightarrow> d \<noteq> 0"])
      subgoal by (rule refl)
      subgoal for j
        apply (rule for_range_cases[where S = "\<lambda>k. ?U (done_before ?b i j k)"
              and good = "\<lambda>k. d \<noteq> 0"])
        subgoal by (rule refl)
        subgoal for k
          using done_before_fresh[of i j k ?b]
          apply (simp only: done_before_step)
          apply (subst cell_step_closed[symmetric], assumption)
          apply (cases "d = 0")
           apply (simp add: fdiv_def)
          apply (simp add: fdiv_def cell_step_def new_field_def new_phi_def pml_closed_frame Let_def)
          done
        subgoal by (simp only: all_range_const all_range_conj done_before_k_end) simp?
        done
      subgoal by (simp only: all_range_const all_range_conj done_before_j_end) simp?
      done
    subgoal by (simp only: all_range_const all_range_conj done_before_i_end) (auto simp: box_nonempty)
    done
qed

lemma electric_MRIPML_order2_xminus_closed:
  "electric_MRIPML_order2_xminus xs xf ys yf zs zf d s0 =
     (if kernel_ok Electric X Order2 (xs, xf, ys, yf, zs, zf) d s0
      then Some (pml_closed Electric X Minus Order2 (xs, xf, ys, yf, zs, zf) d (box (xs, xf, ys, yf, zs, zf)) s0) else None)"
proof -
  let ?b = "(xs, xf, ys, yf, zs, zf)"
  let ?U = "\<lambda>P. pml_closed Electric X Minus Order2 ?b d P s0"
  show ?thesis
    unfolding electric_MRIPML_order2_xminus_def Let_def[where ?'a = real] Let_def[where ?'a = int]
    apply (rule for_range_cases[where S = "\<lambda>i. ?U (done_before ?b i 0 0)"
          and good = "\<lambda>i. RA s0 (0, i) + RA s0 (1, i) \<noteq> 0 \<and> (0 < yf - ys \<longrightarrow> 0 < zf - zs \<longrightarrow> d \<noteq> 0)"])
    subgoal by (simp only: done_before_0 pml_closed_empty)
    subgoal for i
      apply (simp only: pml_closed_frame bind_fdiv)
      apply (cases "RA s0 (0, i) + RA s0 (1, i) = 0")
       apply simp
      apply (subst if_not_P, assumption)
      apply (rule for_range_cases[where S = "\<lambda>j. ?U (done_before ?b i j 0)"
            and good = "\<lambda>j. 0 < zf - zs \<longrightarrow> d \<noteq> 0"])
      subgoal by (rule refl)
      subgoal for j
        apply (rule for_range_cases[where S = "\<lambda>k. ?U (done_before ?b i j k)"
              and good = "\<lambda>k. d \<noteq> 0"])
        subgoal by (rule refl)
        subgoal for k
          using done_before_fresh[of i j k ?b]
          apply (simp only: done_before_step)
          apply (subst cell_step_closed[symmetric], assumption)
          apply (cases "d = 0")
           apply (simp add: fdiv_def)
          apply (simp add: fdiv_def cell_step_def new_field_def new_phi_def pml_closed_frame Let_def)
          done
        subgoal by (simp only: all_range_const all_range_conj done_before_k_end) simp?
        done
      subgoal by (simp only: all_range_const all_range_conj done_before_j_end) simp?
      done
    subgoal by (simp only: all_range_const all_range_conj done_before_i_end) (auto simp: box_nonempty)
    done
qed

lemma electric_MRIPML_order1_xplus_closed:
  "electric_MRIPML_order1_xplus xs xf ys yf zs zf d s0 =
     (if kernel_ok Electric X Order1 (xs, xf, ys, yf, zs, zf) d s0
      then Some (pml_closed Electric X Plus Order1 (xs, xf, ys, yf, zs, zf) d (box (xs, xf, ys, yf, zs, zf)) s0) else None)"
proof -
  let ?b = "(xs, xf, ys, yf, zs, zf)"
  let ?U = "\<lambda>P. pml_closed Electric X Plus Order1 ?b d P s0"
  show ?thesis
    unfolding electric_MRIPML_order1_xplus_def Let_def[where ?'a = real] Let_def[where ?'a = int]
    apply (rule for_range_cases[where S = "\<lambda>i. ?U (done_before ?b i 0 0)"
          and good = "\<lambda>i. RA s0 (0, i) \<noteq> 0 \<and> (0 < yf - ys \<longrightarrow> 0 < zf - zs \<longrightarrow> d \<noteq> 0)"])
    subgoal by (simp only: done_before_0 pml_closed_empty)
    subgoal for i
      apply (simp only: pml_closed_frame bind_fdiv)
      apply (cases "RA s0 (0, i) = 0")
       apply simp
      apply (subst if_not_P, assumption)
      apply (rule for_range_cases[where S = "\<lambda>j. ?U (done_before ?b i j 0)"
            and good = "\<lambda>j. 0 < zf - zs \<longrightarrow> d \<noteq> 0"])
      subgoal by (rule refl)
      subgoal for j
        apply (rule for_range_cases[where S = "\<lambda>k. ?U (done_before ?b i j k)"
              and good = "\<lambda>k. d \<noteq> 0"])
        subgoal by (rule refl)
        subgoal for k
          using done_before_fresh[of i j k ?b]
          apply (simp only: done_before_step)
          apply (subst cell_step_closed[symmetric], assumption)
          apply (cases "d = 0")
           apply (simp add: fdiv_def)
          apply (simp add: fdiv_def cell_step_def new_field_def new_phi_def pml_closed_frame Let_def)
          done
        subgoal by (simp only: all_range_const all_range_conj done_before_k_end) simp?
        done
      subgoal by (simp only: all_range_const all_range_conj done_before_j_end) simp?
      done
    subgoal by (simp only: all_range_const all_range_conj done_before_i_end) (auto simp: box_nonempty)
    done
qed

lemma electric_MRIPML_order2_xplus_closed:
  "electric_MRIPML_order2_xplus xs xf ys yf zs zf d s0 =
     (if kernel_ok Electric X Order2 (xs, xf, ys, yf, zs, zf) d s0
      then Some (pml_closed Electric X Plus Order2 (xs, xf, ys, yf, zs, zf) d (box (xs, xf, ys, yf, zs, zf)) s0) else None)"
proof -
  let ?b = "(xs, xf, ys, yf, zs, zf)"
  let ?U = "\<lambda>P. pml_closed Electric X Plus Order2 ?b d P s0"
  show ?thesis
    unfolding electric_MRIPML_order2_xplus_def Let_def[where ?'a = real] Let_def[where ?'a = int]
    apply (rule for_range_cases[where S = "\<lambda>i. ?U (done_before ?b i 0 0)"
          and good = "\<lambda>i. RA s0 (0, i) + RA s0 (1, i) \<noteq> 0 \<and> (0 < yf - ys \<longrightarrow> 0 < zf - zs \<longrightarrow> d \<noteq> 0)"])
    subgoal by (simp only: done_before_0 pml_closed_empty)
    subgoal for i
      apply (simp only: pml_closed_frame bind_fdiv)
      apply (cases "RA s0 (0, i) + RA s0 (1, i) = 0")
       apply simp
      apply (subst if_not_P, assumption)
      apply (rule for_range_cases[where S = "\<lambda>j. ?U (done_before ?b i j 0)"
            and good = "\<lambda>j. 0 < zf - zs \<longrightarrow> d \<noteq> 0"])
      subgoal by (rule refl)
      subgoal for j
        apply (rule for_range_cases[where S = "\<lambda>k. ?U (done_before ?b i j k)"
              and good = "\<lambda>k. d \<noteq> 0"])
        subgoal by (rule refl)
        subgoal for k
          using done_before_fresh[of i j k ?b]
          apply (simp only: done_before_step)
          apply (subst cell_step_closed[symmetric], assumption)
          apply (cases "d = 0")
           apply (simp add: fdiv_def)
          apply (simp add: fdiv_def cell_step_def new_field_def new_phi_def pml_closed_frame Let_def)
          done
        subgoal by (simp only: all_range_const all_range_conj done_before_k_end) simp?
        done
      subgoal by (simp only: all_range_const all_range_conj done_before_j_end) simp?
      done
    subgoal by (simp only: all_range_const all_range_conj done_before_i_end) (auto simp: box_nonempty)
    done
qed

lemma electric_MRIPML_order1_yminus_closed:
  "electric_MRIPML_order1_yminus xs xf ys yf zs zf d s0 =
     (if kernel_ok Electric Y Order1 (xs, xf, ys, yf, zs, zf) d s0
      then Some (pml_closed Electric Y Minus Order1 (xs, xf, ys, yf, zs, zf) d (box (xs, xf, ys, yf, zs, zf)) s0) else None)"
proof -
  let ?b = "(xs, xf, ys, yf, zs, zf)"
  let ?U = "\<lambda>P. pml_closed Electric Y Minus Order1 ?b d P s0"
  show ?thesis
    unfolding electric_MRIPML_order1_yminus_def Let_def[where ?'a = real] Let_def[where ?'a = int]
    apply (rule for_range_cases[where S = "\<lambda>i. ?U (done_before ?b i 0 0)"
          and good = "\<lambda>i. (\<forall>j. 0 \<le> j \<and> j < yf - ys \<longrightarrow> RA s0 (0, j) \<noteq> 0) \<and> (0 < yf - ys \<longrightarrow> 0 < zf - zs \<longrightarrow> d \<noteq> 0)"])
    subgoal by (simp only: done_before_0 pml_closed_empty)
    subgoal for i
      apply (simp only: pml_closed_frame)?
      apply (rule for_range_cases[where S = "\<lambda>j. ?U (done_before ?b i j 0)"
            and good = "\<lambda>j. RA s0 (0, j) \<noteq> 0 \<and> (0 < zf - zs \<longrightarrow> d \<noteq> 0)"])
      subgoal by (rule refl)
      subgoal for j
        apply (simp only: pml_closed_frame bind_fdiv)
        apply (cases "RA s0 (0, j) = 0")
         apply simp
        apply (subst if_not_P, assumption)
        apply (rule for_range_cases[where S = "\<lambda>k. ?U (done_before ?b i j k)"
              and good = "\<lambda>k. d \<noteq> 0"])
        subgoal by (rule refl)
        subgoal for k
          using done_before_fresh[of i j k ?b]
          apply (simp only: done_before_step)
          apply (subst cell_step_closed[symmetric], assumption)
          apply (cases "d = 0")
           apply (simp add: fdiv_def)
          apply (simp add: fdiv_def cell_step_def new_field_def new_phi_def pml_closed_frame Let_def)
          done
        subgoal by (simp only: all_range_const all_range_conj done_before_k_end) simp?
        done
      subgoal by (simp only: all_range_const all_range_conj done_before_j_end) simp?
      done
    subgoal by (simp only: all_range_const all_range_conj done_before_i_end) (auto simp: box_nonempty)
    done
qed

lemma electric_MRIPML_order2_yminus_closed:
  "electric_MRIPML_order2_yminus xs xf ys yf zs zf d s0 =
     (if kernel_ok Electric Y Order2 (xs, xf, ys, yf, zs, zf) d s0
      then Some (pml_closed Electric Y Minus Order2 (xs, xf, ys, yf, zs, zf) d (box (xs, xf, ys, yf, zs, zf)) s0) else None)"
proof -
  let ?b = "(xs, xf, ys, yf, zs, zf)"
  let ?U = "\<lambda>P. pml_closed Electric Y Minus Order2 ?b d P s0"
  show ?thesis
    unfolding electric_MRIPML_order2_yminus_def Let_def[where ?'a = real] Let_def[where ?'a = int]
    apply (rule for_range_cases[where S = "\<lambda>i. ?U (done_before ?b i 0 0)"
          and good = "\<lambda>i. (\<forall>j. 0 \<le> j \<and> j < yf - ys \<longrightarrow> RA s0 (0, j) + RA s0 (1, j) \<noteq> 0) \<and> (0 < yf - ys \<longrightarrow> 0 < zf - zs \<longrightarrow> d \<noteq> 0)"])
    subgoal by (simp only: done_before_0 pml_closed_empty)
    subgoal for i
      apply (simp only: pml_closed_frame)?
      apply (rule for_range_cases[where S = "\<lambda>j. ?U (done_before ?b i j 0)"
            and good = "\<lambda>j. RA s0 (0, j) + RA s0 (1, j) \<noteq> 0 \<and> (0 < zf - zs \<longrightarrow> d \<noteq> 0)"])
      subgoal by (rule refl)
      subgoal for j
        apply (simp only: pml_closed_frame bind_fdiv)
        apply (cases "RA s0 (0, j) + RA s0 (1, j) = 0")
         apply simp
        apply (subst if_not_P, assumption)
        apply (rule for_range_cases[where S = "\<lambda>k. ?U (done_before ?b i j k)"
              and good = "\<lambda>k. d \<noteq> 0"])
        subgoal by (rule refl)
        subgoal for k
          using done_before_fresh[of i j k ?b]
          apply (simp only: done_before_step)
          apply (subst cell_step_closed[symmetric], assumption)
          apply (cases "d = 0")
           apply (simp add: fdiv_def)
          apply (simp add: fdiv_def cell_step_def new_field_def new_phi_def pml_closed_frame Let_def)
          done
        subgoal by (simp only: all_range_const all_range_conj done_before_k_end) simp?
        done
      subgoal by (simp only: all_range_const all_range_conj done_before_j_end) simp?
      done
    subgoal by (simp only: all_range_const all_range_conj done_before_i_end) (auto simp: box_nonempty)
    done
qed

lemma electric_MRIPML_order1_yplus_closed:
  "electric_MRIPML_order1_yplus xs xf ys yf zs zf d s0 =
     (if kernel_ok Electric Y Order1 (xs, xf, ys, yf, zs, zf) d s0
      then Some (pml_closed Electric Y Plus Order1 (xs, xf, ys, yf, zs, zf) d (box (xs, xf, ys, yf, zs, zf)) s0) else None)"
proof -
  let ?b = "(xs, xf, ys, yf, zs, zf)"
  let ?U = "\<lambda>P. pml_closed Electric Y Plus Order1 ?b d P s0"
  show ?thesis
    unfolding electric_MRIPML_order1_yplus_def Let_def[where ?'a = real] Let_def[where ?'a = int]
    apply (rule for_range_cases[where S = "\<lambda>i. ?U (done_before ?b i 0 0)"
          and good = "\<lambda>i. (\<forall>j. 0 \<le> j \<and> j < yf - ys \<longrightarrow> RA s0 (0, j) \<noteq> 0) \<and> (0 < yf - ys \<longrightarrow> 0 < zf - zs \<longrightarrow> d \<noteq> 0)"])
    subgoal by (simp only: done_before_0 pml_closed_empty)
    subgoal for i
      apply (simp only: pml_closed_frame)?
      apply (rule for_range_cases[where S = "\<lambda>j. ?U (done_before ?b i j 0)"
            and good = "\<lambda>j. RA s0 (0, j) \<noteq> 0 \<and> (0 < zf - zs \<longrightarrow> d \<noteq> 0)"])
      subgoal by (rule refl)
      subgoal for j
        apply (simp only: pml_closed_frame bind_fdiv)
        apply (cases "RA s0 (0, j) = 0")
         apply simp
        apply (subst if_not_P, assumption)
        apply (rule for_range_cases[where S = "\<lambda>k. ?U (done_before ?b i j k)"
              and good = "\<lambda>k. d \<noteq> 0"])
        subgoal by (rule refl)
        subgoal for k
          using done_before_fresh[of i j k ?b]
          apply (simp only: done_before_step)
          apply (subst cell_step_closed[symmetric], assumption)
          apply (cases "d = 0")
           apply (simp add: fdiv_def)
          apply (simp add: fdiv_def cell_step_def new_field_def new_phi_def pml_closed_frame Let_def)
          done
        subgoal by (simp only: all_range_const all_range_conj done_before_k_end) simp?
        done
      subgoal by (simp only: all_range_const all_range_conj done_before_j_end) simp?
      done
    subgoal by (simp only: all_range_const all_range_conj done_before_i_end) (auto simp: box_nonempty)
    done
qed

lemma electric_MRIPML_order2_yplus_closed:
  "electric_MRIPML_order2_yplus xs xf ys yf zs zf d s0 =
     (if kernel_ok Electric Y Order2 (xs, xf, ys, yf, zs, zf) d s0
      then Some (pml_closed Electric Y Plus Order2 (xs, xf, ys, yf, zs, zf) d (box (xs, xf, ys, yf, zs, zf)) s0) else None)"
proof -
  let ?b = "(xs, xf, ys, yf, zs, zf)"
  let ?U = "\<lambda>P. pml_closed Electric Y Plus Order2 ?b d P s0"
  show ?thesis
    unfolding electric_MRIPML_order2_yplus_def Let_def[where ?'a = real] Let_def[where ?'a = int]
    apply (rule for_range_cases[where S = "\<lambda>i. ?U (done_before ?b i 0 0)"
          and good = "\<lambda>i. (\<forall>j. 0 \<le> j \<and> j < yf - ys \<longrightarrow> RA s0 (0, j) + RA s0 (1, j) \<noteq> 0) \<and> (0 < yf - ys \<longrightarrow> 0 < zf - zs \<longrightarrow> d \<noteq> 0)"])
    subgoal by (simp only: done_before_0 pml_closed_empty)
    subgoal for i
      apply (simp only: pml_closed_frame)?
      apply (rule for_range_cases[where S = "\<lambda>j. ?U (done_before ?b i j 0)"
            and good = "\<lambda>j. RA s0 (0, j) + RA s0 (1, j) \<noteq> 0 \<and> (0 < zf - zs \<longrightarrow> d \<noteq> 0)"])
      subgoal by (rule refl)
      subgoal for j
        apply (simp only: pml_closed_frame bind_fdiv)
        apply (cases "RA s0 (0, j) + RA s0 (1, j) = 0")
         apply simp
        apply (subst if_not_P, assumption)
        apply (rule for_range_cases[where S = "\<lambda>k. ?U (done_before ?b i j k)"
              and good = "\<lambda>k. d \<noteq> 0"])
        subgoal by (rule refl)
        subgoal for k
          using done_before_fresh[of i j k ?b]
          apply (simp only: done_before_step)
          apply (subst cell_step_closed[symmetric], assumption)
          apply (cases "d = 0")
           apply (simp add: fdiv_def)
          apply (simp add: fdiv_def cell_step_def new_field_def new_phi_def pml_closed_frame Let_def)
          done
        subgoal by (simp only: all_range_const all_range_conj done_before_k_end) simp?
        done
      subgoal by (simp only: all_range_const all_range_conj done_before_j_end) simp?
      done
    subgoal by (simp only: all_range_const all_range_conj done_before_i_end) (auto simp: box_nonempty)
    done
qed

lemma electric_MRIPML_order1_zminus_closed:
  "electric_MRIPML_order1_zminus xs xf ys yf zs zf d s0 =
     (if kernel_ok Electric Z Order1 (xs, xf, ys, yf, zs, zf) d s0
      then Some (pml_closed Electric Z Minus Order1 (xs, xf, ys, yf, zs, zf) d (box (xs, xf, ys, yf, zs, zf)) s0) else None)"
proof -
  let ?b = "(xs, xf, ys, yf, zs, zf)"
  let ?U = "\<lambda>P. pml_closed Electric Z Minus Order1 ?b d P s0"
  show ?thesis
    unfolding electric_MRIPML_order1_zminus_def Let_def[where ?'a = real] Let_def[where ?'a = int]
    apply (rule for_range_cases[where S = "\<lambda>i. ?U (done_before ?b i 0 0)"
          and good = "\<lambda>i. 0 < yf - ys \<longrightarrow> (\<forall>k. 0 \<le> k \<and> k < zf - zs \<longrightarrow> RA s0 (0, k) \<noteq> 0) \<and> (0 < zf - zs \<longrightarrow> d \<noteq> 0)"])
    subgoal by (simp only: done_before_0 pml_closed_empty)
    subgoal for i
      apply (simp only: pml_closed_frame)?
      apply (rule for_range_cases[where S = "\<lambda>j. ?U (done_before ?b i j 0)"
            and good = "\<lambda>j. (\<forall>k. 0 \<le> k \<and> k < zf - zs \<longrightarrow> RA s0 (0, k) \<noteq> 0) \<and> (0 < zf - zs \<longrightarrow> d \<noteq> 0)"])
      subgoal by (rule refl)
      subgoal for j
        apply (rule for_range_cases[where S = "\<lambda>k. ?U (done_before ?b i j k)"
              and good = "\<lambda>k. RA s0 (0, k) \<noteq> 0 \<and> d \<noteq> 0"])
        subgoal by (rule refl)
        subgoal for k
          using done_before_fresh[of i j k ?b]
          apply (simp only: done_before_step)
          apply (simp only: pml_closed_frame)
          apply (cases "RA s0 (0, k) = 0")
           apply (simp add: fdiv_def)
          apply (subst cell_step_closed[symmetric], assumption)
          apply (cases "d = 0")
           apply (simp add: fdiv_def)
          apply (simp add: fdiv_def cell_step_def new_field_def new_phi_def pml_closed_frame Let_def)
          done
        subgoal by (simp only: all_range_const all_range_conj done_before_k_end) simp?
        done
      subgoal by (simp only: all_range_const all_range_conj done_before_j_end) simp?
      done
    subgoal by (simp only: all_range_const all_range_conj done_before_i_end) (auto simp: box_nonempty)
    done
qed

lemma electric_MRIPML_order2_zminus_closed:
  "electric_MRIPML_order2_zminus xs xf ys yf zs zf d s0 =
     (if kernel_ok Electric Z Order2 (xs, xf, ys, yf, zs, zf) d s0
      then Some (pml_closed Electric Z Minus Order2 (xs, xf, ys, yf, zs, zf) d (box (xs, xf, ys, yf, zs, zf)) s0) else None)"
proof -
  let ?b = "(xs, xf, ys, yf, zs, zf)"
  let ?U = "\<lambda>P. pml_closed Electric Z Minus Order2 ?b d P s0"
  show ?thesis
    unfolding electric_MRIPML_order2_zminus_def Let_def[where ?'a = real] Let_def[where ?'a = int]
    apply (rule for_range_cases[where S = "\<lambda>i. ?U (done_before ?b i 0 0)"
          and good = "\<lambda>i. 0 < yf - ys \<longrightarrow> (\<forall>k. 0 \<le> k \<and> k < zf - zs \<longrightarrow> RA s0 (0, k) + RA s0 (1, k) \<noteq> 0) \<and> (0 < zf - zs \<longrightarrow> d \<noteq> 0)"])
    subgoal by (simp only: done_before_0 pml_closed_empty)
    subgoal for i
      apply (simp only: pml_closed_frame)?
      apply (rule for_range_cases[where S = "\<lambda>j. ?U (done_before ?b i j 0)"
            and good = "\<lambda>j. (\<forall>k. 0 \<le> k \<and> k < zf - zs \<longrightarrow> RA s0 (0, k) + RA s0 (1, k) \<noteq> 0) \<and> (0 < zf - zs \<longrightarrow> d \<noteq> 0)"])
      subgoal by (rule refl)
      subgoal for j
        apply (rule for_range_cases[where S = "\<lambda>k. ?U (done_before ?b i j k)"
              and good = "\<lambda>k. RA s0 (0, k) + RA s0 (1, k) \<noteq> 0 \<and> d \<noteq> 0"])
        subgoal by (rule refl)
        subgoal for k
          using done_before_fresh[of i j k ?b]
          apply (simp only: done_before_step)
          apply (simp only: pml_closed_frame)
          apply (cases "RA s0 (0, k) + RA s0 (1, k) = 0")
           apply (simp add: fdiv_def)
          apply (subst cell_step_closed[symmetric], assumption)
          apply (cases "d = 0")
           apply (simp add: fdiv_def)
          apply (simp add: fdiv_def cell_step_def new_field_def new_phi_def pml_closed_frame Let_def)
          done
        subgoal by (simp only: all_range_const all_range_conj done_before_k_end) simp?
        done
      subgoal by (simp only: all_range_const all_range_conj done_before_j_end) simp?
      done
    subgoal by (simp only: all_range_const all_range_conj done_before_i_end) (auto simp: box_nonempty)
    done
qed

lemma electric_MRIPML_order1_zplus_closed:
  "electric_MRIPML_order1_zplus xs xf ys yf zs zf d s0 =
     (if kernel_ok Electric Z Order1 (xs, xf, ys, yf, zs, zf) d s0
      then Some (pml_closed Electric Z Plus Order1 (xs, xf, ys, yf, zs, zf) d (box (xs, xf, ys, yf, zs, zf)) s0) else None)"
proof -
  let ?b = "(xs, xf, ys, yf, zs, zf)"
  let ?U = "\<lambda>P. pml_closed Electric Z Plus Order1 ?b d P s0"
  show ?thesis
    unfolding electric_MRIPML_order1_zplus_def Let_def[where ?'a = real] Let_def[where ?'a = int]
    apply (rule for_range_cases[where S = "\<lambda>i. ?U (done_before ?b i 0 0)"
          and good = "\<lambda>i. 0 < yf - ys \<longrightarrow> (\<forall>k. 0 \<le> k \<and> k < zf - zs \<longrightarrow> RA s0 (0, k) \<noteq> 0) \<and> (0 < zf - zs \<longrightarrow> d \<noteq> 0)"])
    subgoal by (simp only: done_before_0 pml_closed_empty)
    subgoal for i
      apply (simp only: pml_closed_frame)?
      apply (rule for_range_cases[where S = "\<lambda>j. ?U (done_before ?b i j 0)"
            and good = "\<lambda>j. (\<forall>k. 0 \<le> k \<and> k < zf - zs \<longrightarrow> RA s0 (0, k) \<noteq> 0) \<and> (0 < zf - zs \<longrightarrow> d \<noteq> 0)"])
      subgoal by (rule refl)
      subgoal for j
        apply (rule for_range_cases[where S = "\<lambda>k. ?U (done_before ?b i j k)"
              and good = "\<lambda>k. RA s0 (0, k) \<noteq> 0 \<and> d \<noteq> 0"])
        subgoal by (rule refl)
        subgoal for k
          using done_before_fresh[of i j k ?b]
          apply (simp only: done_before_step)
          apply (simp only: pml_closed_frame)
          apply (cases "RA s0 (0, k) = 0")
           apply (simp add: fdiv_def)
          apply (subst cell_step_closed[symmetric], assumption)
          apply (cases "d = 0")
           apply (simp add: fdiv_def)
          apply (simp add: fdiv_def cell_step_def new_field_def new_phi_def pml_closed_frame Let_def)
          done
        subgoal by (simp only: all_range_const all_range_conj done_before_k_end) simp?
        done
      subgoal by (simp only: all_range_const all_range_conj done_before_j_end) simp?
      done
    subgoal by (simp only: all_range_const all_range_conj done_before_i_end) (auto simp: box_nonempty)
    done
qed

lemma electric_MRIPML_order2_zplus_closed:
  "electric_MRIPML_order2_zplus xs xf ys yf zs zf d s0 =
     (if kernel_ok Electric Z Order2 (xs, xf, ys, yf, zs, zf) d s0
      then Some (pml_closed Electric Z Plus Order2 (xs, xf, ys, yf, zs, zf) d (box (xs, xf, ys, yf, zs, zf)) s0) else None)"
proof -
  let ?b = "(xs, xf, ys, yf, zs, zf)"
  let ?U = "\<lambda>P. pml_closed Electric Z Plus Order2 ?b d P s0"
  show ?thesis
    unfolding electric_MRIPML_order2_zplus_def Let_def[where ?'a = real] Let_def[where ?'a = int]
    apply (rule for_range_cases[where S = "\<lambda>i. ?U (done_before ?b i 0 0)"
          and good = "\<lambda>i. 0 < yf - ys \<longrightarrow> (\<forall>k. 0 \<le> k \<and> k < zf - zs \<longrightarrow> RA s0 (0, k) + RA s0 (1, k) \<noteq> 0) \<and> (0 < zf - zs \<longrightarrow> d \<noteq> 0)"])
    subgoal by (simp only: done_before_0 pml_closed_empty)
    subgoal for i
      apply (simp only: pml_closed_frame)?
      apply (rule for_range_cases[where S = "\<lambda>j. ?U (done_before ?b i j 0)"
            and good = "\<lambda>j. (\<forall>k. 0 \<le> k \<and> k < zf - zs \<longrightarrow> RA s0 (0, k) + RA s0 (1, k) \<noteq> 0) \<and> (0 < zf - zs \<longrightarrow> d \<noteq> 0)"])
      subgoal by (rule refl)
      subgoal for j
        apply (rule for_range_cases[where S = "\<lambda>k. ?U (done_before ?b i j k)"
              and good = "\<lambda>k. RA s0 (0, k) + RA s0 (1, k) \<noteq> 0 \<and> d \<noteq> 0"])
        subgoal by (rule refl)
        subgoal for k
          using done_before_fresh[of i j k ?b]
          apply (simp only: done_before_step)
          apply (simp only: pml_closed_frame)
          apply (cases "RA s0 (0, k) + RA s0 (1, k) = 0")
           apply (simp add: fdiv_def)
          apply (subst cell_step_closed[symmetric], assumption)
          apply (cases "d = 0")
           apply (simp add: fdiv_def)
          apply (simp add: fdiv_def cell_step_def new_field_def new_phi_def pml_closed_frame Let_def)
          done
        subgoal by (simp only: all_range_const all_range_conj done_before_k_end) simp?
        done
      subgoal by (simp only: all_range_const all_range_conj done_before_j_end) simp?
      done
    subgoal by (simp only: all_range_const all_range_conj done_before_i_end) (auto simp: box_nonempty)
    done
qed

lemmas kernel_closed =
    magnetic_HORIPML_order1_xminus_closed magnetic_HORIPML_order2_xminus_closed
    magnetic_HORIPML_order1_xplus_closed magnetic_HORIPML_order2_xplus_closed
    magnetic_HORIPML_order1_yminus_closed magnetic_HORIPML_order2_yminus_closed
    magnetic_HORIPML_order1_yplus_closed magnetic_HORIPML_order2_yplus_closed
    magnetic_HORIPML_order1_zminus_closed magnetic_HORIPML_order2_zminus_closed
    magnetic_HORIPML_order1_zplus_closed magnetic_HORIPML_order2_zplus_closed
    electric_MRIPML_order1_xminus_closed electric_MRIPML_order2_xminus_closed
    electric_MRIPML_order1_xplus_closed electric_MRIPML_order2_xplus_closed
    electric_MRIPML_order1_yminus_closed electric_MRIPML_order2_yminus_closed
    electric_MRIPML_order1_yplus_closed electric_MRIPML_order2_yplus_closed
    electric_MRIPML_order1_zminus_closed electric_MRIPML_order2_zminus_closed
    electric_MRIPML_order1_zplus_closed electric_MRIPML_order2_zplus_closed

text \<open>
  The refinement, for the whole family: a call raises exactly when \<open>kernel_ok\<close> fails,
  and otherwise returns the closed form over the whole slab.
\<close>

lemma pml_kernel_closed:
  "pml_kernel kd ax dr ord b d s =
     (if kernel_ok kd ax ord b d s then Some (pml_closed kd ax dr ord b d (box b) s) else None)"
proof -
  obtain xs xf ys yf zs zf where b: "b = (xs, xf, ys, yf, zs, zf)"
    by (cases b) blast
  show ?thesis
    unfolding b
    by (cases kd; cases ax; cases dr; cases ord) (simp_all only: pml_kernel.simps kernel_closed)
qed

lemma in_box: "(i, j, k) \<in> box (xs, xf, ys, yf, zs, zf) \<longleftrightarrow>
    0 \<le> i \<and> i < xf - xs \<and> 0 \<le> j \<and> j < yf - ys \<and> 0 \<le> k \<and> k < zf - zs"
  by (simp add: box_def)

subsection \<open>Reading the closed form\<close>

lemma closed_target1:
  "field (fst (targets kd ax)) (pml_closed kd ax dr ord b d P s) g =
     (if lidx kd ax dr b g \<in> P
      then new_field kd ax dr ord b d s (fst (targets kd ax)) (fst (drivers kd ax))
             (fst (signs kd ax)) (Phi1 s) (lidx kd ax dr b g)
      else field (fst (targets kd ax)) s g)"
  by (cases kd; cases ax) (simp_all add: pml_closed_def)

lemma closed_target2:
  "field (snd (targets kd ax)) (pml_closed kd ax dr ord b d P s) g =
     (if lidx kd ax dr b g \<in> P
      then new_field kd ax dr ord b d s (snd (targets kd ax)) (snd (drivers kd ax))
             (snd (signs kd ax)) (Phi2 s) (lidx kd ax dr b g)
      else field (snd (targets kd ax)) s g)"
  by (cases kd; cases ax) (simp_all add: pml_closed_def)

lemma closed_other:
  "t \<noteq> fst (targets kd ax) \<Longrightarrow> t \<noteq> snd (targets kd ax) \<Longrightarrow>
   field t (pml_closed kd ax dr ord b d P s) = field t s"
  by (cases kd; cases ax; cases t) (simp_all add: pml_closed_def)

lemma closed_Phi1:
  "Phi1 (pml_closed kd ax dr ord b d P s) mc =
     (if snd mc \<in> P then new_phi kd ax dr ord b d s (fst (drivers kd ax)) (Phi1 s) mc else Phi1 s mc)"
  by (cases kd; cases ax) (simp_all add: pml_closed_def)

lemma closed_Phi2:
  "Phi2 (pml_closed kd ax dr ord b d P s) mc =
     (if snd mc \<in> P then new_phi kd ax dr ord b d s (snd (drivers kd ax)) (Phi2 s) mc else Phi2 s mc)"
  by (cases kd; cases ax) (simp_all add: pml_closed_def)

lemma pml_kernel_SomeD:
  "pml_kernel kd ax dr ord b d s = Some s' \<Longrightarrow>
   kernel_ok kd ax ord b d s \<and> s' = pml_closed kd ax dr ord b d (box b) s"
  by (simp add: pml_kernel_closed split: if_splits)

lemma sample_state_simps:
  "updatecoeffsE sample_state = (\<lambda>_. 2)" "updatecoeffsH sample_state = (\<lambda>_. 3)"
  "ID sample_state = (\<lambda>_. 0)"
  "Ex sample_state = (\<lambda>(a, b, c). of_int (a * a + b + c))"
  "Ey sample_state = (\<lambda>(a, b, c). of_int (a + b * b + c))"
  "Ez sample_state = (\<lambda>(a, b, c). of_int (a + b + c * c))"
  "Hx sample_state = (\<lambda>(a, b, c). of_int (a * a - b - c))"
  "Hy sample_state = (\<lambda>(a, b, c). of_int (b * b - a - c))"
  "Hz sample_state = (\<lambda>(a, b, c). of_int (c * c - a - b))"
  "Phi1 sample_state = (\<lambda>(m, c). of_int (1 + m))" "Phi2 sample_state = (\<lambda>(m, c). of_int (3 + m))"
  "RA sample_state = (\<lambda>(m, n). of_int (2 + m))" "RB sample_state = (\<lambda>(m, n). of_int (3 + m))"
  "RE sample_state = (\<lambda>(m, n). of_int (5 + m))" "RF sample_state = (\<lambda>(m, n). of_int (7 + m))"
  by (simp_all add: sample_state_def)


lemma shift_image_iff: "g \<in> shift ax t ` A \<longleftrightarrow> shift ax (- t) g \<in> A"
proof -
  have inv: "shift ax t (shift ax (- t) h) = h" "shift ax (- t) (shift ax t h) = h" for h
    by (cases ax; cases h; simp)+
  show ?thesis
    by (metis inv image_iff)
qed

lemma lidx_in_box:
  "lidx kd ax dr b g \<in> box b \<longleftrightarrow>
     g \<in> (if kd = Electric \<and> dr = Minus then shift ax 1 ` slab b else slab b)"
  by (cases kd; cases ax; cases dr; cases b; cases g)
     (auto simp: shift_image_iff box_def slab_def)

section \<open>The update laws of the x-minus kernels\<close>

text \<open>
  Claim C2. With a step \<open>d \<noteq> 0\<close> the order-1 magnetic kernel of the xminus slab
  returns, and at every cell \<open>(i, j, k)\<close> of the slab, with \<open>ii = xf - (i + 1)\<close>,
  \<open>jj = j + ys\<close>, \<open>kk = k + zs\<close> and the forward differences \<open>dEz\<close>, \<open>dEy\<close> of the state
  before the call, it has added \<open>c_Hy ((RA[0,i] - 1) dEz + RB[0,i] Phi1[0,i,j,k])\<close> to
  \<open>Hy[ii,jj,kk]\<close>, subtracted \<open>c_Hz ((RA[0,i] - 1) dEy + RB[0,i] Phi2[0,i,j,k])\<close> from
  \<open>Hz[ii,jj,kk]\<close>, and replaced \<open>Phi1[0,i,j,k]\<close> by \<open>RE[0,i] Phi1[0,i,j,k] - RF[0,i] dEz\<close>
  (and \<open>Phi2\<close> likewise with \<open>dEy\<close>); every value on the right is the one before the call.
\<close>

theorem magnetic_order1_xminus_law:
  assumes "d \<noteq> 0"
    and "0 \<le> i" "i < xf - xs" "0 \<le> j" "j < yf - ys" "0 \<le> k" "k < zf - zs"
  shows "\<exists>s'. magnetic_HORIPML_order1_xminus xs xf ys yf zs zf d s = Some s' \<and>
       (let ii = xf - (i + 1); jj = j + ys; kk = k + zs;
            dEz = (Ez s (ii + 1, jj, kk) - Ez s (ii, jj, kk)) / d;
            dEy = (Ey s (ii + 1, jj, kk) - Ey s (ii, jj, kk)) / d;
            c_Hy = updatecoeffsH s (sint (ID s (4, ii, jj, kk)), 4);
            c_Hz = updatecoeffsH s (sint (ID s (5, ii, jj, kk)), 4)
        in Hy s' (ii, jj, kk) = Hy s (ii, jj, kk)
               + c_Hy * ((RA s (0, i) - 1) * dEz + RB s (0, i) * Phi1 s (0, i, j, k))
         \<and> Hz s' (ii, jj, kk) = Hz s (ii, jj, kk)
               - c_Hz * ((RA s (0, i) - 1) * dEy + RB s (0, i) * Phi2 s (0, i, j, k))
         \<and> Phi1 s' (0, i, j, k) = RE s (0, i) * Phi1 s (0, i, j, k) - RF s (0, i) * dEz
         \<and> Phi2 s' (0, i, j, k) = RE s (0, i) * Phi2 s (0, i, j, k) - RF s (0, i) * dEy)"
  using assms
  by (simp add: magnetic_HORIPML_order1_xminus_closed pml_closed_def new_field_def new_phi_def
      in_box Let_def)

theorem magnetic_order1_xminus_law_witness:
  "\<exists>s'. magnetic_HORIPML_order1_xminus 0 2 0 1 0 1 1 sample_state = Some s'
       \<and> Hy s' (1, 0, 0) = 11 \<and> Hz s' (1, 0, 0) = -31
       \<and> Phi1 s' (0, 0, 0, 0) = -2 \<and> Phi2 s' (0, 0, 0, 0) = 8"
  using magnetic_order1_xminus_law[where d = 1 and s = sample_state and xs = 0 and xf = 2
      and ys = 0 and yf = 1 and zs = 0 and zf = 1 and i = 0 and j = 0 and k = 0]
  by (simp add: sample_state_def)

text \<open>
  Claim C3. With \<open>d \<noteq> 0\<close> and no zero in \<open>RA[0, 0..nx)\<close> the order-1 electric kernel of the
  xminus slab returns, and at every cell of the slab, with \<open>IRA = 1 / RA[0,i]\<close>,
  \<open>IRA1 = IRA - 1\<close>, \<open>RC0 = IRA RB[0,i] RF[0,i]\<close>, \<open>ii = xf - i\<close> and the backward
  difference \<open>dHz = (Hz[ii,jj,kk] - Hz[ii-1,jj,kk]) / d\<close>, it has subtracted
  \<open>c_Ey (IRA1 dHz - IRA Phi1[0,i,j,k])\<close> from \<open>Ey[ii,jj,kk]\<close> and replaced \<open>Phi1[0,i,j,k]\<close>
  by \<open>RE[0,i] Phi1[0,i,j,k] + RC0 dHz - RC0 Phi1[0,i,j,k]\<close>, both occurrences of \<open>Phi1\<close>
  read before the call, which is \<open>(RE[0,i] - RC0) Phi1[0,i,j,k] + RC0 dHz\<close>. \<open>Ez\<close> is
  updated from \<open>dHy\<close> and \<open>Phi2\<close> by the same law, its correction term added.
\<close>

theorem electric_order1_xminus_law:
  assumes "d \<noteq> 0" and "\<forall>n. 0 \<le> n \<and> n < xf - xs \<longrightarrow> RA s (0, n) \<noteq> 0"
    and "0 \<le> i" "i < xf - xs" "0 \<le> j" "j < yf - ys" "0 \<le> k" "k < zf - zs"
  shows "\<exists>s'. electric_MRIPML_order1_xminus xs xf ys yf zs zf d s = Some s' \<and>
       (let IRA = 1 / RA s (0, i); IRA1 = IRA - 1; RC0 = IRA * RB s (0, i) * RF s (0, i);
            ii = xf - i; jj = j + ys; kk = k + zs;
            dHz = (Hz s (ii, jj, kk) - Hz s (ii - 1, jj, kk)) / d;
            dHy = (Hy s (ii, jj, kk) - Hy s (ii - 1, jj, kk)) / d;
            c_Ey = updatecoeffsE s (sint (ID s (1, ii, jj, kk)), 4);
            c_Ez = updatecoeffsE s (sint (ID s (2, ii, jj, kk)), 4)
        in Ey s' (ii, jj, kk) = Ey s (ii, jj, kk) - c_Ey * (IRA1 * dHz - IRA * Phi1 s (0, i, j, k))
         \<and> Phi1 s' (0, i, j, k)
               = RE s (0, i) * Phi1 s (0, i, j, k) + RC0 * dHz - RC0 * Phi1 s (0, i, j, k)
         \<and> Phi1 s' (0, i, j, k) = (RE s (0, i) - RC0) * Phi1 s (0, i, j, k) + RC0 * dHz
         \<and> Ez s' (ii, jj, kk) = Ez s (ii, jj, kk) + c_Ez * (IRA1 * dHy - IRA * Phi2 s (0, i, j, k))
         \<and> Phi2 s' (0, i, j, k)
               = RE s (0, i) * Phi2 s (0, i, j, k) + RC0 * dHy - RC0 * Phi2 s (0, i, j, k)
         \<and> Phi2 s' (0, i, j, k) = (RE s (0, i) - RC0) * Phi2 s (0, i, j, k) + RC0 * dHy)"
proof -
  have regroup: "(re - rc) * p + rc * dh = re * p + rc * dh - rc * p" for re rc p dh :: real
    by (simp add: algebra_simps)
  show ?thesis
    unfolding regroup using assms
    by (simp add: electric_MRIPML_order1_xminus_closed pml_closed_def new_field_def new_phi_def
        in_box Let_def)
qed

theorem electric_order1_xminus_law_witness:
  "\<exists>s'. electric_MRIPML_order1_xminus 0 2 0 1 0 1 1 sample_state = Some s'
       \<and> Ey s' (2, 0, 0) = 2 \<and> Phi1 s' (0, 0, 0, 0) = -16
       \<and> Ez s' (2, 0, 0) = 0 \<and> Phi2 s' (0, 0, 0, 0) = -27"
  using electric_order1_xminus_law[where d = 1 and s = sample_state and xs = 0 and xf = 2
      and ys = 0 and yf = 1 and zs = 0 and zf = 1 and i = 0 and j = 0 and k = 0]
  by (simp add: sample_state_def)

text \<open>
  Claim C4. With \<open>d \<noteq> 0\<close> the order-2 magnetic kernel of the xminus slab returns, and at
  every cell of the slab it has added
  \<open>c_Hy ((RA[0,i] RA[1,i] - 1) dEz + RA[1,i] RB[0,i] Phi1[0] + RB[1,i] Phi1[1])\<close> to \<open>Hy\<close>
  (and subtracted the analogue with \<open>dEy\<close> and \<open>Phi2\<close> from \<open>Hz\<close>), replaced \<open>Phi1[1]\<close> by
  \<open>RE[1,i] Phi1[1] - RF[1,i] (RA[0,i] dEz + RB[0,i] Phi1[0])\<close> and \<open>Phi1[0]\<close> by
  \<open>RE[0,i] Phi1[0] - RF[0,i] dEz\<close>. Every \<open>Phi\<close> on the right is the value before the call:
  the update of \<open>Phi1[1]\<close> reads \<open>Phi1[0]\<close> before \<open>Phi1[0]\<close> is overwritten, and the field
  correction reads both before either is.
\<close>

theorem magnetic_order2_xminus_law:
  assumes "d \<noteq> 0"
    and "0 \<le> i" "i < xf - xs" "0 \<le> j" "j < yf - ys" "0 \<le> k" "k < zf - zs"
  shows "\<exists>s'. magnetic_HORIPML_order2_xminus xs xf ys yf zs zf d s = Some s' \<and>
       (let ii = xf - (i + 1); jj = j + ys; kk = k + zs;
            dEz = (Ez s (ii + 1, jj, kk) - Ez s (ii, jj, kk)) / d;
            dEy = (Ey s (ii + 1, jj, kk) - Ey s (ii, jj, kk)) / d;
            c_Hy = updatecoeffsH s (sint (ID s (4, ii, jj, kk)), 4);
            c_Hz = updatecoeffsH s (sint (ID s (5, ii, jj, kk)), 4)
        in Hy s' (ii, jj, kk) = Hy s (ii, jj, kk)
               + c_Hy * ((RA s (0, i) * RA s (1, i) - 1) * dEz
                          + RA s (1, i) * RB s (0, i) * Phi1 s (0, i, j, k)
                          + RB s (1, i) * Phi1 s (1, i, j, k))
         \<and> Hz s' (ii, jj, kk) = Hz s (ii, jj, kk)
               - c_Hz * ((RA s (0, i) * RA s (1, i) - 1) * dEy
                          + RA s (1, i) * RB s (0, i) * Phi2 s (0, i, j, k)
                          + RB s (1, i) * Phi2 s (1, i, j, k))
         \<and> Phi1 s' (1, i, j, k) = RE s (1, i) * Phi1 s (1, i, j, k)
               - RF s (1, i) * (RA s (0, i) * dEz + RB s (0, i) * Phi1 s (0, i, j, k))
         \<and> Phi1 s' (0, i, j, k) = RE s (0, i) * Phi1 s (0, i, j, k) - RF s (0, i) * dEz
         \<and> Phi2 s' (1, i, j, k) = RE s (1, i) * Phi2 s (1, i, j, k)
               - RF s (1, i) * (RA s (0, i) * dEy + RB s (0, i) * Phi2 s (0, i, j, k))
         \<and> Phi2 s' (0, i, j, k) = RE s (0, i) * Phi2 s (0, i, j, k) - RF s (0, i) * dEy)"
  using assms
  by (simp add: magnetic_HORIPML_order2_xminus_closed pml_closed_def new_field_def new_phi_def
      in_box Let_def)

theorem magnetic_order2_xminus_law_witness:
  "\<exists>s'. magnetic_HORIPML_order2_xminus 0 2 0 1 0 1 1 sample_state = Some s'
       \<and> Hy s' (1, 0, 0) = 65 \<and> Hz s' (1, 0, 0) = -145
       \<and> Phi1 s' (1, 0, 0, 0) = -28 \<and> Phi1 s' (0, 0, 0, 0) = -2
       \<and> Phi2 s' (1, 0, 0, 0) = -64 \<and> Phi2 s' (0, 0, 0, 0) = 8"
  using magnetic_order2_xminus_law[where d = 1 and s = sample_state and xs = 0 and xf = 2
      and ys = 0 and yf = 1 and zs = 0 and zf = 1 and i = 0 and j = 0 and k = 0]
  by (simp add: sample_state_def)

section \<open>Index maps, signs and frame of the whole family\<close>





text \<open>
  Claim C6, amended. A call that returns has changed nothing but its two target
  components at the cells it addresses and the entries \<open>[m, i, j, k]\<close> of \<open>Phi1\<close> and \<open>Phi2\<close>
  with \<open>m\<close> below the order and \<open>(i, j, k)\<close> in the slab-local index space. The cells it
  addresses are those of the slab \<open>[xs,xf) \<times> [ys,yf) \<times> [zs,zf)\<close> for every magnetic kernel
  and for the plus-face electric kernels; for the minus-face electric kernels they are the
  slab moved one cell up along the normal axis, \<open>(xs, xf]\<close> in place of \<open>[xs, xf)\<close>. \<open>ID\<close>,
  the coefficient tables, the profiles and the four other field components are unchanged.
\<close>

theorem kernel_frame:
  assumes run: "pml_kernel kd ax dr ord b d s = Some s'"
  shows "ID s' = ID s \<and> updatecoeffsE s' = updatecoeffsE s \<and> updatecoeffsH s' = updatecoeffsH s
       \<and> RA s' = RA s \<and> RB s' = RB s \<and> RE s' = RE s \<and> RF s' = RF s
       \<and> (\<forall>t. t \<noteq> fst (targets kd ax) \<and> t \<noteq> snd (targets kd ax) \<longrightarrow> field t s' = field t s)
       \<and> (\<forall>t g. g \<notin> (if kd = Electric \<and> dr = Minus then shift ax 1 ` slab b else slab b)
                  \<longrightarrow> field t s' g = field t s g)
       \<and> (\<forall>m c. c \<notin> box b \<or> m < 0 \<or> poles ord \<le> m
                  \<longrightarrow> Phi1 s' (m, c) = Phi1 s (m, c) \<and> Phi2 s' (m, c) = Phi2 s (m, c))"
proof -
  have s': "s' = pml_closed kd ax dr ord b d (box b) s"
    using pml_kernel_SomeD[OF run] by simp
  have outside: "field t s' g = field t s g"
    if "g \<notin> (if kd = Electric \<and> dr = Minus then shift ax 1 ` slab b else slab b)" for t g
  proof -
    have "lidx kd ax dr b g \<notin> box b" using that by (simp only: lidx_in_box not_False_eq_True)
    then show ?thesis
      unfolding s'
      by (cases "t = fst (targets kd ax)"; cases "t = snd (targets kd ax)")
         (simp_all add: closed_target1 closed_target2 closed_other)
  qed
  have phi: "Phi1 s' (m, c) = Phi1 s (m, c) \<and> Phi2 s' (m, c) = Phi2 s (m, c)"
    if "c \<notin> box b \<or> m < 0 \<or> poles ord \<le> m" for m c
    using that unfolding s'
    by (cases ord; cases kd) (auto simp: closed_Phi1 closed_Phi2 new_phi_def Let_def)
  show ?thesis
    using outside phi
    by (simp add: s' pml_closed_frame closed_other)
qed

theorem kernel_frame_witness:
  "\<exists>s'. pml_kernel Electric X Minus Order1 (0, 1, 0, 1, 0, 1) 1 sample_state = Some s'
       \<and> ID s' = ID sample_state \<and> Ex s' = Ex sample_state \<and> Hz s' = Hz sample_state
       \<and> Ez s' (0, 0, 0) = Ez sample_state (0, 0, 0)
       \<and> Phi1 s' (1, 0, 0, 0) = Phi1 sample_state (1, 0, 0, 0)"
proof -
  let ?s' = "pml_closed Electric X Minus Order1 (0, 1, 0, 1, 0, 1) 1 (box (0, 1, 0, 1, 0, 1)) sample_state"
  have run: "pml_kernel Electric X Minus Order1 (0, 1, 0, 1, 0, 1) 1 sample_state = Some ?s'"
    by (simp add: pml_kernel_closed box_nonempty sample_state_simps)
  have out: "(0, 0, 0) \<notin> shift X 1 ` slab (0, 1, 0, 1, 0, 1)"
    by (simp add: shift_image_iff slab_def)
  from kernel_frame[OF run] have
    ids: "ID ?s' = ID sample_state"
    and others: "\<forall>t. t \<noteq> CEy \<and> t \<noteq> CEz \<longrightarrow> field t ?s' = field t sample_state"
    and outside: "\<forall>t g. g \<notin> shift X 1 ` slab (0, 1, 0, 1, 0, 1) \<longrightarrow> field t ?s' g = field t sample_state g"
    and aux: "\<forall>m c. c \<notin> box (0, 1, 0, 1, 0, 1) \<or> m < 0 \<or> 1 \<le> m
                 \<longrightarrow> Phi1 ?s' (m, c) = Phi1 sample_state (m, c) \<and> Phi2 ?s' (m, c) = Phi2 sample_state (m, c)"
    by simp_all
  note ids
  moreover have "field CEx ?s' = field CEx sample_state" "field CHz ?s' = field CHz sample_state"
    using others[rule_format, of CEx] others[rule_format, of CHz] by simp_all
  moreover have "field CEz ?s' (0, 0, 0) = field CEz sample_state (0, 0, 0)"
    using outside out by blast
  moreover have "Phi1 ?s' (1, 0, 0, 0) = Phi1 sample_state (1, 0, 0, 0)"
    using aux[rule_format, where m = 1 and c = "(0, 0, 0)"] by simp
  ultimately show ?thesis
    using run by auto
qed

text \<open>
  Claim C6 as stated fails: the order-1 electric kernel of the xminus slab, called on the
  slab \<open>[0,1) \<times> [0,1) \<times> [0,1)\<close>, changes \<open>Ez[1, 0, 0]\<close>, a cell outside the slab bounds,
  from 1 to -1.
\<close>

theorem slab_bound_counterexample:
  "map_option (\<lambda>s'. Ez s' (1, 0, 0)) (electric_MRIPML_order1_xminus 0 1 0 1 0 1 1 sample_state) = Some (- 1)
   \<and> Ez sample_state (1, 0, 0) = 1"
  by (simp add: electric_MRIPML_order1_xminus_closed box_nonempty pml_closed_def new_field_def
      in_box sample_state_simps)

text \<open>
  Claim C10, amended. A magnetic kernel raises exactly when the slab has a cell and
  \<open>d = 0\<close>, whatever the coefficients. With \<open>d \<noteq> 0\<close>, an electric kernel raises exactly
  when its divisor, \<open>RA[0, n]\<close> for order 1 and \<open>RA[0, n] + RA[1, n]\<close> for order 2, is zero
  at an index \<open>n\<close> of the normal axis that its loops reach: every \<open>n\<close> in \<open>[0, nx)\<close> for
  the x faces, every \<open>n\<close> in \<open>[0, ny)\<close> when \<open>nx > 0\<close> for the y faces, every \<open>n\<close> in
  \<open>[0, nz)\<close> when \<open>nx > 0\<close> and \<open>ny > 0\<close> for the z faces.
\<close>

theorem division_safety:
  "(pml_kernel Magnetic ax dr ord (xs, xf, ys, yf, zs, zf) d s = None
       \<longleftrightarrow> 0 < xf - xs \<and> 0 < yf - ys \<and> 0 < zf - zs \<and> d = 0)
   \<and> (d \<noteq> 0 \<longrightarrow>
        (pml_kernel Electric ax dr ord (xs, xf, ys, yf, zs, zf) d s = None
          \<longleftrightarrow> (\<exists>n. (case ax of X \<Rightarrow> 0 \<le> n \<and> n < xf - xs
                           | Y \<Rightarrow> 0 < xf - xs \<and> 0 \<le> n \<and> n < yf - ys
                           | Z \<Rightarrow> 0 < xf - xs \<and> 0 < yf - ys \<and> 0 \<le> n \<and> n < zf - zs)
                   \<and> (case ord of Order1 \<Rightarrow> RA s (0, n) | Order2 \<Rightarrow> RA s (0, n) + RA s (1, n)) = 0)))"
proof -
  have reach: "normal_reached ax (xs, xf, ys, yf, zs, zf) n \<longleftrightarrow>
       (case ax of X \<Rightarrow> 0 \<le> n \<and> n < xf - xs
                 | Y \<Rightarrow> 0 < xf - xs \<and> 0 \<le> n \<and> n < yf - ys
                 | Z \<Rightarrow> 0 < xf - xs \<and> 0 < yf - ys \<and> 0 \<le> n \<and> n < zf - zs)" for n
    by (cases ax) simp_all
  have dv: "ira_divisor ord s n = (case ord of Order1 \<Rightarrow> RA s (0, n) | Order2 \<Rightarrow> RA s (0, n) + RA s (1, n))" for n
    by (cases ord) simp_all
  show ?thesis
    by (simp add: pml_kernel_closed box_nonempty reach[symmetric] dv[symmetric])
qed

theorem division_safety_witness:
  "pml_kernel Magnetic Y Minus Order1 (0, 1, 0, 1, 0, 1) 1 zero_RA_state \<noteq> None
   \<and> pml_kernel Electric Y Minus Order1 (0, 1, 0, 1, 0, 1) 1 sample_state \<noteq> None
   \<and> pml_kernel Electric Y Minus Order1 (0, 1, 0, 1, 0, 1) 1 zero_RA_state = None"
  using division_safety[of Y Minus Order1 0 1 0 1 0 1 1 zero_RA_state]
        division_safety[of Y Minus Order1 0 1 0 1 0 1 1 sample_state]
  by (auto simp: zero_RA_state_def sample_state_simps intro: exI[of _ 0])

text \<open>
  Claim C10 as stated fails where a loop around the division is empty: the order-1
  electric kernel of the yminus slab, called with \<open>nx = 0\<close> and \<open>ny = 1\<close> on a state with
  \<open>RA[0, 0] = 0\<close>, divides by nothing and returns the state as it was.
\<close>

theorem empty_extent_counterexample:
  "RA zero_RA_state (0, 0) = 0
   \<and> electric_MRIPML_order1_yminus 0 0 0 1 0 1 1 zero_RA_state = Some zero_RA_state"
proof -
  have "box (0, 0, 0, 1, 0, 1) = {}"
    using box_nonempty[of 0 0 0 1 0 1] by simp
  then show ?thesis
    by (simp add: electric_MRIPML_order1_yminus_closed pml_closed_empty zero_RA_state_def)
qed

section \<open>The order-2 reduction\<close>

lemma magnetic_closed_reduction:
  assumes rows: "\<forall>n. RA s (1, n) = 1 \<and> RB s (1, n) = 0 \<and> RE s (1, n) = 0 \<and> RF s (1, n) = 0"
    and zero: "\<forall>c. Phi1 s (1, c) = 0 \<and> Phi2 s (1, c) = 0"
  shows "pml_closed Magnetic ax dr Order2 b d P s = pml_closed Magnetic ax dr Order1 b d P s"
proof -
  have z: "Phi1 s (1, c) = 0" "Phi2 s (1, c) = 0" for c
    using zero by blast+
  have f: "new_field Magnetic a dr Order2 b d s t r sg (Phi1 s) c
             = new_field Magnetic a dr Order1 b d s t r sg (Phi1 s) c"
          "new_field Magnetic a dr Order2 b d s t r sg (Phi2 s) c
             = new_field Magnetic a dr Order1 b d s t r sg (Phi2 s) c" for t r sg c a
    using rows by (simp_all add: new_field_def Let_def z)
  have p: "new_phi Magnetic a dr Order2 b d s r (Phi1 s) mc = new_phi Magnetic a dr Order1 b d s r (Phi1 s) mc"
          "new_phi Magnetic a dr Order2 b d s r (Phi2 s) mc = new_phi Magnetic a dr Order1 b d s r (Phi2 s) mc"
    for r mc a
    using rows by (simp_all add: new_phi_def Let_def z)
  show ?thesis
    by (cases ax) (simp_all add: pml_closed_def f p cong: if_cong)
qed

text \<open>
  Claim C5, amended. With the rows \<open>RA[1] = 1\<close>, \<open>RB[1] = 0\<close>, \<open>RE[1] = 0\<close>, \<open>RF[1] = 0\<close>
  and \<open>Phi1[1]\<close>, \<open>Phi2[1]\<close> zero before the call, every order-2 magnetic (HORIPML) kernel
  gives the result of the order-1 kernel of the same face on the same input, fields and
  \<open>Phi[0]\<close> alike, and \<open>Phi1[1]\<close>, \<open>Phi2[1]\<close> are zero after the call. For the order-2
  electric (MRIPML) kernels \<open>Phi1[1]\<close> and \<open>Phi2[1]\<close> are zero after the call as well.
\<close>

theorem order2_reduction:
  assumes rows: "\<forall>n. RA s (1, n) = 1 \<and> RB s (1, n) = 0 \<and> RE s (1, n) = 0 \<and> RF s (1, n) = 0"
    and zero: "\<forall>c. Phi1 s (1, c) = 0 \<and> Phi2 s (1, c) = 0"
  shows "pml_kernel Magnetic ax dr Order2 b d s = pml_kernel Magnetic ax dr Order1 b d s
       \<and> (d \<noteq> 0 \<longrightarrow> (\<exists>s'. pml_kernel Magnetic ax dr Order2 b d s = Some s'
                            \<and> (\<forall>c. Phi1 s' (1, c) = 0 \<and> Phi2 s' (1, c) = 0)))
       \<and> (\<forall>s'. pml_kernel Electric ax dr Order2 b d s = Some s'
              \<longrightarrow> (\<forall>c. Phi1 s' (1, c) = 0 \<and> Phi2 s' (1, c) = 0))"
proof -
  have same: "pml_kernel Magnetic ax dr Order2 b d s = pml_kernel Magnetic ax dr Order1 b d s"
    by (simp add: pml_kernel_closed magnetic_closed_reduction[OF rows zero])
  have stays: "Phi1 (pml_closed kd ax dr Order2 b d P s) (1, c) = 0
             \<and> Phi2 (pml_closed kd ax dr Order2 b d P s) (1, c) = 0" for kd P c
  proof -
    have z: "Phi1 s (1, c) = 0" "Phi2 s (1, c) = 0" for c
      using zero by blast+
    show ?thesis
      using rows by (cases kd) (simp_all add: closed_Phi1 closed_Phi2 new_phi_def Let_def z)
  qed
  show ?thesis
    using same stays by (auto simp: pml_kernel_closed split: if_splits)
qed

theorem order2_reduction_witness:
  "pml_kernel Magnetic X Minus Order2 (0, 2, 0, 1, 0, 1) 1 (second_pole_off sample_state)
     = pml_kernel Magnetic X Minus Order1 (0, 2, 0, 1, 0, 1) 1 (second_pole_off sample_state)
   \<and> (\<exists>s'. pml_kernel Magnetic X Minus Order2 (0, 2, 0, 1, 0, 1) 1 (second_pole_off sample_state) = Some s'
          \<and> Hy s' (1, 0, 0) = 11 \<and> Phi1 s' (1, 0, 0, 0) = 0)"
proof -
  let ?s = "second_pole_off sample_state"
  have rows: "\<forall>n. RA ?s (1, n) = 1 \<and> RB ?s (1, n) = 0 \<and> RE ?s (1, n) = 0 \<and> RF ?s (1, n) = 0"
    and zero: "\<forall>c. Phi1 ?s (1, c) = 0 \<and> Phi2 ?s (1, c) = 0"
    by (simp_all add: second_pole_off_def)
  note red = order2_reduction[OF rows zero, of X Minus "(0, 2, 0, 1, 0, 1)" 1]
  have val: "Hy (pml_closed Magnetic X Minus Order1 (0, 2, 0, 1, 0, 1) 1 (box (0, 2, 0, 1, 0, 1)) ?s) (1, 0, 0) = 11"
    by (simp add: pml_closed_def new_field_def in_box second_pole_off_def sample_state_simps)
  show ?thesis
    using red val by (auto simp: pml_kernel_closed)
qed

text \<open>
  Claim C5 as stated fails for the electric kernels: on the slab \<open>[0,1) \<times> [0,1) \<times> [0,1)\<close>
  and the sample state with the second pole switched off, the order-2 kernel of the
  xminus slab leaves \<open>Ey[1, 0, 0] = 5/3\<close>, the order-1 kernel \<open>Ey[1, 0, 0] = 1\<close>: order 2
  scales by \<open>1 / (RA[0] + RA[1]) = 1/3\<close> where order 1 scales by \<open>1 / RA[0] = 1/2\<close>.
\<close>

theorem electric_reduction_counterexample:
  "map_option (\<lambda>s'. Ey s' (1, 0, 0))
     (electric_MRIPML_order2_xminus 0 1 0 1 0 1 1 (second_pole_off sample_state)) = Some (5 / 3)
   \<and> map_option (\<lambda>s'. Ey s' (1, 0, 0))
     (electric_MRIPML_order1_xminus 0 1 0 1 0 1 1 (second_pole_off sample_state)) = Some 1"
  by (simp add: electric_MRIPML_order2_xminus_closed electric_MRIPML_order1_xminus_closed box_nonempty
      pml_closed_def new_field_def in_box second_pole_off_def sample_state_simps)

section \<open>Zero excitation\<close>

lemma drivers_not_targets:
  "fst (drivers kd ax) \<noteq> fst (targets kd ax)" "fst (drivers kd ax) \<noteq> snd (targets kd ax)"
  "snd (drivers kd ax) \<noteq> fst (targets kd ax)" "snd (drivers kd ax) \<noteq> snd (targets kd ax)"
  by (cases kd; cases ax; simp)+

lemma closed_drivers:
  "field (fst (drivers kd ax)) (pml_closed kd ax dr ord b d P s) = field (fst (drivers kd ax)) s"
  "field (snd (drivers kd ax)) (pml_closed kd ax dr ord b d P s) = field (snd (drivers kd ax)) s"
  by (simp_all add: closed_other drivers_not_targets)

lemma quiet_closed:
  "quiet kd ax dr b d (pml_closed kd ax dr ord b d P s) = quiet kd ax dr b d s"
  by (simp add: quiet_def closed_drivers)

lemma kernel_ok_closed:
  "kernel_ok kd ax ord b d (pml_closed kd ax dr ord b d P s) = kernel_ok kd ax ord b d s"
  by (cases kd; cases ord) (simp_all add: pml_closed_frame)

lemma quiet_phi0:
  assumes "quiet kd ax dr b d s" "c \<in> box b"
  shows "Phi1 (pml_closed kd ax dr ord b d (box b) s) (0, c)
           = next_phi0 kd ord (RA s) (RB s) (RE s) (RF s) (normal_index ax c) 0 (Phi1 s (0, c)) (Phi1 s (1, c))"
    and "Phi2 (pml_closed kd ax dr ord b d (box b) s) (0, c)
           = next_phi0 kd ord (RA s) (RB s) (RE s) (RF s) (normal_index ax c) 0 (Phi2 s (0, c)) (Phi2 s (1, c))"
  using assms by (simp_all add: closed_Phi1 closed_Phi2 new_phi_def quiet_def Let_def)

lemma repeat_quiet:
  assumes ok: "kernel_ok kd ax ord b d s" and q: "quiet kd ax dr b d s" and c: "c \<in> box b"
    and scale: "\<And>p0 p1. next_phi0 kd ord (RA s) (RB s) (RE s) (RF s) (normal_index ax c) 0 p0 p1 = q0 * p0"
  shows "\<exists>s'. repeat_calls N (pml_kernel kd ax dr ord b d) s = Some s'
            \<and> Phi1 s' (0, c) = q0 ^ N * Phi1 s (0, c) \<and> Phi2 s' (0, c) = q0 ^ N * Phi2 s (0, c)"
  using ok q scale
proof (induction N arbitrary: s)
  case 0
  then show ?case by simp
next
  case (Suc N)
  let ?s1 = "pml_closed kd ax dr ord b d (box b) s"
  have run: "pml_kernel kd ax dr ord b d s = Some ?s1"
    using Suc.prems(1) by (simp add: pml_kernel_closed)
  have "\<exists>s'. repeat_calls N (pml_kernel kd ax dr ord b d) ?s1 = Some s'
            \<and> Phi1 s' (0, c) = q0 ^ N * Phi1 ?s1 (0, c) \<and> Phi2 s' (0, c) = q0 ^ N * Phi2 ?s1 (0, c)"
    using Suc.prems by (intro Suc.IH) (simp_all add: kernel_ok_closed quiet_closed pml_closed_frame)
  then show ?case
    using run Suc.prems(2,3) c by (auto simp: quiet_phi0)
qed

lemma still_state_simps:
  "updatecoeffsE still_state = (\<lambda>_. 2)" "ID still_state = (\<lambda>_. 0)"
  "Ex still_state = (\<lambda>_. 0)" "Ey still_state = (\<lambda>_. 0)" "Ez still_state = (\<lambda>_. 0)"
  "Hx still_state = (\<lambda>_. 0)" "Hy still_state = (\<lambda>_. 0)" "Hz still_state = (\<lambda>_. 0)"
  "Phi1 still_state = (\<lambda>(m, c). of_int (1 + m))" "Phi2 still_state = (\<lambda>(m, c). of_int (3 + m))"
  "RA still_state = (\<lambda>(m, n). of_int (2 + m))" "RB still_state = (\<lambda>(m, n). of_int (3 + m))"
  "RE still_state = (\<lambda>(m, n). of_int (5 + m))" "RF still_state = (\<lambda>(m, n). of_int (7 + m))"
  by (simp_all add: still_state_def sample_state_simps)

lemma impulse_state_simps:
  "updatecoeffsE impulse_state = (\<lambda>_. 2)" "ID impulse_state = (\<lambda>_. 0)"
  "Ey impulse_state = (\<lambda>_. 0)" "Ez impulse_state = (\<lambda>_. 0)"
  "Hy impulse_state = (\<lambda>_. 0)" "Hz impulse_state = (\<lambda>(a, b, c). of_int a)"
  "Phi1 impulse_state = (\<lambda>_. 0)" "Phi2 impulse_state = (\<lambda>_. 0)"
  "RA impulse_state = (\<lambda>(m, n). of_int (2 + m))" "RB impulse_state = (\<lambda>(m, n). of_int (3 + m))"
  "RE impulse_state = (\<lambda>(m, n). of_int (5 + m))" "RF impulse_state = (\<lambda>(m, n). of_int (7 + m))"
  by (simp_all add: impulse_state_def still_state_simps)

text \<open>
  Claim C7, amended. Let every driving curl difference of the slab be zero and \<open>d \<noteq> 0\<close>.
  One call of a magnetic (HORIPML) kernel of either order maps each entry \<open>Phi[0]\<close> of the
  slab to \<open>RE[0, n]\<close> times its old value, \<open>n\<close> the profile index of the cell, so \<open>N\<close>
  successive calls return and multiply it by \<open>RE[0, n] ^ N\<close>. One call of an order-1
  electric (MRIPML) kernel maps each entry \<open>Phi[0]\<close> to \<open>RE[0, n] - RC0\<close> times its old
  value, with \<open>RC0 = RB[0, n] RF[0, n] / RA[0, n]\<close>, so \<open>N\<close> successive calls multiply it
  by \<open>(RE[0, n] - RC0) ^ N\<close>; and starting from \<open>Phi1[0] = 0\<close>, one call with a unit curl
  difference followed by \<open>N\<close> calls with zero curl differences leaves
  \<open>Phi1[0] = (RE[0, n] - RC0) ^ N RC0\<close>.
\<close>

theorem zero_excitation_decay:
  assumes d: "d \<noteq> 0" and c: "c \<in> box b"
  shows "(quiet Magnetic ax dr b d s \<longrightarrow>
            (\<exists>s'. repeat_calls N (pml_kernel Magnetic ax dr ord b d) s = Some s'
               \<and> Phi1 s' (0, c) = RE s (0, normal_index ax c) ^ N * Phi1 s (0, c)
               \<and> Phi2 s' (0, c) = RE s (0, normal_index ax c) ^ N * Phi2 s (0, c)))
       \<and> (quiet Electric ax dr b d s \<and> (\<forall>n. normal_reached ax b n \<longrightarrow> RA s (0, n) \<noteq> 0) \<longrightarrow>
            (let n = normal_index ax c; RC0 = 1 / RA s (0, n) * RB s (0, n) * RF s (0, n) in
             \<exists>s'. repeat_calls N (pml_kernel Electric ax dr Order1 b d) s = Some s'
               \<and> Phi1 s' (0, c) = (RE s (0, n) - RC0) ^ N * Phi1 s (0, c)
               \<and> Phi2 s' (0, c) = (RE s (0, n) - RC0) ^ N * Phi2 s (0, c)))
       \<and> (\<forall>s0 s1 s2 hx hy hz.
            pml_kernel Electric ax dr Order1 b d s0 = Some s1 \<and> Phi1 s0 (0, c) = 0
            \<and> curl_diff Electric ax (field (fst (drivers Electric ax)) s0) (gidx Electric ax dr b c) d = 1
            \<and> s2 = s1\<lparr>Hx := hx, Hy := hy, Hz := hz\<rparr> \<and> quiet Electric ax dr b d s2 \<longrightarrow>
            (let n = normal_index ax c; RC0 = 1 / RA s0 (0, n) * RB s0 (0, n) * RF s0 (0, n) in
             \<exists>s'. repeat_calls N (pml_kernel Electric ax dr Order1 b d) s2 = Some s'
               \<and> Phi1 s' (0, c) = (RE s0 (0, n) - RC0) ^ N * RC0))"
proof (intro conjI impI allI)
  assume q: "quiet Magnetic ax dr b d s"
  show "\<exists>s'. repeat_calls N (pml_kernel Magnetic ax dr ord b d) s = Some s'
               \<and> Phi1 s' (0, c) = RE s (0, normal_index ax c) ^ N * Phi1 s (0, c)
               \<and> Phi2 s' (0, c) = RE s (0, normal_index ax c) ^ N * Phi2 s (0, c)"
    using d by (intro repeat_quiet q c) simp_all
next
  assume a: "quiet Electric ax dr b d s \<and> (\<forall>n. normal_reached ax b n \<longrightarrow> RA s (0, n) \<noteq> 0)"
  have "\<exists>s'. repeat_calls N (pml_kernel Electric ax dr Order1 b d) s = Some s'
     \<and> Phi1 s' (0, c) = (RE s (0, normal_index ax c)
           - 1 / RA s (0, normal_index ax c) * RB s (0, normal_index ax c) * RF s (0, normal_index ax c)) ^ N
         * Phi1 s (0, c)
     \<and> Phi2 s' (0, c) = (RE s (0, normal_index ax c)
           - 1 / RA s (0, normal_index ax c) * RB s (0, normal_index ax c) * RF s (0, normal_index ax c)) ^ N
         * Phi2 s (0, c)"
    using d a by (intro repeat_quiet c) (simp_all add: algebra_simps)
  then show "let n = normal_index ax c; RC0 = 1 / RA s (0, n) * RB s (0, n) * RF s (0, n) in
             \<exists>s'. repeat_calls N (pml_kernel Electric ax dr Order1 b d) s = Some s'
               \<and> Phi1 s' (0, c) = (RE s (0, n) - RC0) ^ N * Phi1 s (0, c)
               \<and> Phi2 s' (0, c) = (RE s (0, n) - RC0) ^ N * Phi2 s (0, c)"
    by (simp add: Let_def)
next
  fix s0 s1 s2 hx hy hz
  assume a: "pml_kernel Electric ax dr Order1 b d s0 = Some s1 \<and> Phi1 s0 (0, c) = 0
            \<and> curl_diff Electric ax (field (fst (drivers Electric ax)) s0) (gidx Electric ax dr b c) d = 1
            \<and> s2 = s1\<lparr>Hx := hx, Hy := hy, Hz := hz\<rparr> \<and> quiet Electric ax dr b d s2"
  let ?n = "normal_index ax c"
  let ?RC0 = "1 / RA s0 (0, ?n) * RB s0 (0, ?n) * RF s0 (0, ?n)"
  from a have run: "pml_kernel Electric ax dr Order1 b d s0 = Some s1"
    and z: "Phi1 s0 (0, c) = 0"
    and unit: "curl_diff Electric ax (field (fst (drivers Electric ax)) s0) (gidx Electric ax dr b c) d = 1"
    and s: "s2 = s1\<lparr>Hx := hx, Hy := hy, Hz := hz\<rparr>"
    and q: "quiet Electric ax dr b d s2"
    by blast+
  from pml_kernel_SomeD[OF run] have ok0: "kernel_ok Electric ax Order1 b d s0"
    and s1: "s1 = pml_closed Electric ax dr Order1 b d (box b) s0"
    by blast+
  have prof: "RA s2 = RA s0" "RB s2 = RB s0" "RE s2 = RE s0" "RF s2 = RF s0"
    by (simp_all add: s s1 pml_closed_frame)
  have ok: "kernel_ok Electric ax Order1 b d s2"
    using ok0 by (simp add: prof)
  have first: "Phi1 s2 (0, c) = ?RC0"
    using c z unit by (simp add: s s1 closed_Phi1 new_phi_def Let_def)
  have "\<exists>s'. repeat_calls N (pml_kernel Electric ax dr Order1 b d) s2 = Some s'
     \<and> Phi1 s' (0, c) = (RE s2 (0, ?n) - 1 / RA s2 (0, ?n) * RB s2 (0, ?n) * RF s2 (0, ?n)) ^ N * Phi1 s2 (0, c)
     \<and> Phi2 s' (0, c) = (RE s2 (0, ?n) - 1 / RA s2 (0, ?n) * RB s2 (0, ?n) * RF s2 (0, ?n)) ^ N * Phi2 s2 (0, c)"
    by (intro repeat_quiet ok c q) (simp add: algebra_simps)
  then show "let n = normal_index ax c; RC0 = 1 / RA s0 (0, n) * RB s0 (0, n) * RF s0 (0, n) in
             \<exists>s'. repeat_calls N (pml_kernel Electric ax dr Order1 b d) s2 = Some s'
               \<and> Phi1 s' (0, c) = (RE s0 (0, n) - RC0) ^ N * RC0"
    by (auto simp: Let_def prof first)
qed

theorem zero_excitation_decay_witness:
  "(\<exists>s'. repeat_calls 2 (pml_kernel Magnetic X Minus Order2 (0, 1, 0, 1, 0, 1) 1) still_state = Some s'
         \<and> Phi1 s' (0, 0, 0, 0) = 25)
   \<and> (\<exists>s'. repeat_calls 2 (pml_kernel Electric X Minus Order1 (0, 1, 0, 1, 0, 1) 1) still_state = Some s'
         \<and> Phi1 s' (0, 0, 0, 0) = 121 / 4)
   \<and> (\<exists>s1 s'. pml_kernel Electric X Minus Order1 (0, 1, 0, 1, 0, 1) 1 impulse_state = Some s1
         \<and> repeat_calls 2 (pml_kernel Electric X Minus Order1 (0, 1, 0, 1, 0, 1) 1)
              (s1\<lparr>Hx := (\<lambda>_. 0), Hy := (\<lambda>_. 0), Hz := (\<lambda>_. 0)\<rparr>) = Some s'
         \<and> Phi1 s' (0, 0, 0, 0) = 2541 / 8)"
proof -
  let ?b = "(0, 1, 0, 1, 0, 1) :: bounds"
  let ?s1 = "pml_closed Electric X Minus Order1 ?b 1 (box ?b) impulse_state"
  let ?s = "?s1\<lparr>Hx := (\<lambda>_. 0), Hy := (\<lambda>_. 0), Hz := (\<lambda>_. 0)\<rparr>"
  have c: "(0, 0, 0) \<in> box ?b"
    by (simp add: in_box)
  have qm: "quiet Magnetic X Minus ?b 1 still_state" and qe: "quiet Electric X Minus ?b 1 still_state"
    by (simp_all add: quiet_def still_state_simps)
  have ra: "\<forall>n. normal_reached X ?b n \<longrightarrow> RA still_state (0, n) \<noteq> 0"
    by (simp add: still_state_simps)
  have run1: "pml_kernel Electric X Minus Order1 ?b 1 impulse_state = Some ?s1"
    by (simp add: pml_kernel_closed impulse_state_simps)
  have qs: "quiet Electric X Minus ?b 1 ?s"
    by (simp add: quiet_def)
  have unit: "curl_diff Electric X (field (fst (drivers Electric X)) impulse_state)
                (gidx Electric X Minus ?b (0, 0, 0)) 1 = 1"
    by (simp add: impulse_state_simps)
  note th = zero_excitation_decay[where d = 1 and c = "(0, 0, 0)" and b = ?b and ax = X and dr = Minus
      and N = 2, OF _ c]
  have "\<exists>s'. repeat_calls 2 (pml_kernel Magnetic X Minus Order2 ?b 1) still_state = Some s'
         \<and> Phi1 s' (0, 0, 0, 0) = 25"
    using th[where s = still_state and ord = Order2, THEN conjunct1, rule_format, OF _ qm]
    by (auto simp: still_state_simps)
  moreover have "\<exists>s'. repeat_calls 2 (pml_kernel Electric X Minus Order1 ?b 1) still_state = Some s'
         \<and> Phi1 s' (0, 0, 0, 0) = 121 / 4"
    using th[where s = still_state, THEN conjunct2, THEN conjunct1, rule_format, OF _ conjI[OF qe ra]]
    by (auto simp: still_state_simps Let_def power2_eq_square)
  moreover have "\<exists>s'. repeat_calls 2 (pml_kernel Electric X Minus Order1 ?b 1) ?s = Some s'
         \<and> Phi1 s' (0, 0, 0, 0) = 2541 / 8"
    using th[where s = still_state, THEN conjunct2, THEN conjunct2, rule_format,
        of impulse_state ?s1 ?s "\<lambda>_. 0" "\<lambda>_. 0" "\<lambda>_. 0"] run1 qs unit
    by (auto simp: impulse_state_simps Let_def power2_eq_square)
  ultimately show ?thesis
    using run1 by blast
qed

text \<open>
  Claim C7 as stated fails for the electric kernels. On the state without curl differences,
  where \<open>RE[0, 0] = 5\<close> and \<open>RC0 = 21/2\<close>, one call of the order-1 kernel of the xminus slab
  takes \<open>Phi1[0, 0, 0, 0]\<close> from 1 to \<open>-11/2\<close>, not to \<open>RE[0, 0] \<cdot> 1 = 5\<close>. And from
  \<open>Phi1 = 0\<close>, one call with a unit \<open>dHz\<close> followed by one call with \<open>dHz = 0\<close> leaves
  \<open>Phi1[0, 0, 0, 0] = -231/4\<close>, not \<open>RE[0, 0] ^ 1 \<cdot> RC0 = 105/2\<close>.
\<close>

theorem decay_rate_counterexample:
  "map_option (\<lambda>s'. Phi1 s' (0, 0, 0, 0)) (electric_MRIPML_order1_xminus 0 1 0 1 0 1 1 still_state)
     = Some (- 11 / 2)
   \<and> RE still_state (0, 0) * Phi1 still_state (0, 0, 0, 0) = 5
   \<and> map_option (\<lambda>s'. Phi1 s' (0, 0, 0, 0))
       (Option.bind (electric_MRIPML_order1_xminus 0 1 0 1 0 1 1 impulse_state)
          (\<lambda>s1. repeat_calls 1 (electric_MRIPML_order1_xminus 0 1 0 1 0 1 1) (s1\<lparr>Hz := (\<lambda>_. 0)\<rparr>)))
     = Some (- 231 / 4)
   \<and> RE impulse_state (0, 0) ^ 1
       * (1 / RA impulse_state (0, 0) * RB impulse_state (0, 0) * RF impulse_state (0, 0)) = 105 / 2"
  by (simp add: electric_MRIPML_order1_xminus_closed box_nonempty pml_closed_def new_phi_def
      new_field_def in_box still_state_simps impulse_state_simps)

section \<open>The fractal surface\<close>

lemma for_range_Some:
  assumes "s = S 0" and "\<And>i. 0 \<le> i \<Longrightarrow> i < n \<Longrightarrow> body i (S i) = Some (S (i + 1))"
  shows "for_range n body s = Some (S (max n 0))"
  by (rule for_range_cases[where S = S and good = "\<lambda>_. True"]) (simp_all add: assms)

lemma generate_fractal2D_closed:
  assumes "gx \<noteq> 0" "gy \<noteq> 0"
  shows "generate_fractal2D nx ny ox oy gx gy D weighting v1 A fractalsurface =
     Some (\<lambda>ij. if 0 \<le> fst ij \<and> fst ij < nx \<and> 0 \<le> snd ij \<and> snd ij < ny
                 then A ij / complex_of_real (fractal_B ox oy gx gy D weighting v1 ij)
                 else fractalsurface ij)"
proof -
  let ?v = "\<lambda>ij. A ij / complex_of_real (fractal_B ox oy gx gy D weighting v1 ij)"
  let ?S = "\<lambda>i j ij. if 0 \<le> snd ij \<and> snd ij < ny \<and> 0 \<le> fst ij \<and> (fst ij < i \<or> fst ij = i \<and> snd ij < j)
                   then ?v ij else fractalsurface ij"
  have cell: "Option.bind (imod (i + ox + gx div 2) gx) (\<lambda>mx. Option.bind (imod (j + oy + gy div 2) gy) (\<lambda>my.
        Some ((?S i j)((i, j) := A (i, j) / complex_of_real
           (if (((weighting 0 * of_int mx - v1 0)\<^sup>2 + (weighting 1 * of_int my - v1 1)\<^sup>2) powr (1 / 2)) powr D = 0
            then 0.9
            else (((weighting 0 * of_int mx - v1 0)\<^sup>2 + (weighting 1 * of_int my - v1 1)\<^sup>2) powr (1 / 2)) powr D)))))
      = Some (?S i (j + 1))" if "0 \<le> i" "0 \<le> j" "j < ny" for i j
    using assms that
    by (auto simp: imod_def fun_eq_iff fractal_B_def Let_def powr_half_sqrt)
  have row: "for_range ny (\<lambda>j fs. Option.bind (imod (i + ox + gx div 2) gx) (\<lambda>mx. Option.bind (imod (j + oy + gy div 2) gy) (\<lambda>my.
        Some (fs((i, j) := A (i, j) / complex_of_real
           (if (((weighting 0 * of_int mx - v1 0)\<^sup>2 + (weighting 1 * of_int my - v1 1)\<^sup>2) powr (1 / 2)) powr D = 0
            then 0.9
            else (((weighting 0 * of_int mx - v1 0)\<^sup>2 + (weighting 1 * of_int my - v1 1)\<^sup>2) powr (1 / 2)) powr D))))))
        (?S i 0) = Some (?S (i + 1) 0)" if "0 \<le> i" for i
  proof -
    have e: "?S i (max ny 0) = ?S (i + 1) 0"
      by (auto simp: fun_eq_iff)
    show ?thesis
      unfolding e[symmetric]
      by (rule for_range_Some[where S = "?S i"]) (rule refl, rule cell[OF that])
  qed
  have start: "fractalsurface = ?S 0 0"
    by (auto simp: fun_eq_iff)
  have e: "?S (max nx 0) 0 = (\<lambda>ij. if 0 \<le> fst ij \<and> fst ij < nx \<and> 0 \<le> snd ij \<and> snd ij < ny
                 then ?v ij else fractalsurface ij)"
    by (auto simp: fun_eq_iff)
  show ?thesis
    unfolding generate_fractal2D_def Let_def e[symmetric]
    by (rule for_range_Some[where S = "\<lambda>i. ?S i 0"]) (rule start, rule row)
qed

lemma sqrt_powr_five_halves:
  assumes "0 < q"
  shows "sqrt q powr (5 / 2) = q powr (5 / 4)" "q powr (5 / 4) \<noteq> 0"
proof -
  have "sqrt q = q powr (1 / 2)"
    using assms by (simp add: powr_half_sqrt)
  then show "sqrt q powr (5 / 2) = q powr (5 / 4)"
    by (simp add: powr_powr)
  show "q powr (5 / 4) \<noteq> 0"
    using assms by simp
qed

lemma fractal_run_closed:
  "fractal_run = Some (\<lambda>ij. if 0 \<le> fst ij \<and> fst ij < 4 \<and> 0 \<le> snd ij \<and> snd ij < 4
        then 1 / complex_of_real (fractal_B 0 0 4 4 (5 / 2) (\<lambda>_. 1) (\<lambda>_. 2) ij) else 0)"
  unfolding fractal_run_def by (subst generate_fractal2D_closed) simp_all

lemma wrapped_zero: "0 \<le> i \<Longrightarrow> i < 4 \<Longrightarrow> (i + 2) mod 4 = 2 \<longleftrightarrow> i = (0::int)"
  by presburger

lemma fractal_run_B:
  assumes "0 \<le> i" "i < 4" "0 \<le> j" "j < 4"
  shows "fractal_B 0 0 4 4 (5 / 2) (\<lambda>_. 1) (\<lambda>_. 2) (i, j) =
     (if (i, j) = (0, 0) then 0.9
      else ((of_int ((i + 2) mod 4) - 2)\<^sup>2 + (of_int ((j + 2) mod 4) - 2)\<^sup>2) powr (5 / 4))"
proof (cases "(i, j) = (0, 0)")
  case True
  then show ?thesis by (simp add: fractal_B_def)
next
  case False
  let ?q = "(real_of_int ((i + 2) mod 4) - 2)\<^sup>2 + (real_of_int ((j + 2) mod 4) - 2)\<^sup>2"
  have "(i + 2) mod 4 \<noteq> 2 \<or> (j + 2) mod 4 \<noteq> 2"
    using False assms by (simp add: wrapped_zero)
  then have "real_of_int ((i + 2) mod 4) - 2 \<noteq> 0 \<or> real_of_int ((j + 2) mod 4) - 2 \<noteq> 0"
    by (metis eq_iff_diff_eq_0 of_int_eq_numeral_iff)
  then have "0 < ?q"
    by (metis sum_power2_gt_zero_iff)
  from sqrt_powr_five_halves[OF this] False show ?thesis
    by (simp add: fractal_B_def Let_def)
qed

text \<open>
  Claim C8, amended. With \<open>gx \<noteq> 0\<close>, \<open>gy \<noteq> 0\<close> and \<open>D > 0\<close>, \<^verbatim>\<open>generate_fractal2D\<close> returns,
  has written \<open>A[i,j] / B\<close> to every cell \<open>(i, j)\<close> of \<open>[0,nx) \<times> [0,ny)\<close> and left every other
  entry as it was, where \<open>B = r ^ D\<close>, \<open>r\<close> the Euclidean norm of
  \<open>weighting \<cdot> ((index + offset + size div 2) mod size) - v1\<close>, and 0.9 in place of \<open>B\<close>
  exactly when \<open>B = 0\<close>. In the run with \<open>nx = ny = 4\<close>, \<open>ox = oy = 0\<close>, \<open>gx = gy = 4\<close>,
  \<open>D = 2.5\<close>, \<open>weighting = [1, 1]\<close>, \<open>v1 = [2, 2]\<close> and \<open>A = 1\<close> it is the cell \<open>(0, 0)\<close>
  that receives \<open>1 / 0.9\<close>, its wrapped coordinate being \<open>(0 + 2) mod 4 = 2\<close>; every other
  cell receives \<open>1 / (\<Delta>x\<^sup>2 + \<Delta>y\<^sup>2) ^ 1.25\<close> with \<open>\<Delta>x = ((i + 2) mod 4) - 2\<close>,
  \<open>\<Delta>y = ((j + 2) mod 4) - 2\<close>, the centre cell \<open>(2, 2)\<close> among them with \<open>1 / 8 ^ 1.25\<close>.
\<close>

theorem fractal2D_law:
  assumes "gx \<noteq> 0" "gy \<noteq> 0" "0 < D"
  shows "(\<exists>out. generate_fractal2D nx ny ox oy gx gy D weighting v1 A fractalsurface = Some out
            \<and> (\<forall>i j. 0 \<le> i \<and> i < nx \<and> 0 \<le> j \<and> j < ny \<longrightarrow>
                  out (i, j) = A (i, j) / complex_of_real (fractal_B ox oy gx gy D weighting v1 (i, j)))
            \<and> (\<forall>i j. \<not> (0 \<le> i \<and> i < nx \<and> 0 \<le> j \<and> j < ny) \<longrightarrow> out (i, j) = fractalsurface (i, j)))
       \<and> (\<exists>out. fractal_run = Some out
            \<and> out (0, 0) = 1 / 0.9
            \<and> out (2, 2) = 1 / complex_of_real (8 powr (5 / 4))
            \<and> (\<forall>i j. 0 \<le> i \<and> i < 4 \<and> 0 \<le> j \<and> j < 4 \<and> (i, j) \<noteq> (0, 0) \<longrightarrow>
                  out (i, j) = 1 / complex_of_real
                    (((of_int ((i + 2) mod 4) - 2)\<^sup>2 + (of_int ((j + 2) mod 4) - 2)\<^sup>2) powr (5 / 4))))"
proof -
  have general: "\<exists>out. generate_fractal2D nx ny ox oy gx gy D weighting v1 A fractalsurface = Some out
            \<and> (\<forall>i j. 0 \<le> i \<and> i < nx \<and> 0 \<le> j \<and> j < ny \<longrightarrow>
                  out (i, j) = A (i, j) / complex_of_real (fractal_B ox oy gx gy D weighting v1 (i, j)))
            \<and> (\<forall>i j. \<not> (0 \<le> i \<and> i < nx \<and> 0 \<le> j \<and> j < ny) \<longrightarrow> out (i, j) = fractalsurface (i, j))"
    using assms(1,2) by (simp add: generate_fractal2D_closed)
  have run: "\<exists>out. fractal_run = Some out
            \<and> out (0, 0) = 1 / 0.9
            \<and> out (2, 2) = 1 / complex_of_real (8 powr (5 / 4))
            \<and> (\<forall>i j. 0 \<le> i \<and> i < 4 \<and> 0 \<le> j \<and> j < 4 \<and> (i, j) \<noteq> (0, 0) \<longrightarrow>
                  out (i, j) = 1 / complex_of_real
                    (((of_int ((i + 2) mod 4) - 2)\<^sup>2 + (of_int ((j + 2) mod 4) - 2)\<^sup>2) powr (5 / 4)))"
    using fractal_run_B[of 2 2] by (simp add: fractal_run_closed fractal_run_B)
  from general run show ?thesis ..
qed

theorem fractal2D_law_witness:
  "\<exists>out. generate_fractal2D 1 2 0 0 4 4 2 (\<lambda>_. 1) (\<lambda>_. 2) (\<lambda>ij. of_int (fst ij + snd ij) + 3) (\<lambda>_. 0) = Some out
       \<and> out (0, 0) = 3 / 0.9 \<and> out (0, 1) = 4 \<and> out (1, 0) = 0"
proof -
  have b: "fractal_B 0 0 4 4 2 (\<lambda>_. 1) (\<lambda>_. 2) (0, 0) = 0.9" "fractal_B 0 0 4 4 2 (\<lambda>_. 1) (\<lambda>_. 2) (0, 1) = 1"
    by (simp_all add: fractal_B_def Let_def)
  from fractal2D_law[where gx = 4 and gy = 4 and D = 2 and nx = 1 and ny = 2 and ox = 0 and oy = 0
      and weighting = "\<lambda>_. 1" and ?v1.0 = "\<lambda>_. 2" and A = "\<lambda>ij. of_int (fst ij + snd ij) + 3"
      and fractalsurface = "\<lambda>_. 0", THEN conjunct1]
  obtain out where
    run: "generate_fractal2D 1 2 0 0 4 4 2 (\<lambda>_. 1) (\<lambda>_. 2) (\<lambda>ij. of_int (fst ij + snd ij) + 3) (\<lambda>_. 0) = Some out"
    and inside: "\<forall>i j. 0 \<le> i \<and> i < 1 \<and> 0 \<le> j \<and> j < 2 \<longrightarrow>
       out (i, j) = (of_int (fst (i, j) + snd (i, j)) + 3) / complex_of_real (fractal_B 0 0 4 4 2 (\<lambda>_. 1) (\<lambda>_. 2) (i, j))"
    and outside: "\<forall>i j. \<not> (0 \<le> i \<and> i < 1 \<and> 0 \<le> j \<and> j < 2) \<longrightarrow> out (i, j) = 0"
    by auto
  have "out (0, 0) = 3 / 0.9" "out (0, 1) = 4" "out (1, 0) = 0"
    using inside[rule_format, of 0 0] inside[rule_format, of 0 1] outside[rule_format, of 1 0]
    by (simp_all add: b)
  with run show ?thesis by blast
qed

text \<open>
  Claim C8 as stated fails in its concrete run: the cell \<open>(2, 2)\<close> receives \<open>1 / 8 ^ 1.25\<close>,
  which is not \<open>1 / 0.9\<close>; the cell that receives \<open>1 / 0.9\<close> is \<open>(0, 0)\<close>.
\<close>

theorem fractal_centre_counterexample:
  "map_option (\<lambda>out. out (2, 2)) fractal_run = Some (1 / complex_of_real (8 powr (5 / 4)))
   \<and> map_option (\<lambda>out. out (2, 2)) fractal_run \<noteq> Some (1 / 0.9)
   \<and> map_option (\<lambda>out. out (0, 0)) fractal_run = Some (1 / 0.9)"
proof -
  have "(8::real) powr 1 \<le> 8 powr (5 / 4)"
    by (rule powr_mono) simp_all
  then have big: "(8::real) \<le> 8 powr (5 / 4)"
    by simp
  have "complex_of_real (8 powr (5 / 4)) \<noteq> complex_of_real (9 / 10)"
    using big by (simp only: of_real_eq_iff)
  then have ne: "1 / complex_of_real (8 powr (5 / 4)) \<noteq> 1 / 0.9"
    by (simp add: field_simps)
  show ?thesis
    using ne fractal_run_B[of 2 2] by (simp add: fractal_run_closed fractal_run_B)
qed

end
